theory Spec2Isabelle
  imports Main "HOL-Library.Word"
begin

unbundle bit_operations_syntax

section \<open>The TWI master driver of TWIlib.c\<close>

text \<open>
  A shallow embedding of \<^verbatim>\<open>src/TWIlib.c\<close>: the four entry points
  \<^verbatim>\<open>TWIInit\<close>, \<^verbatim>\<open>isTWIReady\<close>, \<^verbatim>\<open>TWITransmitData\<close>,
  \<^verbatim>\<open>TWIReadData\<close> and the interrupt service routine \<^verbatim>\<open>ISR(TWI_vect)\<close>.
  The global variables of the driver are the fields of one state record that every
  function takes and returns. The hardware is seen through what the driver does to it:
  each write of the data register \<^verbatim>\<open>TWDR\<close> and each control macro call is appended
  to a trace kept in the state. Calls and interrupts are taken one at a time: no
  interrupt arrives in the middle of a request function.
\<close>

subsection \<open>What the header declares\<close>

type_synonym u8 = "8 word"

text \<open>
  \<^verbatim>\<open>TWIlib.h\<close> is not among the sources. The driver takes from it the two buffer
  capacities and the status codes that label the cases of the interrupt routine. They
  are parameters of the model: every function below takes the header's constants as its
  first argument.
\<close>

record twi_header =
  TXMAXBUFLEN :: nat
  RXMAXBUFLEN :: nat
  TWI_START_SENT :: u8
  TWI_REP_START_SENT :: u8
  TWI_MT_SLAW_ACK :: u8
  TWI_MT_SLAW_NACK :: u8
  TWI_MT_DATA_ACK :: u8
  TWI_MT_DATA_NACK :: u8
  TWI_MR_SLAR_ACK :: u8
  TWI_MR_SLAR_NACK :: u8
  TWI_MR_DATA_ACK :: u8
  TWI_MR_DATA_NACK :: u8
  TWI_LOST_ARBIT :: u8
  TWI_NO_RELEVANT_INFO :: u8
  TWI_ILLEGAL_START_STOP :: u8

text \<open>The case labels of the routine's \<^verbatim>\<open>switch\<close>, in the order of the source.\<close>

definition case_labels :: "twi_header \<Rightarrow> u8 list" where
  "case_labels h =
     [TWI_MT_SLAW_ACK h, TWI_START_SENT h, TWI_MT_DATA_ACK h, TWI_MR_SLAR_ACK h,
      TWI_MR_DATA_ACK h, TWI_MR_DATA_NACK h, TWI_MR_SLAR_NACK h, TWI_MT_SLAW_NACK h,
      TWI_MT_DATA_NACK h, TWI_LOST_ARBIT h, TWI_REP_START_SENT h,
      TWI_NO_RELEVANT_INFO h, TWI_ILLEGAL_START_STOP h]"

text \<open>
  A header the C compiler accepts: the labels of one \<^verbatim>\<open>switch\<close> are pairwise
  different, and an array has at least one element.
\<close>

definition header_ok :: "twi_header \<Rightarrow> bool" where
  "header_ok h = (distinct (case_labels h) \<and> 0 < TXMAXBUFLEN h \<and> 0 < RXMAXBUFLEN h)"

text \<open>
  The header of an ATmega: the status codes of the TWI status register as the data sheet
  lists them, and buffers of twenty bytes. It is the concrete header of the examples.
\<close>

definition avr_header :: twi_header where
  "avr_header =
     \<lparr>TXMAXBUFLEN = 20, RXMAXBUFLEN = 20,
      TWI_START_SENT = 0x08, TWI_REP_START_SENT = 0x10,
      TWI_MT_SLAW_ACK = 0x18, TWI_MT_SLAW_NACK = 0x20,
      TWI_MT_DATA_ACK = 0x28, TWI_MT_DATA_NACK = 0x30,
      TWI_MR_SLAR_ACK = 0x40, TWI_MR_SLAR_NACK = 0x48,
      TWI_MR_DATA_ACK = 0x50, TWI_MR_DATA_NACK = 0x58,
      TWI_LOST_ARBIT = 0x38, TWI_NO_RELEVANT_INFO = 0xF8,
      TWI_ILLEGAL_START_STOP = 0x00\<rparr>"

subsection \<open>The driver's state\<close>

text \<open>The modes the source assigns and tests.\<close>

datatype TWIMode = Ready | Initializing | RepeatedStartSent | MasterTransmitter | MasterReceiver

record TWIInfoStruct =
  mode :: TWIMode
  errorCode :: u8
  repStart :: u8

text \<open>
  What the driver does to the hardware. \<open>LoadTWDR b\<close> is the assignment
  \<^verbatim>\<open>TWDR = b\<close>; the five \<open>Send\<close> operations are the control macros of the header;
  \<open>SetupRegisters\<close> stands for the three register writes of \<^verbatim>\<open>TWIInit\<close>
  (prescaler, bit rate, enable), whose values depend on the clock constants only.
\<close>

datatype bus_op =
    SetupRegisters
  | LoadTWDR u8
  | TWISendStart
  | TWISendStop
  | TWISendTransmit
  | TWISendACK
  | TWISendNACK

text \<open>
  The globals. The two buffers are lists whose length is the capacity of the array. The
  four index and length variables are declared in the header; they are taken to be of
  type \<^verbatim>\<open>int\<close> or narrower, so that \<^verbatim>\<open>RXBuffLen-1\<close> is computed in
  \<^verbatim>\<open>int\<close> and is \<open>-1\<close> for a length of 0. The driver assigns them only zero and
  values of type \<^verbatim>\<open>uint8_t\<close> and increments them only after an array access
  at their value, so they stay far from the limits of \<^verbatim>\<open>int\<close> and are integers
  here.
\<close>

record twi_state =
  TWIInfo :: TWIInfoStruct
  TWITransmitBuffer :: "u8 list"
  TXBuffLen :: int
  TXBuffIndex :: int
  TWIReceiveBuffer :: "u8 list"
  RXBuffLen :: int
  RXBuffIndex :: int
  bus :: "bus_op list"

text \<open>An array access outside the array has no defined result in C: it is a fault.\<close>

datatype fault = OutOfBounds

definition load :: "u8 list \<Rightarrow> int \<Rightarrow> fault + u8" where
  "load buf i = (if 0 \<le> i \<and> i < int (length buf) then Inr (buf ! nat i) else Inl OutOfBounds)"

definition store :: "u8 list \<Rightarrow> int \<Rightarrow> u8 \<Rightarrow> fault + u8 list" where
  "store buf i v =
     (if 0 \<le> i \<and> i < int (length buf) then Inr (buf[nat i := v]) else Inl OutOfBounds)"

definition emit :: "bus_op \<Rightarrow> twi_state \<Rightarrow> twi_state" where
  "emit b s = s\<lparr>bus := bus s @ [b]\<rparr>"

definition set_mode :: "TWIMode \<Rightarrow> twi_state \<Rightarrow> twi_state" where
  "set_mode m s = s\<lparr>TWIInfo := (TWIInfo s)\<lparr>mode := m\<rparr>\<rparr>"

definition set_errorCode :: "u8 \<Rightarrow> twi_state \<Rightarrow> twi_state" where
  "set_errorCode e s = s\<lparr>TWIInfo := (TWIInfo s)\<lparr>errorCode := e\<rparr>\<rparr>"

definition set_repStart :: "u8 \<Rightarrow> twi_state \<Rightarrow> twi_state" where
  "set_repStart r s = s\<lparr>TWIInfo := (TWIInfo s)\<lparr>repStart := r\<rparr>\<rparr>"

text \<open>The arrays of a state have the capacities of the header.\<close>

definition buffers_sized :: "twi_header \<Rightarrow> twi_state \<Rightarrow> bool" where
  "buffers_sized h s =
     (length (TWITransmitBuffer s) = TXMAXBUFLEN h \<and> length (TWIReceiveBuffer s) = RXMAXBUFLEN h)"

subsection \<open>The request functions\<close>

definition TWIInit :: "twi_state \<Rightarrow> twi_state" where
  "TWIInit s =
     emit SetupRegisters (set_repStart 0 (set_errorCode 0xFF (set_mode Ready s)))"

definition isTWIReady :: "twi_state \<Rightarrow> u8" where
  "isTWIReady s =
     (if mode (TWIInfo s) = Ready \<or> mode (TWIInfo s) = RepeatedStartSent then 1 else 0)"

text \<open>
  The copy loop of \<^verbatim>\<open>TWITransmitData\<close>:
  \<^verbatim>\<open>for (int i = 0; i < dataLen; i++) TWITransmitBuffer[i] = data[i];\<close>
  The caller's data is a list; reading past its end, or writing past the end of the
  buffer, is a fault.
\<close>

function copy_loop :: "u8 list \<Rightarrow> nat \<Rightarrow> nat \<Rightarrow> u8 list \<Rightarrow> fault + u8 list" where
  "copy_loop data i dataLen buf =
     (if i < dataLen then
        (if i < length data \<and> i < length buf
         then copy_loop data (Suc i) dataLen (buf[i := data ! i])
         else Inl OutOfBounds)
      else Inr buf)"
  by pat_completeness auto
termination
  by (relation "measure (\<lambda>(data, i, dataLen, buf). dataLen - i)") auto

declare copy_loop.simps [simp del]

text \<open>
  \<^verbatim>\<open>TWITransmitData(TXdata, dataLen, repStart)\<close> returns its result code and the new
  state. In the branch of a held repeated start the first byte of the buffer goes to
  \<^verbatim>\<open>TWDR\<close> and the index is incremented.
\<close>

definition TWITransmitData ::
  "twi_header \<Rightarrow> u8 list \<Rightarrow> u8 \<Rightarrow> u8 \<Rightarrow> twi_state \<Rightarrow> fault + (u8 \<times> twi_state)" where
  "TWITransmitData h TXdata dataLen rs s =
     (if unat dataLen \<le> TXMAXBUFLEN h then
        (if isTWIReady s = 0 then Inr (2, s)
         else
           (case copy_loop TXdata 0 (unat dataLen) (TWITransmitBuffer s) of
              Inl f \<Rightarrow> Inl f
            | Inr buf \<Rightarrow>
                (let s1 = (set_repStart rs s)
                       \<lparr>TWITransmitBuffer := buf, TXBuffLen := uint dataLen, TXBuffIndex := 0\<rparr>
                 in if mode (TWIInfo s1) = RepeatedStartSent then
                      (case load (TWITransmitBuffer s1) (TXBuffIndex s1) of
                         Inl f \<Rightarrow> Inl f
                       | Inr b \<Rightarrow>
                           Inr (0, emit TWISendTransmit
                                     (emit (LoadTWDR b)
                                        ((set_mode Initializing s1)
                                           \<lparr>TXBuffIndex := TXBuffIndex s1 + 1\<rparr>))))
                    else Inr (0, emit TWISendStart (set_mode Initializing s1)))))
      else Inr (1, s))"

text \<open>
  \<^verbatim>\<open>TWIReadData(TWIaddr, bytesToRead, repStart)\<close>. The receive index and length are
  assigned before the transmit function is called, and the function returns 2 only when
  that call returned 2.
\<close>

definition TWIReadData ::
  "twi_header \<Rightarrow> u8 \<Rightarrow> u8 \<Rightarrow> u8 \<Rightarrow> twi_state \<Rightarrow> fault + (u8 \<times> twi_state)" where
  "TWIReadData h TWIaddr bytesToRead rs s =
     (if unat bytesToRead \<le> RXMAXBUFLEN h then
        (let s1 = s\<lparr>RXBuffIndex := 0, RXBuffLen := uint bytesToRead\<rparr>;
             TXdata = [push_bit 1 TWIaddr OR 0x01]
         in case TWITransmitData h TXdata 1 rs s1 of
              Inl f \<Rightarrow> Inl f
            | Inr (r, s2) \<Rightarrow> if r = 2 then Inr (2, s2) else Inr (0, s2))
      else Inr (1, s))"

subsection \<open>The interrupt service routine\<close>

text \<open>
  The body shared by the cases \<^verbatim>\<open>TWI_MT_SLAW_ACK\<close> (after its assignment of the
  mode), \<^verbatim>\<open>TWI_START_SENT\<close> and \<^verbatim>\<open>TWI_MT_DATA_ACK\<close>.
\<close>

definition mt_data_ack :: "twi_header \<Rightarrow> twi_state \<Rightarrow> fault + twi_state" where
  "mt_data_ack h s =
     (if TXBuffIndex s < TXBuffLen s then
        (case load (TWITransmitBuffer s) (TXBuffIndex s) of
           Inl f \<Rightarrow> Inl f
         | Inr b \<Rightarrow>
             Inr (emit TWISendTransmit
                    (set_errorCode (TWI_NO_RELEVANT_INFO h)
                       (emit (LoadTWDR b) (s\<lparr>TXBuffIndex := TXBuffIndex s + 1\<rparr>)))))
      else if repStart (TWIInfo s) \<noteq> 0 then
        Inr (emit TWISendStart (set_errorCode 0xFF s))
      else
        Inr (emit TWISendStop (set_errorCode 0xFF (set_mode Ready s))))"

text \<open>The reply chosen in the cases \<^verbatim>\<open>TWI_MR_SLAR_ACK\<close> and \<^verbatim>\<open>TWI_MR_DATA_ACK\<close>.\<close>

definition mr_reply :: "twi_header \<Rightarrow> twi_state \<Rightarrow> twi_state" where
  "mr_reply h s =
     (if RXBuffIndex s < RXBuffLen s - 1
      then emit TWISendACK (set_errorCode (TWI_NO_RELEVANT_INFO h) s)
      else emit TWISendNACK (set_errorCode (TWI_NO_RELEVANT_INFO h) s))"

text \<open>\<^verbatim>\<open>TWIReceiveBuffer[RXBuffIndex++] = TWDR;\<close>\<close>

definition mr_store :: "u8 \<Rightarrow> twi_state \<Rightarrow> fault + twi_state" where
  "mr_store twdr s =
     (case store (TWIReceiveBuffer s) (RXBuffIndex s) twdr of
        Inl f \<Rightarrow> Inl f
      | Inr buf \<Rightarrow> Inr (s\<lparr>TWIReceiveBuffer := buf, RXBuffIndex := RXBuffIndex s + 1\<rparr>))"

definition mr_data_ack :: "twi_header \<Rightarrow> u8 \<Rightarrow> twi_state \<Rightarrow> fault + twi_state" where
  "mr_data_ack h twdr s =
     (case mr_store twdr s of Inl f \<Rightarrow> Inl f | Inr s1 \<Rightarrow> Inr (mr_reply h s1))"

definition mr_data_nack :: "u8 \<Rightarrow> twi_state \<Rightarrow> fault + twi_state" where
  "mr_data_nack twdr s =
     (case mr_store twdr s of
        Inl f \<Rightarrow> Inl f
      | Inr s1 \<Rightarrow>
          if repStart (TWIInfo s1) \<noteq> 0 then
            Inr (emit TWISendStart (set_errorCode 0xFF s1))
          else
            Inr (emit TWISendStop (set_errorCode 0xFF (set_mode Ready s1))))"

text \<open>The common body of the three NACK cases and of lost arbitration.\<close>

definition bus_error :: "u8 \<Rightarrow> twi_state \<Rightarrow> twi_state" where
  "bus_error status s =
     (if repStart (TWIInfo s) \<noteq> 0 then
        emit TWISendStart (set_errorCode status s)
      else
        emit TWISendStop (set_errorCode status (set_mode Ready s)))"

text \<open>
  \<^verbatim>\<open>ISR(TWI_vect)\<close>. Its inputs are the two hardware registers it reads: the status
  \<^verbatim>\<open>TWI_STATUS\<close> and the data register \<^verbatim>\<open>TWDR\<close>. The status register keeps its
  value during one interrupt, so the second read of \<^verbatim>\<open>TWI_STATUS\<close> in the error
  case yields the value the \<^verbatim>\<open>switch\<close> was entered with. The cases are tried in
  the order of the source; a status that matches no label leaves the state as it is.
\<close>

definition ISR :: "twi_header \<Rightarrow> u8 \<Rightarrow> u8 \<Rightarrow> twi_state \<Rightarrow> fault + twi_state" where
  "ISR h status twdr s =
     (if status = TWI_MT_SLAW_ACK h then mt_data_ack h (set_mode MasterTransmitter s)
      else if status = TWI_START_SENT h \<or> status = TWI_MT_DATA_ACK h then mt_data_ack h s
      else if status = TWI_MR_SLAR_ACK h then Inr (mr_reply h (set_mode MasterReceiver s))
      else if status = TWI_MR_DATA_ACK h then mr_data_ack h twdr s
      else if status = TWI_MR_DATA_NACK h then mr_data_nack twdr s
      else if status = TWI_MR_SLAR_NACK h \<or> status = TWI_MT_SLAW_NACK h
              \<or> status = TWI_MT_DATA_NACK h \<or> status = TWI_LOST_ARBIT h
        then Inr (bus_error status s)
      else if status = TWI_REP_START_SENT h then Inr (set_mode RepeatedStartSent s)
      else if status = TWI_NO_RELEVANT_INFO h then Inr s
      else if status = TWI_ILLEGAL_START_STOP h then
        Inr (emit TWISendStop
               (set_mode Ready (set_errorCode (TWI_ILLEGAL_START_STOP h) s)))
      else Inr s)"

text \<open>A sequence of interrupts, each with its status and the content of \<^verbatim>\<open>TWDR\<close>.\<close>

fun run_ISR :: "twi_header \<Rightarrow> (u8 \<times> u8) list \<Rightarrow> twi_state \<Rightarrow> fault + twi_state" where
  "run_ISR h [] s = Inr s"
| "run_ISR h ((status, twdr) # evs) s =
     (case ISR h status twdr s of Inl f \<Rightarrow> Inl f | Inr s1 \<Rightarrow> run_ISR h evs s1)"

subsection \<open>Runs of the driver\<close>

text \<open>
  The globals as the C start-up code leaves them: static storage is zeroed, and the
  arrays have their declared sizes. The first enumerator of the mode is taken to be
  \<open>Ready\<close>; \<^verbatim>\<open>TWIInit\<close> assigns it in any case.
\<close>

definition power_on :: "twi_header \<Rightarrow> twi_state" where
  "power_on h =
     \<lparr>TWIInfo = \<lparr>mode = Ready, errorCode = 0, repStart = 0\<rparr>,
      TWITransmitBuffer = replicate (TXMAXBUFLEN h) 0, TXBuffLen = 0, TXBuffIndex = 0,
      TWIReceiveBuffer = replicate (RXMAXBUFLEN h) 0, RXBuffLen = 0, RXBuffIndex = 0,
      bus = []\<rparr>"

text \<open>
  What can happen to the driver: a call of one of the request functions by the program,
  or an interrupt. A run applies a list of them in order and stops at the first fault;
  the result codes of the calls are dropped.
\<close>

datatype request =
    CallInit
  | CallTransmit "u8 list" u8 u8
  | CallRead u8 u8 u8
  | Interrupt u8 u8

fun perform :: "twi_header \<Rightarrow> request \<Rightarrow> twi_state \<Rightarrow> fault + twi_state" where
  "perform h CallInit s = Inr (TWIInit s)"
| "perform h (CallTransmit TXdata dataLen rs) s = map_sum id snd (TWITransmitData h TXdata dataLen rs s)"
| "perform h (CallRead TWIaddr bytesToRead rs) s = map_sum id snd (TWIReadData h TWIaddr bytesToRead rs s)"
| "perform h (Interrupt status twdr) s = ISR h status twdr s"

fun perform_all :: "twi_header \<Rightarrow> request list \<Rightarrow> twi_state \<Rightarrow> fault + twi_state" where
  "perform_all h [] s = Inr s"
| "perform_all h (r # rs) s =
     (case perform h r s of Inl f \<Rightarrow> Inl f | Inr s1 \<Rightarrow> perform_all h rs s1)"

text \<open>The property of the two cursors: neither is beyond the length of its transfer.\<close>

definition cursors_within :: "twi_state \<Rightarrow> bool" where
  "cursors_within s = (TXBuffIndex s \<le> TXBuffLen s \<and> RXBuffIndex s \<le> RXBuffLen s)"

text \<open>
  The two requests that move a cursor without comparing it with the length first: a
  transmit call of no bytes that continues a held repeated start, and an interrupt for a
  received byte. \<open>in_transfer\<close> holds of a request unless it is the first, or the second
  with the receive cursor already at the length.
\<close>

fun in_transfer :: "twi_header \<Rightarrow> request \<Rightarrow> twi_state \<Rightarrow> bool" where
  "in_transfer h CallInit s = True"
| "in_transfer h (CallTransmit TXdata dataLen rs) s =
     (\<not> (mode (TWIInfo s) = RepeatedStartSent \<and> dataLen = 0))"
| "in_transfer h (CallRead TWIaddr bytesToRead rs) s = True"
| "in_transfer h (Interrupt status twdr) s =
     (if status = TWI_MR_DATA_ACK h \<or> status = TWI_MR_DATA_NACK h
      then RXBuffIndex s < RXBuffLen s else True)"

fun all_in_transfer :: "twi_header \<Rightarrow> request list \<Rightarrow> twi_state \<Rightarrow> bool" where
  "all_in_transfer h [] s = True"
| "all_in_transfer h (r # rs) s =
     (in_transfer h r s \<and>
      (case perform h r s of Inl f \<Rightarrow> False | Inr s1 \<Rightarrow> all_in_transfer h rs s1))"

subsection \<open>States of the examples\<close>

text \<open>
  The states of the examples are states the driver reaches on the ATmega header; the run
  that leads to each is given with it and proved below.

  A read of three bytes from address \<open>0x50\<close> under way: after initialisation and
  the read request, the start and the acknowledged address have been reported and the
  first byte, \<open>0x11\<close>, has been received.
\<close>

definition receiving_run :: "request list" where
  "receiving_run =
     [CallInit, CallRead 0x50 3 0, Interrupt 0x08 0, Interrupt 0x40 0, Interrupt 0x50 0x11]"

definition receiving_example :: twi_state where
  "receiving_example =
     \<lparr>TWIInfo = \<lparr>mode = MasterReceiver, errorCode = 0xF8, repStart = 0\<rparr>,
      TWITransmitBuffer = (replicate 20 0)[0 := 0xA1], TXBuffLen = 1, TXBuffIndex = 1,
      TWIReceiveBuffer = (replicate 20 0)[0 := 0x11], RXBuffLen = 3, RXBuffIndex = 1,
      bus = [SetupRegisters, TWISendStart, LoadTWDR 0xA1, TWISendTransmit,
             TWISendACK, TWISendACK]\<rparr>"

text \<open>
  A write of the two bytes \<open>0xA0\<close>, \<open>0x07\<close> has been requested after
  initialisation; the start condition is not yet reported.
\<close>

definition write_requested_run :: "request list" where
  "write_requested_run = [CallInit, CallTransmit [0xA0, 0x07] 2 0]"

definition write_requested_example :: twi_state where
  "write_requested_example =
     \<lparr>TWIInfo = \<lparr>mode = Initializing, errorCode = 0xFF, repStart = 0\<rparr>,
      TWITransmitBuffer = (replicate 20 0)[0 := 0xA0, 1 := 0x07], TXBuffLen = 2, TXBuffIndex = 0,
      TWIReceiveBuffer = replicate 20 0, RXBuffLen = 0, RXBuffIndex = 0,
      bus = [SetupRegisters, TWISendStart]\<rparr>"

text \<open>
  The same write requested with repeated start; the start and the acknowledged address
  have been reported, so both bytes have gone out.
\<close>

definition repeated_start_run :: "request list" where
  "repeated_start_run =
     [CallInit, CallTransmit [0xA0, 0x07] 2 1, Interrupt 0x08 0, Interrupt 0x18 0]"

definition repeated_start_example :: twi_state where
  "repeated_start_example =
     \<lparr>TWIInfo = \<lparr>mode = MasterTransmitter, errorCode = 0xF8, repStart = 1\<rparr>,
      TWITransmitBuffer = (replicate 20 0)[0 := 0xA0, 1 := 0x07], TXBuffLen = 2, TXBuffIndex = 2,
      TWIReceiveBuffer = replicate 20 0, RXBuffLen = 0, RXBuffIndex = 0,
      bus = [SetupRegisters, TWISendStart, LoadTWDR 0xA0, TWISendTransmit,
             LoadTWDR 0x07, TWISendTransmit]\<rparr>"

text \<open>
  After that, the acknowledge of the last byte and the transmitted repeated start have
  been reported.
\<close>

definition start_held_run :: "request list" where
  "start_held_run = repeated_start_run @ [Interrupt 0x28 0, Interrupt 0x10 0]"

definition start_held_example :: twi_state where
  "start_held_example =
     \<lparr>TWIInfo = \<lparr>mode = RepeatedStartSent, errorCode = 0xFF, repStart = 1\<rparr>,
      TWITransmitBuffer = (replicate 20 0)[0 := 0xA0, 1 := 0x07], TXBuffLen = 2, TXBuffIndex = 2,
      TWIReceiveBuffer = replicate 20 0, RXBuffLen = 0, RXBuffIndex = 0,
      bus = [SetupRegisters, TWISendStart, LoadTWDR 0xA0, TWISendTransmit,
             LoadTWDR 0x07, TWISendTransmit, TWISendStart]\<rparr>"

text \<open>
  A write of no bytes has been requested after initialisation; the start condition is not
  yet reported.
\<close>

definition empty_write_run :: "request list" where
  "empty_write_run = [CallInit, CallTransmit [] 0 0]"

definition empty_write_example :: twi_state where
  "empty_write_example =
     \<lparr>TWIInfo = \<lparr>mode = Initializing, errorCode = 0xFF, repStart = 0\<rparr>,
      TWITransmitBuffer = replicate 20 0, TXBuffLen = 0, TXBuffIndex = 0,
      TWIReceiveBuffer = replicate 20 0, RXBuffLen = 0, RXBuffIndex = 0,
      bus = [SetupRegisters, TWISendStart]\<rparr>"

text \<open>
  A header like the ATmega one with buffers of two bytes. On it, a read of two bytes from
  address \<open>0x50\<close> has run to its stop and filled the receive buffer; then a transmit
  request has sent the single byte \<open>0xA1\<close>, which on the bus is that address with
  the read bit, and the start and the acknowledge of SLA+R have been reported. The
  receive cursor still stands at 2, the capacity of the receive buffer.
\<close>

definition small_header :: twi_header where
  "small_header = avr_header\<lparr>TXMAXBUFLEN := 2, RXMAXBUFLEN := 2\<rparr>"

definition receive_full_run :: "request list" where
  "receive_full_run =
     [CallInit, CallRead 0x50 2 0, Interrupt 0x08 0, Interrupt 0x40 0, Interrupt 0x50 0x11,
      Interrupt 0x58 0x22, CallTransmit [0xA1] 1 0, Interrupt 0x08 0, Interrupt 0x40 0]"

definition receive_full_example :: twi_state where
  "receive_full_example =
     \<lparr>TWIInfo = \<lparr>mode = MasterReceiver, errorCode = 0xF8, repStart = 0\<rparr>,
      TWITransmitBuffer = (replicate 2 0)[0 := 0xA1], TXBuffLen = 1, TXBuffIndex = 1,
      TWIReceiveBuffer = (replicate 2 0)[0 := 0x11, 1 := 0x22], RXBuffLen = 2, RXBuffIndex = 2,
      bus = [SetupRegisters, TWISendStart, LoadTWDR 0xA1, TWISendTransmit, TWISendACK,
             TWISendNACK, TWISendStop, TWISendStart, LoadTWDR 0xA1, TWISendTransmit,
             TWISendNACK]\<rparr>"

subsection \<open>Auxiliary notions of the proofs\<close>

text \<open>
  The three statuses whose cases share the transmit body of the routine.
\<close>

definition mt_status :: "twi_header \<Rightarrow> u8 \<Rightarrow> bool" where
  "mt_status h status =
     (status = TWI_MT_SLAW_ACK h \<or> status = TWI_START_SENT h \<or> status = TWI_MT_DATA_ACK h)"

text \<open>
  The reply the routine chooses when the receive cursor stands at \<open>j\<close> in a read of
  \<open>n\<close> bytes: the comparison \<^verbatim>\<open>RXBuffIndex < RXBuffLen-1\<close> on naturals.
\<close>

definition reply_for :: "nat \<Rightarrow> nat \<Rightarrow> bus_op" where
  "reply_for n j = (if j + 1 < n then TWISendACK else TWISendNACK)"

text \<open>
  The array accesses of one interrupt are in bounds: when a status of the transmit group
  finds a byte left, the transmit cursor is an index of the transmit buffer, and at the
  two data-received statuses the receive cursor is an index of the receive buffer.
\<close>

definition accesses_in_bounds :: "twi_header \<Rightarrow> u8 \<Rightarrow> twi_state \<Rightarrow> bool" where
  "accesses_in_bounds h status s =
     ((if mt_status h status \<and> TXBuffIndex s < TXBuffLen s
       then 0 \<le> TXBuffIndex s \<and> TXBuffIndex s < int (length (TWITransmitBuffer s))
       else True) \<and>
      (if status = TWI_MR_DATA_ACK h \<or> status = TWI_MR_DATA_NACK h
       then 0 \<le> RXBuffIndex s \<and> RXBuffIndex s < int (length (TWIReceiveBuffer s))
       else True))"

section \<open>Dispatch of the interrupt routine\<close>

text \<open>
  Under a header whose labels are distinct, a status that is a label is different from
  every label the routine compares it with before.
\<close>

lemma START_SENT_not_earlier:
  "header_ok h \<Longrightarrow>
   TWI_START_SENT h \<noteq> TWI_MT_SLAW_ACK h"
  by (simp add: header_ok_def case_labels_def eq_commute)

lemma MT_DATA_ACK_not_earlier:
  "header_ok h \<Longrightarrow>
   TWI_MT_DATA_ACK h \<noteq> TWI_MT_SLAW_ACK h \<and>
   TWI_MT_DATA_ACK h \<noteq> TWI_START_SENT h"
  by (simp add: header_ok_def case_labels_def eq_commute)

lemma MR_SLAR_ACK_not_earlier:
  "header_ok h \<Longrightarrow>
   TWI_MR_SLAR_ACK h \<noteq> TWI_MT_SLAW_ACK h \<and>
   TWI_MR_SLAR_ACK h \<noteq> TWI_START_SENT h \<and>
   TWI_MR_SLAR_ACK h \<noteq> TWI_MT_DATA_ACK h"
  by (simp add: header_ok_def case_labels_def eq_commute)

lemma MR_DATA_ACK_not_earlier:
  "header_ok h \<Longrightarrow>
   TWI_MR_DATA_ACK h \<noteq> TWI_MT_SLAW_ACK h \<and>
   TWI_MR_DATA_ACK h \<noteq> TWI_START_SENT h \<and>
   TWI_MR_DATA_ACK h \<noteq> TWI_MT_DATA_ACK h \<and>
   TWI_MR_DATA_ACK h \<noteq> TWI_MR_SLAR_ACK h"
  by (simp add: header_ok_def case_labels_def eq_commute)

lemma MR_DATA_NACK_not_earlier:
  "header_ok h \<Longrightarrow>
   TWI_MR_DATA_NACK h \<noteq> TWI_MT_SLAW_ACK h \<and>
   TWI_MR_DATA_NACK h \<noteq> TWI_START_SENT h \<and>
   TWI_MR_DATA_NACK h \<noteq> TWI_MT_DATA_ACK h \<and>
   TWI_MR_DATA_NACK h \<noteq> TWI_MR_SLAR_ACK h \<and>
   TWI_MR_DATA_NACK h \<noteq> TWI_MR_DATA_ACK h"
  by (simp add: header_ok_def case_labels_def eq_commute)

lemma MR_SLAR_NACK_not_earlier:
  "header_ok h \<Longrightarrow>
   TWI_MR_SLAR_NACK h \<noteq> TWI_MT_SLAW_ACK h \<and>
   TWI_MR_SLAR_NACK h \<noteq> TWI_START_SENT h \<and>
   TWI_MR_SLAR_NACK h \<noteq> TWI_MT_DATA_ACK h \<and>
   TWI_MR_SLAR_NACK h \<noteq> TWI_MR_SLAR_ACK h \<and>
   TWI_MR_SLAR_NACK h \<noteq> TWI_MR_DATA_ACK h \<and>
   TWI_MR_SLAR_NACK h \<noteq> TWI_MR_DATA_NACK h"
  by (simp add: header_ok_def case_labels_def eq_commute)

lemma MT_SLAW_NACK_not_earlier:
  "header_ok h \<Longrightarrow>
   TWI_MT_SLAW_NACK h \<noteq> TWI_MT_SLAW_ACK h \<and>
   TWI_MT_SLAW_NACK h \<noteq> TWI_START_SENT h \<and>
   TWI_MT_SLAW_NACK h \<noteq> TWI_MT_DATA_ACK h \<and>
   TWI_MT_SLAW_NACK h \<noteq> TWI_MR_SLAR_ACK h \<and>
   TWI_MT_SLAW_NACK h \<noteq> TWI_MR_DATA_ACK h \<and>
   TWI_MT_SLAW_NACK h \<noteq> TWI_MR_DATA_NACK h \<and>
   TWI_MT_SLAW_NACK h \<noteq> TWI_MR_SLAR_NACK h"
  by (simp add: header_ok_def case_labels_def eq_commute)

lemma MT_DATA_NACK_not_earlier:
  "header_ok h \<Longrightarrow>
   TWI_MT_DATA_NACK h \<noteq> TWI_MT_SLAW_ACK h \<and>
   TWI_MT_DATA_NACK h \<noteq> TWI_START_SENT h \<and>
   TWI_MT_DATA_NACK h \<noteq> TWI_MT_DATA_ACK h \<and>
   TWI_MT_DATA_NACK h \<noteq> TWI_MR_SLAR_ACK h \<and>
   TWI_MT_DATA_NACK h \<noteq> TWI_MR_DATA_ACK h \<and>
   TWI_MT_DATA_NACK h \<noteq> TWI_MR_DATA_NACK h \<and>
   TWI_MT_DATA_NACK h \<noteq> TWI_MR_SLAR_NACK h \<and>
   TWI_MT_DATA_NACK h \<noteq> TWI_MT_SLAW_NACK h"
  by (simp add: header_ok_def case_labels_def eq_commute)

lemma LOST_ARBIT_not_earlier:
  "header_ok h \<Longrightarrow>
   TWI_LOST_ARBIT h \<noteq> TWI_MT_SLAW_ACK h \<and>
   TWI_LOST_ARBIT h \<noteq> TWI_START_SENT h \<and>
   TWI_LOST_ARBIT h \<noteq> TWI_MT_DATA_ACK h \<and>
   TWI_LOST_ARBIT h \<noteq> TWI_MR_SLAR_ACK h \<and>
   TWI_LOST_ARBIT h \<noteq> TWI_MR_DATA_ACK h \<and>
   TWI_LOST_ARBIT h \<noteq> TWI_MR_DATA_NACK h \<and>
   TWI_LOST_ARBIT h \<noteq> TWI_MR_SLAR_NACK h \<and>
   TWI_LOST_ARBIT h \<noteq> TWI_MT_SLAW_NACK h \<and>
   TWI_LOST_ARBIT h \<noteq> TWI_MT_DATA_NACK h"
  by (simp add: header_ok_def case_labels_def eq_commute)

lemma REP_START_SENT_not_earlier:
  "header_ok h \<Longrightarrow>
   TWI_REP_START_SENT h \<noteq> TWI_MT_SLAW_ACK h \<and>
   TWI_REP_START_SENT h \<noteq> TWI_START_SENT h \<and>
   TWI_REP_START_SENT h \<noteq> TWI_MT_DATA_ACK h \<and>
   TWI_REP_START_SENT h \<noteq> TWI_MR_SLAR_ACK h \<and>
   TWI_REP_START_SENT h \<noteq> TWI_MR_DATA_ACK h \<and>
   TWI_REP_START_SENT h \<noteq> TWI_MR_DATA_NACK h \<and>
   TWI_REP_START_SENT h \<noteq> TWI_MR_SLAR_NACK h \<and>
   TWI_REP_START_SENT h \<noteq> TWI_MT_SLAW_NACK h \<and>
   TWI_REP_START_SENT h \<noteq> TWI_MT_DATA_NACK h \<and>
   TWI_REP_START_SENT h \<noteq> TWI_LOST_ARBIT h"
  by (simp add: header_ok_def case_labels_def eq_commute)

lemma NO_RELEVANT_INFO_not_earlier:
  "header_ok h \<Longrightarrow>
   TWI_NO_RELEVANT_INFO h \<noteq> TWI_MT_SLAW_ACK h \<and>
   TWI_NO_RELEVANT_INFO h \<noteq> TWI_START_SENT h \<and>
   TWI_NO_RELEVANT_INFO h \<noteq> TWI_MT_DATA_ACK h \<and>
   TWI_NO_RELEVANT_INFO h \<noteq> TWI_MR_SLAR_ACK h \<and>
   TWI_NO_RELEVANT_INFO h \<noteq> TWI_MR_DATA_ACK h \<and>
   TWI_NO_RELEVANT_INFO h \<noteq> TWI_MR_DATA_NACK h \<and>
   TWI_NO_RELEVANT_INFO h \<noteq> TWI_MR_SLAR_NACK h \<and>
   TWI_NO_RELEVANT_INFO h \<noteq> TWI_MT_SLAW_NACK h \<and>
   TWI_NO_RELEVANT_INFO h \<noteq> TWI_MT_DATA_NACK h \<and>
   TWI_NO_RELEVANT_INFO h \<noteq> TWI_LOST_ARBIT h \<and>
   TWI_NO_RELEVANT_INFO h \<noteq> TWI_REP_START_SENT h"
  by (simp add: header_ok_def case_labels_def eq_commute)

lemma ILLEGAL_START_STOP_not_earlier:
  "header_ok h \<Longrightarrow>
   TWI_ILLEGAL_START_STOP h \<noteq> TWI_MT_SLAW_ACK h \<and>
   TWI_ILLEGAL_START_STOP h \<noteq> TWI_START_SENT h \<and>
   TWI_ILLEGAL_START_STOP h \<noteq> TWI_MT_DATA_ACK h \<and>
   TWI_ILLEGAL_START_STOP h \<noteq> TWI_MR_SLAR_ACK h \<and>
   TWI_ILLEGAL_START_STOP h \<noteq> TWI_MR_DATA_ACK h \<and>
   TWI_ILLEGAL_START_STOP h \<noteq> TWI_MR_DATA_NACK h \<and>
   TWI_ILLEGAL_START_STOP h \<noteq> TWI_MR_SLAR_NACK h \<and>
   TWI_ILLEGAL_START_STOP h \<noteq> TWI_MT_SLAW_NACK h \<and>
   TWI_ILLEGAL_START_STOP h \<noteq> TWI_MT_DATA_NACK h \<and>
   TWI_ILLEGAL_START_STOP h \<noteq> TWI_LOST_ARBIT h \<and>
   TWI_ILLEGAL_START_STOP h \<noteq> TWI_REP_START_SENT h \<and>
   TWI_ILLEGAL_START_STOP h \<noteq> TWI_NO_RELEVANT_INFO h"
  by (simp add: header_ok_def case_labels_def eq_commute)

lemma avr_header_ok: "header_ok avr_header"
  by (simp add: header_ok_def case_labels_def avr_header_def)

lemma small_header_ok: "header_ok small_header"
  by (simp add: header_ok_def case_labels_def small_header_def avr_header_def)

text \<open>The states of the examples are reached by their runs.\<close>

lemmas eval_defs = TWIInit_def TWIReadData_def TWITransmitData_def isTWIReady_def ISR_def
  mt_data_ack_def mr_reply_def mr_store_def mr_data_ack_def mr_data_nack_def bus_error_def
  load_def store_def emit_def set_mode_def set_errorCode_def set_repStart_def
  copy_loop.simps avr_header_def power_on_def

lemma receiving_example_reached:
  "perform_all avr_header receiving_run (power_on avr_header) = Inr receiving_example"
  by (simp add: receiving_run_def receiving_example_def eval_defs)

lemma write_requested_example_reached:
  "perform_all avr_header write_requested_run (power_on avr_header) =
     Inr write_requested_example"
  by (simp add: write_requested_run_def write_requested_example_def eval_defs)

lemma repeated_start_example_reached:
  "perform_all avr_header repeated_start_run (power_on avr_header) =
     Inr repeated_start_example"
  by (simp add: repeated_start_run_def repeated_start_example_def eval_defs)

lemma start_held_example_reached:
  "perform_all avr_header start_held_run (power_on avr_header) = Inr start_held_example"
  by (simp add: start_held_run_def repeated_start_run_def start_held_example_def eval_defs)

lemma empty_write_example_reached:
  "perform_all avr_header empty_write_run (power_on avr_header) = Inr empty_write_example"
  by (simp add: empty_write_run_def empty_write_example_def eval_defs)

text \<open>What the routine does for each label.\<close>

lemma ISR_MT_SLAW_ACK:
  "ISR h (TWI_MT_SLAW_ACK h) twdr s = mt_data_ack h (set_mode MasterTransmitter s)"
  by (simp add: ISR_def)

lemma ISR_START_SENT:
  "header_ok h \<Longrightarrow> ISR h (TWI_START_SENT h) twdr s = mt_data_ack h s"
  using START_SENT_not_earlier [of h] by (simp add: ISR_def)

lemma ISR_MT_DATA_ACK:
  "header_ok h \<Longrightarrow> ISR h (TWI_MT_DATA_ACK h) twdr s = mt_data_ack h s"
  using MT_DATA_ACK_not_earlier [of h] by (simp add: ISR_def)

lemma ISR_MR_SLAR_ACK:
  "header_ok h \<Longrightarrow>
   ISR h (TWI_MR_SLAR_ACK h) twdr s = Inr (mr_reply h (set_mode MasterReceiver s))"
  using MR_SLAR_ACK_not_earlier [of h] by (simp add: ISR_def)

lemma ISR_MR_DATA_ACK:
  "header_ok h \<Longrightarrow> ISR h (TWI_MR_DATA_ACK h) twdr s = mr_data_ack h twdr s"
  using MR_DATA_ACK_not_earlier [of h] by (simp add: ISR_def)

lemma ISR_MR_DATA_NACK:
  "header_ok h \<Longrightarrow> ISR h (TWI_MR_DATA_NACK h) twdr s = mr_data_nack twdr s"
  using MR_DATA_NACK_not_earlier [of h] by (simp add: ISR_def)

lemma ISR_MR_SLAR_NACK:
  "header_ok h \<Longrightarrow> ISR h (TWI_MR_SLAR_NACK h) twdr s = Inr (bus_error (TWI_MR_SLAR_NACK h) s)"
  using MR_SLAR_NACK_not_earlier [of h] by (simp add: ISR_def)

lemma ISR_MT_SLAW_NACK:
  "header_ok h \<Longrightarrow> ISR h (TWI_MT_SLAW_NACK h) twdr s = Inr (bus_error (TWI_MT_SLAW_NACK h) s)"
  using MT_SLAW_NACK_not_earlier [of h] by (simp add: ISR_def)

lemma ISR_MT_DATA_NACK:
  "header_ok h \<Longrightarrow> ISR h (TWI_MT_DATA_NACK h) twdr s = Inr (bus_error (TWI_MT_DATA_NACK h) s)"
  using MT_DATA_NACK_not_earlier [of h] by (simp add: ISR_def)

lemma ISR_LOST_ARBIT:
  "header_ok h \<Longrightarrow> ISR h (TWI_LOST_ARBIT h) twdr s = Inr (bus_error (TWI_LOST_ARBIT h) s)"
  using LOST_ARBIT_not_earlier [of h] by (simp add: ISR_def)

lemma ISR_REP_START_SENT:
  "header_ok h \<Longrightarrow> ISR h (TWI_REP_START_SENT h) twdr s = Inr (set_mode RepeatedStartSent s)"
  using REP_START_SENT_not_earlier [of h] by (simp add: ISR_def)

lemma ISR_ILLEGAL_START_STOP:
  "header_ok h \<Longrightarrow>
   ISR h (TWI_ILLEGAL_START_STOP h) twdr s =
     Inr (emit TWISendStop (set_mode Ready (set_errorCode (TWI_ILLEGAL_START_STOP h) s)))"
  using ILLEGAL_START_STOP_not_earlier [of h] by (simp add: ISR_def)

section \<open>What one interrupt leaves alone\<close>

lemmas update_defs = emit_def set_mode_def set_errorCode_def set_repStart_def

lemma mt_data_ack_frame:
  "mt_data_ack h s = Inr s' \<Longrightarrow>
   TWITransmitBuffer s' = TWITransmitBuffer s \<and> TXBuffLen s' = TXBuffLen s \<and>
   TWIReceiveBuffer s' = TWIReceiveBuffer s \<and> RXBuffLen s' = RXBuffLen s \<and>
   RXBuffIndex s' = RXBuffIndex s \<and> repStart (TWIInfo s') = repStart (TWIInfo s) \<and>
   TXBuffIndex s \<le> TXBuffIndex s' \<and> TXBuffIndex s' \<le> max (TXBuffIndex s) (TXBuffLen s)"
  by (auto simp: mt_data_ack_def update_defs split: if_splits sum.splits)

lemma mr_store_frame:
  "mr_store twdr s = Inr s' \<Longrightarrow>
   TWIInfo s' = TWIInfo s \<and> bus s' = bus s \<and>
   TWITransmitBuffer s' = TWITransmitBuffer s \<and> TXBuffLen s' = TXBuffLen s \<and>
   TXBuffIndex s' = TXBuffIndex s \<and> RXBuffLen s' = RXBuffLen s \<and>
   RXBuffIndex s' = RXBuffIndex s + 1 \<and>
   TWIReceiveBuffer s' = (TWIReceiveBuffer s)[nat (RXBuffIndex s) := twdr]"
  by (auto simp: mr_store_def store_def split: if_splits sum.splits)

lemma mr_reply_frame:
  "TWITransmitBuffer (mr_reply h s) = TWITransmitBuffer s \<and>
   TXBuffLen (mr_reply h s) = TXBuffLen s \<and> TXBuffIndex (mr_reply h s) = TXBuffIndex s \<and>
   TWIReceiveBuffer (mr_reply h s) = TWIReceiveBuffer s \<and>
   RXBuffLen (mr_reply h s) = RXBuffLen s \<and> RXBuffIndex (mr_reply h s) = RXBuffIndex s \<and>
   repStart (TWIInfo (mr_reply h s)) = repStart (TWIInfo s)"
  by (simp add: mr_reply_def update_defs)

lemma mr_data_ack_frame:
  "mr_data_ack h twdr s = Inr s' \<Longrightarrow>
   TWITransmitBuffer s' = TWITransmitBuffer s \<and> TXBuffLen s' = TXBuffLen s \<and>
   TXBuffIndex s' = TXBuffIndex s \<and> RXBuffLen s' = RXBuffLen s \<and>
   RXBuffIndex s' = RXBuffIndex s + 1 \<and> repStart (TWIInfo s') = repStart (TWIInfo s) \<and>
   TWIReceiveBuffer s' = (TWIReceiveBuffer s)[nat (RXBuffIndex s) := twdr]"
  by (auto simp: mr_data_ack_def mr_reply_frame split: sum.splits dest!: mr_store_frame)

lemma mr_data_nack_frame:
  "mr_data_nack twdr s = Inr s' \<Longrightarrow>
   TWITransmitBuffer s' = TWITransmitBuffer s \<and> TXBuffLen s' = TXBuffLen s \<and>
   TXBuffIndex s' = TXBuffIndex s \<and> RXBuffLen s' = RXBuffLen s \<and>
   RXBuffIndex s' = RXBuffIndex s + 1 \<and> repStart (TWIInfo s') = repStart (TWIInfo s) \<and>
   TWIReceiveBuffer s' = (TWIReceiveBuffer s)[nat (RXBuffIndex s) := twdr]"
  by (auto simp: mr_data_nack_def update_defs split: sum.splits if_splits dest!: mr_store_frame)

lemma bus_error_frame:
  "TWITransmitBuffer (bus_error st s) = TWITransmitBuffer s \<and>
   TXBuffLen (bus_error st s) = TXBuffLen s \<and> TXBuffIndex (bus_error st s) = TXBuffIndex s \<and>
   TWIReceiveBuffer (bus_error st s) = TWIReceiveBuffer s \<and>
   RXBuffLen (bus_error st s) = RXBuffLen s \<and> RXBuffIndex (bus_error st s) = RXBuffIndex s \<and>
   repStart (TWIInfo (bus_error st s)) = repStart (TWIInfo s)"
  by (simp add: bus_error_def update_defs)

lemma set_mode_frame:
  "TWITransmitBuffer (set_mode m s) = TWITransmitBuffer s \<and>
   TXBuffLen (set_mode m s) = TXBuffLen s \<and> TXBuffIndex (set_mode m s) = TXBuffIndex s \<and>
   TWIReceiveBuffer (set_mode m s) = TWIReceiveBuffer s \<and>
   RXBuffLen (set_mode m s) = RXBuffLen s \<and> RXBuffIndex (set_mode m s) = RXBuffIndex s \<and>
   repStart (TWIInfo (set_mode m s)) = repStart (TWIInfo s) \<and> bus (set_mode m s) = bus s"
  by (simp add: update_defs)

lemma ISR_branches:
  assumes "P (mt_data_ack h (set_mode MasterTransmitter s))"
    and "P (mt_data_ack h s)"
    and "P (Inr (mr_reply h (set_mode MasterReceiver s)))"
    and "P (mr_data_ack h twdr s)"
    and "P (mr_data_nack twdr s)"
    and "P (Inr (bus_error status s))"
    and "P (Inr (set_mode RepeatedStartSent s))"
    and "P (Inr (emit TWISendStop (set_mode Ready (set_errorCode (TWI_ILLEGAL_START_STOP h) s))))"
    and "P (Inr s)"
  shows "P (ISR h status twdr s)"
  unfolding ISR_def using assms by simp

text \<open>
  The branches of the routine; those that load or store a byte come with the status that
  selects them.
\<close>

lemma ISR_branches_guarded:
  assumes "status = TWI_MT_SLAW_ACK h \<Longrightarrow> P (mt_data_ack h (set_mode MasterTransmitter s))"
    and "status = TWI_START_SENT h \<or> status = TWI_MT_DATA_ACK h \<Longrightarrow> P (mt_data_ack h s)"
    and "P (Inr (mr_reply h (set_mode MasterReceiver s)))"
    and "status = TWI_MR_DATA_ACK h \<Longrightarrow> P (mr_data_ack h twdr s)"
    and "status = TWI_MR_DATA_NACK h \<Longrightarrow> P (mr_data_nack twdr s)"
    and "P (Inr (bus_error status s))"
    and "P (Inr (set_mode RepeatedStartSent s))"
    and "P (Inr (emit TWISendStop (set_mode Ready (set_errorCode (TWI_ILLEGAL_START_STOP h) s))))"
    and "P (Inr s)"
  shows "P (ISR h status twdr s)"
  unfolding ISR_def using assms by simp

text \<open>No interrupt changes the repeated-start flag.\<close>

lemma ISR_repStart:
  assumes "ISR h status twdr s = Inr s'"
  shows "repStart (TWIInfo s') = repStart (TWIInfo s)"
proof -
  let ?same = "\<lambda>t. repStart (TWIInfo t) = repStart (TWIInfo s)"
  have "\<forall>t. ISR h status twdr s = Inr t \<longrightarrow> ?same t"
  proof (rule ISR_branches)
    show "\<forall>t. mt_data_ack h (set_mode MasterTransmitter s) = Inr t \<longrightarrow> ?same t"
      using mt_data_ack_frame [of h "set_mode MasterTransmitter s"] by (simp add: set_mode_frame)
    show "\<forall>t. mt_data_ack h s = Inr t \<longrightarrow> ?same t"
      using mt_data_ack_frame [of h s] by simp
    show "\<forall>t. Inr (mr_reply h (set_mode MasterReceiver s)) = Inr t \<longrightarrow> ?same t"
      by (simp add: mr_reply_frame set_mode_frame)
    show "\<forall>t. mr_data_ack h twdr s = Inr t \<longrightarrow> ?same t"
      using mr_data_ack_frame [of h twdr s] by simp
    show "\<forall>t. mr_data_nack twdr s = Inr t \<longrightarrow> ?same t"
      using mr_data_nack_frame [of twdr s] by simp
    show "\<forall>t. Inr (bus_error status s) = Inr t \<longrightarrow> ?same t"
      by (simp add: bus_error_frame)
    show "\<forall>t. Inr (set_mode RepeatedStartSent s) = Inr t \<longrightarrow> ?same t"
      by (simp add: set_mode_frame)
    show "\<forall>t. Inr (emit TWISendStop (set_mode Ready (set_errorCode (TWI_ILLEGAL_START_STOP h) s))) = Inr t
            \<longrightarrow> ?same t"
      by (simp add: update_defs)
    show "\<forall>t. Inr s = Inr t \<longrightarrow> ?same t"
      by simp
  qed
  with assms show ?thesis by simp
qed

lemma run_ISR_repStart:
  "run_ISR h evs s = Inr s' \<Longrightarrow> repStart (TWIInfo s') = repStart (TWIInfo s)"
proof (induction evs arbitrary: s)
  case Nil
  then show ?case by simp
next
  case (Cons e evs)
  obtain status twdr where e: "e = (status, twdr)" by (cases e)
  from Cons.prems obtain s1 where s1: "ISR h status twdr s = Inr s1"
    and r: "run_ISR h evs s1 = Inr s'"
    by (auto simp: e split: sum.splits)
  from Cons.IH [OF r] ISR_repStart [OF s1] show ?case by simp
qed

text \<open>With its array access in bounds, each body ends without fault.\<close>

lemma mt_data_ack_defined:
  "TXBuffIndex s < TXBuffLen s \<longrightarrow>
     0 \<le> TXBuffIndex s \<and> TXBuffIndex s < int (length (TWITransmitBuffer s)) \<Longrightarrow>
   \<exists>s'. mt_data_ack h s = Inr s'"
  by (auto simp: mt_data_ack_def load_def)

lemma mr_store_defined:
  "0 \<le> RXBuffIndex s \<Longrightarrow> RXBuffIndex s < int (length (TWIReceiveBuffer s)) \<Longrightarrow>
   \<exists>s'. mr_store twdr s = Inr s'"
  by (simp add: mr_store_def store_def)

lemma mr_data_ack_defined:
  "0 \<le> RXBuffIndex s \<Longrightarrow> RXBuffIndex s < int (length (TWIReceiveBuffer s)) \<Longrightarrow>
   \<exists>s'. mr_data_ack h twdr s = Inr s'"
  using mr_store_defined [of s twdr] by (auto simp: mr_data_ack_def)

lemma mr_data_nack_defined:
  "0 \<le> RXBuffIndex s \<Longrightarrow> RXBuffIndex s < int (length (TWIReceiveBuffer s)) \<Longrightarrow>
   \<exists>s'. mr_data_nack twdr s = Inr s'"
  using mr_store_defined [of s twdr] by (auto simp: mr_data_nack_def)

text \<open>
  Claim C10, as the specification states it, fails. On the header with buffers of two
  bytes the driver reaches, by calls and interrupts only, a state in mode
  \<open>MasterReceiver\<close> whose receive cursor equals the capacity of the receive buffer.
  The interrupt for a received byte then stores at position 2 of an array of two bytes:
  the routine writes outside \<^verbatim>\<open>TWIReceiveBuffer\<close>, onto whatever lies behind it, and
  nothing can be said about what this invocation leaves unmodified.
\<close>

theorem store_past_buffer_counterexample:
  "header_ok small_header \<and>
   perform_all small_header receive_full_run (power_on small_header) = Inr receive_full_example \<and>
   RXBuffIndex receive_full_example = int (RXMAXBUFLEN small_header) \<and>
   ISR small_header (TWI_MR_DATA_NACK small_header) 0x33 receive_full_example = Inl OutOfBounds"
  using small_header_ok
  by (simp add: receive_full_run_def receive_full_example_def small_header_def
      TWIInit_def TWIReadData_def TWITransmitData_def isTWIReady_def ISR_def
      mt_data_ack_def mr_reply_def mr_store_def mr_data_ack_def mr_data_nack_def bus_error_def
      load_def store_def update_defs copy_loop.simps avr_header_def power_on_def)

text \<open>
  Claim C10, amended. For every status, one run of the interrupt routine whose array
  accesses are in bounds (\<open>accesses_in_bounds\<close>: the transmit cursor inside the
  transmit buffer when a status of the transmit group finds a byte left, the receive
  cursor inside the receive buffer at the two data-received statuses) ends without a
  fault and leaves the content and the length of the transmit buffer, the length of the
  receive transfer and the repeated-start flag as they were. The receive buffer is
  unchanged or has the byte of \<^verbatim>\<open>TWDR\<close> written at the old receive cursor, and
  neither cursor moves backwards. Nothing is stated about a data-received interrupt
  whose receive cursor lies outside the receive buffer.
\<close>

theorem ISR_frame:
  assumes "accesses_in_bounds h status s"
  shows "\<exists>s'. ISR h status twdr s = Inr s' \<and>
         TWITransmitBuffer s' = TWITransmitBuffer s \<and> TXBuffLen s' = TXBuffLen s \<and>
         RXBuffLen s' = RXBuffLen s \<and> repStart (TWIInfo s') = repStart (TWIInfo s) \<and>
         (TWIReceiveBuffer s' = TWIReceiveBuffer s \<or>
          TWIReceiveBuffer s' = (TWIReceiveBuffer s)[nat (RXBuffIndex s) := twdr]) \<and>
         TXBuffIndex s \<le> TXBuffIndex s' \<and> RXBuffIndex s \<le> RXBuffIndex s'"
proof -
  let ?frame = "\<lambda>t. TWITransmitBuffer t = TWITransmitBuffer s \<and> TXBuffLen t = TXBuffLen s \<and>
         RXBuffLen t = RXBuffLen s \<and> repStart (TWIInfo t) = repStart (TWIInfo s) \<and>
         (TWIReceiveBuffer t = TWIReceiveBuffer s \<or>
          TWIReceiveBuffer t = (TWIReceiveBuffer s)[nat (RXBuffIndex s) := twdr]) \<and>
         TXBuffIndex s \<le> TXBuffIndex t \<and> RXBuffIndex s \<le> RXBuffIndex t"
  show "\<exists>t. ISR h status twdr s = Inr t \<and> ?frame t"
  proof (rule ISR_branches_guarded)
    assume st: "status = TWI_MT_SLAW_ACK h"
    with assms have "TXBuffIndex s < TXBuffLen s \<longrightarrow>
        0 \<le> TXBuffIndex s \<and> TXBuffIndex s < int (length (TWITransmitBuffer s))"
      by (simp add: accesses_in_bounds_def mt_status_def)
    then obtain t where t: "mt_data_ack h (set_mode MasterTransmitter s) = Inr t"
      using mt_data_ack_defined [of "set_mode MasterTransmitter s" h]
      by (auto simp: set_mode_frame)
    from mt_data_ack_frame [OF t] t
    show "\<exists>t. mt_data_ack h (set_mode MasterTransmitter s) = Inr t \<and> ?frame t"
      by (simp add: set_mode_frame)
  next
    assume st: "status = TWI_START_SENT h \<or> status = TWI_MT_DATA_ACK h"
    with assms have "TXBuffIndex s < TXBuffLen s \<longrightarrow>
        0 \<le> TXBuffIndex s \<and> TXBuffIndex s < int (length (TWITransmitBuffer s))"
      by (auto simp: accesses_in_bounds_def mt_status_def)
    then obtain t where t: "mt_data_ack h s = Inr t"
      using mt_data_ack_defined [of s h] by auto
    from mt_data_ack_frame [OF t] t
    show "\<exists>t. mt_data_ack h s = Inr t \<and> ?frame t"
      by simp
  next
    show "\<exists>t. Inr (mr_reply h (set_mode MasterReceiver s)) = Inr t \<and> ?frame t"
      by (simp add: mr_reply_frame set_mode_frame)
  next
    assume st: "status = TWI_MR_DATA_ACK h"
    with assms obtain t where t: "mr_data_ack h twdr s = Inr t"
      using mr_data_ack_defined [of s h twdr] by (auto simp: accesses_in_bounds_def)
    from mr_data_ack_frame [OF t] t
    show "\<exists>t. mr_data_ack h twdr s = Inr t \<and> ?frame t"
      by simp
  next
    assume st: "status = TWI_MR_DATA_NACK h"
    with assms obtain t where t: "mr_data_nack twdr s = Inr t"
      using mr_data_nack_defined [of s twdr] by (auto simp: accesses_in_bounds_def)
    from mr_data_nack_frame [OF t] t
    show "\<exists>t. mr_data_nack twdr s = Inr t \<and> ?frame t"
      by simp
  next
    show "\<exists>t. Inr (bus_error status s) = Inr t \<and> ?frame t"
      by (simp add: bus_error_frame)
  next
    show "\<exists>t. Inr (set_mode RepeatedStartSent s) = Inr t \<and> ?frame t"
      by (simp add: set_mode_frame)
  next
    show "\<exists>t. Inr (emit TWISendStop (set_mode Ready (set_errorCode (TWI_ILLEGAL_START_STOP h) s)))
            = Inr t \<and> ?frame t"
      by (simp add: update_defs)
  next
    show "\<exists>t. Inr s = Inr t \<and> ?frame t"
      by simp
  qed
qed

text \<open>The data-received interrupt for the second byte of the example read.\<close>

theorem ISR_frame_witness:
  "accesses_in_bounds avr_header 0x50 receiving_example \<and>
   (\<exists>s'. ISR avr_header 0x50 0xAB receiving_example = Inr s' \<and>
         TWITransmitBuffer s' = TWITransmitBuffer receiving_example \<and>
         TXBuffLen s' = TXBuffLen receiving_example \<and>
         RXBuffLen s' = RXBuffLen receiving_example \<and>
         repStart (TWIInfo s') = repStart (TWIInfo receiving_example) \<and>
         (TWIReceiveBuffer s' = TWIReceiveBuffer receiving_example \<or>
          TWIReceiveBuffer s' =
            (TWIReceiveBuffer receiving_example)[nat (RXBuffIndex receiving_example) := 0xAB]) \<and>
         TXBuffIndex receiving_example \<le> TXBuffIndex s' \<and>
         RXBuffIndex receiving_example \<le> RXBuffIndex s') \<and>
   ISR avr_header 0x50 0xAB receiving_example =
     Inr (receiving_example
            \<lparr>TWIReceiveBuffer := (TWIReceiveBuffer receiving_example)[1 := 0xAB],
             RXBuffIndex := 2, bus := bus receiving_example @ [TWISendNACK]\<rparr>)"
proof -
  have pre: "accesses_in_bounds avr_header 0x50 receiving_example"
    by (simp add: accesses_in_bounds_def mt_status_def avr_header_def receiving_example_def)
  have run: "ISR avr_header 0x50 0xAB receiving_example =
     Inr (receiving_example
            \<lparr>TWIReceiveBuffer := (TWIReceiveBuffer receiving_example)[1 := 0xAB],
             RXBuffIndex := 2, bus := bus receiving_example @ [TWISendNACK]\<rparr>)"
    by (simp add: ISR_def avr_header_def mr_data_ack_def mr_store_def store_def mr_reply_def
        update_defs receiving_example_def)
  from pre ISR_frame [OF pre, of "0xAB"] run show ?thesis by (intro conjI)
qed

section \<open>Rejected requests\<close>

text \<open>
  Claim C8. A transmit request longer than the transmit buffer returns 1 and the state
  it was called in; a read request for more bytes than the receive buffer holds returns
  1 and the state it was called in.
\<close>

theorem buffer_overflow_rejected:
  "(TXMAXBUFLEN h < unat dataLen \<longrightarrow> TWITransmitData h TXdata dataLen rs s = Inr (1, s)) \<and>
   (RXMAXBUFLEN h < unat bytesToRead \<longrightarrow> TWIReadData h TWIaddr bytesToRead rs s = Inr (1, s))"
  by (simp add: TWITransmitData_def TWIReadData_def)

text \<open>Twenty-one bytes to send and two hundred to read, with buffers of twenty.\<close>

theorem buffer_overflow_rejected_witness:
  "TXMAXBUFLEN avr_header < unat (21 :: u8) \<and>
   TWITransmitData avr_header (replicate 21 0x55) 21 0 (power_on avr_header) = Inr (1, power_on avr_header) \<and>
   RXMAXBUFLEN avr_header < unat (200 :: u8) \<and>
   TWIReadData avr_header 0x50 200 0 (power_on avr_header) = Inr (1, power_on avr_header)"
  using buffer_overflow_rejected [where h = avr_header and dataLen = 21 and TXdata = "replicate 21 0x55"
      and rs = 0 and s = "power_on avr_header" and bytesToRead = 200 and TWIaddr = "0x50"]
  by (simp add: avr_header_def)

section \<open>Errors on the bus\<close>

text \<open>
  Claim C7. When the status is that of lost arbitration and no repeated start was asked
  for, the routine records the status as the error code, sets the mode to \<open>Ready\<close>
  and sends a stop; this holds in every mode and for every position of the cursors, and
  nothing else of the state changes.
\<close>

theorem arbitration_lost_without_repStart:
  assumes "header_ok h" and "repStart (TWIInfo s) = 0"
  shows "ISR h (TWI_LOST_ARBIT h) twdr s =
           Inr (s\<lparr>TWIInfo := \<lparr>mode = Ready, errorCode = TWI_LOST_ARBIT h, repStart = 0\<rparr>,
                   bus := bus s @ [TWISendStop]\<rparr>)"
  using assms by (simp add: ISR_LOST_ARBIT bus_error_def update_defs)

text \<open>Arbitration is lost in the middle of the example read.\<close>

theorem arbitration_lost_without_repStart_witness:
  "header_ok avr_header \<and> repStart (TWIInfo receiving_example) = 0 \<and>
   ISR avr_header (TWI_LOST_ARBIT avr_header) 0x5A receiving_example =
     Inr (receiving_example
            \<lparr>TWIInfo := \<lparr>mode = Ready, errorCode = TWI_LOST_ARBIT avr_header, repStart = 0\<rparr>,
             bus := bus receiving_example @ [TWISendStop]\<rparr>)"
proof -
  have rep: "repStart (TWIInfo receiving_example) = 0"
    by (simp add: receiving_example_def)
  from avr_header_ok rep arbitration_lost_without_repStart [OF avr_header_ok rep, of "0x5A"]
  show ?thesis by (intro conjI)
qed

section \<open>Lists, words and loops\<close>

text \<open>The address byte of a read as a number: twice the address plus the read bit.\<close>

lemma address_byte_value:
  "unat (push_bit 1 a OR 1 :: u8) = (2 * unat a + 1) mod 256"
proof -
  have "push_bit 1 a OR 1 = 2 * a + 1"
    by (simp add: push_bit_eq_mult or_one_eq)
  then show ?thesis
    by (simp add: unat_word_ariths mod_simps)
qed

text \<open>The copy loop overwrites the first \<open>dataLen\<close> bytes of the buffer with the data.\<close>

lemma copy_loop_result:
  "dataLen \<le> length data \<Longrightarrow> dataLen \<le> length buf \<Longrightarrow> i \<le> dataLen \<Longrightarrow>
   copy_loop data i dataLen buf =
     Inr (take i buf @ drop i (take dataLen data) @ drop dataLen buf)"
proof (induction data i dataLen buf rule: copy_loop.induct)
  case (1 data i dataLen buf)
  show ?case
  proof (cases "i < dataLen")
    case True
    with "1.prems" have lt: "i < length data" "i < length buf" by simp_all
    have step: "copy_loop data i dataLen buf =
        copy_loop data (Suc i) dataLen (buf[i := data ! i])"
      using True lt by (subst copy_loop.simps) simp
    have ih: "copy_loop data (Suc i) dataLen (buf[i := data ! i]) =
        Inr (take (Suc i) (buf[i := data ! i]) @ drop (Suc i) (take dataLen data)
             @ drop dataLen (buf[i := data ! i]))"
      using "1.IH" [OF True] lt "1.prems" True by simp
    have a: "take (Suc i) (buf[i := data ! i]) = take i buf @ [data ! i]"
      using lt by (simp add: take_Suc_conv_app_nth)
    have b: "drop i (take dataLen data) = data ! i # drop (Suc i) (take dataLen data)"
      using True lt "1.prems" by (simp add: Cons_nth_drop_Suc [symmetric])
    have c: "drop dataLen (buf[i := data ! i]) = drop dataLen buf"
      using True by simp
    show ?thesis by (simp add: step ih a b c)
  next
    case False
    with "1.prems" have "i = dataLen" by simp
    then show ?thesis by (subst copy_loop.simps) simp
  qed
qed

lemma copy_loop_all:
  "dataLen \<le> length data \<Longrightarrow> dataLen \<le> length buf \<Longrightarrow>
   copy_loop data 0 dataLen buf = Inr (take dataLen data @ drop dataLen buf)"
  using copy_loop_result [of dataLen data buf 0] by simp

lemma run_ISR_append:
  "run_ISR h (xs @ ys) s =
     (case run_ISR h xs s of Inl f \<Rightarrow> Inl f | Inr s1 \<Rightarrow> run_ISR h ys s1)"
  by (induction xs arbitrary: s) (auto split: sum.splits)

lemma take_first_rest:
  "0 < n \<Longrightarrow> n \<le> length xs \<Longrightarrow> take n xs = xs ! 0 # take (n - 1) (drop 1 xs)"
  by (cases xs; cases n) simp_all

lemma store_last:
  assumes "length rx = Suc m" and "Suc m \<le> length buf"
  shows "(butlast rx @ drop m buf)[m := last rx] = rx @ drop (Suc m) buf"
proof -
  have rx: "rx \<noteq> []" "length (butlast rx) = m" using assms by auto
  have "drop m buf = buf ! m # drop (Suc m) buf"
    using assms by (simp add: Cons_nth_drop_Suc)
  then have "(butlast rx @ drop m buf)[m := last rx] = butlast rx @ (last rx # drop (Suc m) buf)"
    using rx by (simp add: list_update_append)
  also have "\<dots> = (butlast rx @ [last rx]) @ drop (Suc m) buf" by simp
  finally show ?thesis using rx by simp
qed

lemma replies_ack:
  "k < n \<Longrightarrow> map (reply_for n) [0..<k] = replicate k TWISendACK"
  by (induction k) (simp_all add: reply_for_def replicate_append_same)

lemma replies_all:
  assumes "0 < n"
  shows "map (reply_for n) [0..<n] = replicate (n - 1) TWISendACK @ [TWISendNACK]"
proof -
  obtain m where n: "n = Suc m" using assms by (cases n) auto
  have "map (reply_for n) [0..<m] = replicate m TWISendACK"
    by (rule replies_ack) (simp add: n)
  then show ?thesis by (simp add: n reply_for_def)
qed

section \<open>Single calls and single interrupts\<close>

lemma mt_data_ack_load:
  "0 \<le> TXBuffIndex s \<Longrightarrow> TXBuffIndex s < TXBuffLen s \<Longrightarrow>
   TXBuffIndex s < int (length (TWITransmitBuffer s)) \<Longrightarrow>
   mt_data_ack h s =
     Inr (s\<lparr>TWIInfo := (TWIInfo s)\<lparr>errorCode := TWI_NO_RELEVANT_INFO h\<rparr>,
             TXBuffIndex := TXBuffIndex s + 1,
             bus := bus s @ [LoadTWDR (TWITransmitBuffer s ! nat (TXBuffIndex s)),
                             TWISendTransmit]\<rparr>)"
  by (simp add: mt_data_ack_def load_def update_defs)

lemma mt_data_ack_stop:
  "TXBuffLen s \<le> TXBuffIndex s \<Longrightarrow> repStart (TWIInfo s) = 0 \<Longrightarrow>
   mt_data_ack h s =
     Inr (s\<lparr>TWIInfo := \<lparr>mode = Ready, errorCode = 0xFF, repStart = 0\<rparr>,
             bus := bus s @ [TWISendStop]\<rparr>)"
  by (simp add: mt_data_ack_def update_defs)

lemma mt_data_ack_restart:
  "TXBuffLen s \<le> TXBuffIndex s \<Longrightarrow> repStart (TWIInfo s) \<noteq> 0 \<Longrightarrow>
   mt_data_ack h s =
     Inr (s\<lparr>TWIInfo := (TWIInfo s)\<lparr>errorCode := 0xFF\<rparr>, bus := bus s @ [TWISendStart]\<rparr>)"
  by (simp add: mt_data_ack_def update_defs)

lemma ISR_mt_status:
  "header_ok h \<Longrightarrow> mt_status h status \<Longrightarrow>
   ISR h status twdr s =
     mt_data_ack h (if status = TWI_MT_SLAW_ACK h then set_mode MasterTransmitter s else s)"
  unfolding mt_status_def
  using ISR_MT_SLAW_ACK [of h twdr s] ISR_START_SENT [of h twdr s] ISR_MT_DATA_ACK [of h twdr s]
    START_SENT_not_earlier [of h] MT_DATA_ACK_not_earlier [of h]
  by auto

lemma mr_reply_eq:
  "RXBuffIndex t = int j \<Longrightarrow> RXBuffLen t = int n \<Longrightarrow>
   mr_reply h t =
     t\<lparr>TWIInfo := (TWIInfo t)\<lparr>errorCode := TWI_NO_RELEVANT_INFO h\<rparr>,
       bus := bus t @ [reply_for n j]\<rparr>"
  by (auto simp: mr_reply_def reply_for_def update_defs)

lemma mr_data_ack_step:
  assumes "RXBuffIndex t = int i" and "RXBuffLen t = int n"
    and "i < length (TWIReceiveBuffer t)"
  shows "mr_data_ack h twdr t =
     Inr (t\<lparr>TWIInfo := (TWIInfo t)\<lparr>errorCode := TWI_NO_RELEVANT_INFO h\<rparr>,
             TWIReceiveBuffer := (TWIReceiveBuffer t)[i := twdr],
             RXBuffIndex := int (Suc i),
             bus := bus t @ [reply_for n (Suc i)]\<rparr>)"
proof -
  let ?t1 = "t\<lparr>TWIReceiveBuffer := (TWIReceiveBuffer t)[i := twdr], RXBuffIndex := int (Suc i)\<rparr>"
  have "mr_store twdr t = Inr ?t1"
    using assms by (simp add: mr_store_def store_def)
  moreover have "mr_reply h ?t1 =
      ?t1\<lparr>TWIInfo := (TWIInfo ?t1)\<lparr>errorCode := TWI_NO_RELEVANT_INFO h\<rparr>,
       bus := bus ?t1 @ [reply_for n (Suc i)]\<rparr>"
    using assms by (intro mr_reply_eq) simp_all
  ultimately show ?thesis
    by (simp add: mr_data_ack_def)
qed

lemma mr_data_nack_step:
  assumes "RXBuffIndex t = int i" and "i < length (TWIReceiveBuffer t)"
  shows "mr_data_nack twdr t =
     Inr (t\<lparr>TWIInfo := (TWIInfo t)
               \<lparr>mode := (if repStart (TWIInfo t) = 0 then Ready else mode (TWIInfo t)),
                errorCode := 0xFF\<rparr>,
             TWIReceiveBuffer := (TWIReceiveBuffer t)[i := twdr],
             RXBuffIndex := int (Suc i),
             bus := bus t @ [if repStart (TWIInfo t) = 0 then TWISendStop else TWISendStart]\<rparr>)"
  using assms by (simp add: mr_data_nack_def mr_store_def store_def update_defs)

lemma TWITransmitData_from_Ready:
  assumes "mode (TWIInfo s) = Ready" and "unat dataLen \<le> TXMAXBUFLEN h"
    and "unat dataLen \<le> length TXdata" and "length (TWITransmitBuffer s) = TXMAXBUFLEN h"
  shows "TWITransmitData h TXdata dataLen rs s =
     Inr (0, s\<lparr>TWIInfo := (TWIInfo s)\<lparr>mode := Initializing, repStart := rs\<rparr>,
                TWITransmitBuffer :=
                  take (unat dataLen) TXdata @ drop (unat dataLen) (TWITransmitBuffer s),
                TXBuffLen := uint dataLen, TXBuffIndex := 0,
                bus := bus s @ [TWISendStart]\<rparr>)"
  using assms
  by (simp add: TWITransmitData_def isTWIReady_def copy_loop_all update_defs)

lemma TWITransmitData_from_RepeatedStartSent:
  assumes "mode (TWIInfo s) = RepeatedStartSent" and "unat dataLen \<le> TXMAXBUFLEN h"
    and "unat dataLen \<le> length TXdata" and "length (TWITransmitBuffer s) = TXMAXBUFLEN h"
    and "0 < TXMAXBUFLEN h"
  shows "TWITransmitData h TXdata dataLen rs s =
     Inr (0, s\<lparr>TWIInfo := (TWIInfo s)\<lparr>mode := Initializing, repStart := rs\<rparr>,
                TWITransmitBuffer :=
                  take (unat dataLen) TXdata @ drop (unat dataLen) (TWITransmitBuffer s),
                TXBuffLen := uint dataLen, TXBuffIndex := 1,
                bus := bus s @ [LoadTWDR ((take (unat dataLen) TXdata
                                            @ drop (unat dataLen) (TWITransmitBuffer s)) ! 0),
                                TWISendTransmit]\<rparr>)"
  using assms
  by (simp add: TWITransmitData_def isTWIReady_def copy_loop_all update_defs load_def)

lemma TWIReadData_from_Ready:
  assumes "mode (TWIInfo s) = Ready" and "unat bytesToRead \<le> RXMAXBUFLEN h"
    and "length (TWITransmitBuffer s) = TXMAXBUFLEN h" and "0 < TXMAXBUFLEN h"
  shows "TWIReadData h TWIaddr bytesToRead rs s =
     Inr (0, s\<lparr>TWIInfo := (TWIInfo s)\<lparr>mode := Initializing, repStart := rs\<rparr>,
                TWITransmitBuffer := (TWITransmitBuffer s)[0 := push_bit 1 TWIaddr OR 1],
                TXBuffLen := 1, TXBuffIndex := 0,
                RXBuffLen := uint bytesToRead, RXBuffIndex := 0,
                bus := bus s @ [TWISendStart]\<rparr>)"
proof -
  let ?s1 = "s\<lparr>RXBuffIndex := 0, RXBuffLen := uint bytesToRead\<rparr>"
  have buf: "[push_bit 1 TWIaddr OR 1] @ drop 1 (TWITransmitBuffer s) =
      (TWITransmitBuffer s)[0 := push_bit 1 TWIaddr OR 1]"
    using assms(3,4) by (cases "TWITransmitBuffer s") simp_all
  have "TWITransmitData h [push_bit 1 TWIaddr OR 1] 1 rs ?s1 =
     Inr (0, ?s1\<lparr>TWIInfo := (TWIInfo ?s1)\<lparr>mode := Initializing, repStart := rs\<rparr>,
                TWITransmitBuffer :=
                  take (unat (1 :: u8)) [push_bit 1 TWIaddr OR 1]
                    @ drop (unat (1 :: u8)) (TWITransmitBuffer ?s1),
                TXBuffLen := uint (1 :: u8), TXBuffIndex := 0,
                bus := bus ?s1 @ [TWISendStart]\<rparr>)"
    using assms by (intro TWITransmitData_from_Ready) simp_all
  then show ?thesis
    using assms(2) buf by (simp add: TWIReadData_def)
qed

lemma TWIReadData_from_RepeatedStartSent:
  assumes "mode (TWIInfo s) = RepeatedStartSent" and "unat bytesToRead \<le> RXMAXBUFLEN h"
    and "length (TWITransmitBuffer s) = TXMAXBUFLEN h" and "0 < TXMAXBUFLEN h"
  shows "TWIReadData h TWIaddr bytesToRead rs s =
     Inr (0, s\<lparr>TWIInfo := (TWIInfo s)\<lparr>mode := Initializing, repStart := rs\<rparr>,
                TWITransmitBuffer := (TWITransmitBuffer s)[0 := push_bit 1 TWIaddr OR 1],
                TXBuffLen := 1, TXBuffIndex := 1,
                RXBuffLen := uint bytesToRead, RXBuffIndex := 0,
                bus := bus s @ [LoadTWDR (push_bit 1 TWIaddr OR 1), TWISendTransmit]\<rparr>)"
proof -
  let ?s1 = "s\<lparr>RXBuffIndex := 0, RXBuffLen := uint bytesToRead\<rparr>"
  have buf: "[push_bit 1 TWIaddr OR 1] @ drop 1 (TWITransmitBuffer s) =
      (TWITransmitBuffer s)[0 := push_bit 1 TWIaddr OR 1]"
    using assms(3,4) by (cases "TWITransmitBuffer s") simp_all
  have "TWITransmitData h [push_bit 1 TWIaddr OR 1] 1 rs ?s1 =
     Inr (0, ?s1\<lparr>TWIInfo := (TWIInfo ?s1)\<lparr>mode := Initializing, repStart := rs\<rparr>,
                TWITransmitBuffer :=
                  take (unat (1 :: u8)) [push_bit 1 TWIaddr OR 1]
                    @ drop (unat (1 :: u8)) (TWITransmitBuffer ?s1),
                TXBuffLen := uint (1 :: u8), TXBuffIndex := 1,
                bus := bus ?s1 @ [LoadTWDR ((take (unat (1 :: u8)) [push_bit 1 TWIaddr OR 1]
                    @ drop (unat (1 :: u8)) (TWITransmitBuffer ?s1)) ! 0), TWISendTransmit]\<rparr>)"
    using assms by (intro TWITransmitData_from_RepeatedStartSent) simp_all
  then show ?thesis
    using assms(2) buf by (simp add: TWIReadData_def)
qed

section \<open>A write from request to stop\<close>

text \<open>
  While bytes are left, each interrupt of the transmit group loads the next byte of the
  buffer and asks for its transmission.
\<close>

lemma mt_loads:
  assumes ok: "header_ok h"
  shows "\<forall>e\<in>set evs. mt_status h (fst e) \<Longrightarrow> TXBuffIndex t = int i \<Longrightarrow> TXBuffLen t = int n \<Longrightarrow>
     i + length evs \<le> n \<Longrightarrow> n \<le> length (TWITransmitBuffer t) \<Longrightarrow>
     \<exists>inf. run_ISR h evs t =
        Inr (t\<lparr>TWIInfo := inf, TXBuffIndex := int (i + length evs),
                bus := bus t @ concat (map (\<lambda>b. [LoadTWDR b, TWISendTransmit])
                                  (take (length evs) (drop i (TWITransmitBuffer t))))\<rparr>)
        \<and> repStart inf = repStart (TWIInfo t)"
proof (induction evs arbitrary: t i)
  case Nil
  have "t\<lparr>TWIInfo := TWIInfo t, TXBuffIndex := int i, bus := bus t\<rparr> = t"
    using Nil.prems(2) by simp
  then show ?case by (intro exI [of _ "TWIInfo t"]) simp
next
  case (Cons e evs)
  obtain status twdr where e: "e = (status, twdr)" by (cases e)
  let ?buf = "TWITransmitBuffer t"
  have st: "mt_status h status" using Cons.prems(1) e by simp
  obtain X where isr: "ISR h status twdr t = mt_data_ack h (t\<lparr>TWIInfo := X\<rparr>)"
    and X: "repStart X = repStart (TWIInfo t)"
  proof (cases "status = TWI_MT_SLAW_ACK h")
    case True
    show ?thesis
      by (rule that [of "(TWIInfo t)\<lparr>mode := MasterTransmitter\<rparr>"])
        (simp_all add: True ISR_MT_SLAW_ACK set_mode_def)
  next
    case False
    show ?thesis
      by (rule that [of "TWIInfo t"]) (simp_all add: ISR_mt_status [OF ok st] False)
  qed
  have lt: "i < n" "i < length ?buf" using Cons.prems by simp_all
  let ?t1 = "t\<lparr>TWIInfo := X\<lparr>errorCode := TWI_NO_RELEVANT_INFO h\<rparr>,
             TXBuffIndex := int (Suc i),
             bus := bus t @ [LoadTWDR (?buf ! i), TWISendTransmit]\<rparr>"
  have step: "ISR h status twdr t = Inr ?t1"
    using mt_data_ack_load [of "t\<lparr>TWIInfo := X\<rparr>" h] lt Cons.prems(2,3) by (simp add: isr)
  have "\<exists>inf. run_ISR h evs ?t1 =
        Inr (?t1\<lparr>TWIInfo := inf, TXBuffIndex := int (Suc i + length evs),
                bus := bus ?t1 @ concat (map (\<lambda>b. [LoadTWDR b, TWISendTransmit])
                                  (take (length evs) (drop (Suc i) (TWITransmitBuffer ?t1))))\<rparr>)
        \<and> repStart inf = repStart (TWIInfo ?t1)"
    using Cons.prems by (intro Cons.IH) simp_all
  then obtain inf where run: "run_ISR h evs ?t1 =
        Inr (?t1\<lparr>TWIInfo := inf, TXBuffIndex := int (Suc i + length evs),
                bus := bus ?t1 @ concat (map (\<lambda>b. [LoadTWDR b, TWISendTransmit])
                                  (take (length evs) (drop (Suc i) (TWITransmitBuffer ?t1))))\<rparr>)"
    and rep: "repStart inf = repStart (TWIInfo ?t1)" by blast
  have split: "take (Suc (length evs)) (drop i ?buf) = ?buf ! i # take (length evs) (drop (Suc i) ?buf)"
    using lt by (simp add: Cons_nth_drop_Suc [symmetric])
  show ?case
    apply (intro exI [of _ inf])
    using rep X run by (simp add: e step split)
qed

text \<open>Once the cursor has reached the length, each further interrupt sends a stop.\<close>

lemma mt_stops:
  assumes ok: "header_ok h"
  shows "\<forall>e\<in>set evs. mt_status h (fst e) \<Longrightarrow> TXBuffLen t \<le> TXBuffIndex t \<Longrightarrow>
     repStart (TWIInfo t) = 0 \<Longrightarrow>
     run_ISR h evs t =
        Inr (t\<lparr>TWIInfo := (if evs = [] then TWIInfo t
                            else \<lparr>mode = Ready, errorCode = 0xFF, repStart = 0\<rparr>),
                bus := bus t @ replicate (length evs) TWISendStop\<rparr>)"
proof (induction evs arbitrary: t)
  case Nil
  then show ?case by simp
next
  case (Cons e evs)
  obtain status twdr where e: "e = (status, twdr)" by (cases e)
  have st: "mt_status h status" using Cons.prems(1) e by simp
  let ?t1 = "t\<lparr>TWIInfo := \<lparr>mode = Ready, errorCode = 0xFF, repStart = 0\<rparr>,
               bus := bus t @ [TWISendStop]\<rparr>"
  have step: "ISR h status twdr t = Inr ?t1"
  proof (cases "status = TWI_MT_SLAW_ACK h")
    case True
    then show ?thesis
      using mt_data_ack_stop [of "set_mode MasterTransmitter t" h] Cons.prems(2,3)
      by (simp add: ISR_MT_SLAW_ACK set_mode_def)
  next
    case False
    then show ?thesis
      using mt_data_ack_stop [of t h] Cons.prems(2,3)
      by (simp add: ISR_mt_status [OF ok st])
  qed
  have "run_ISR h evs ?t1 =
        Inr (?t1\<lparr>TWIInfo := (if evs = [] then TWIInfo ?t1
                            else \<lparr>mode = Ready, errorCode = 0xFF, repStart = 0\<rparr>),
                bus := bus ?t1 @ replicate (length evs) TWISendStop\<rparr>)"
    using Cons.prems by (intro Cons.IH) simp_all
  then show ?case
    by (simp add: e step replicate_app_Cons_same)

qed

lemma mt_run:
  assumes ok: "header_ok h"
    and evs: "\<forall>e\<in>set evs. mt_status h (fst e)"
    and idx: "TXBuffIndex t = int i" and len: "TXBuffLen t = int n"
    and bounds: "i \<le> n" "n \<le> length (TWITransmitBuffer t)"
    and rep: "repStart (TWIInfo t) = 0"
    and count: "length evs = n - i + k" "0 < k"
  shows "run_ISR h evs t =
     Inr (t\<lparr>TWIInfo := \<lparr>mode = Ready, errorCode = 0xFF, repStart = 0\<rparr>,
             TXBuffIndex := int n,
             bus := bus t @ concat (map (\<lambda>b. [LoadTWDR b, TWISendTransmit])
                               (take (n - i) (drop i (TWITransmitBuffer t))))
                    @ replicate k TWISendStop\<rparr>)"
proof -
  let ?xs = "take (n - i) evs" and ?ys = "drop (n - i) evs"
  have lx: "length ?xs = n - i" and ly: "length ?ys = k" using count by simp_all
  have ex: "\<forall>e\<in>set ?xs. mt_status h (fst e)" using evs by (auto dest: in_set_takeD)
  have ey: "\<forall>e\<in>set ?ys. mt_status h (fst e)" using evs by (auto dest: in_set_dropD)
  obtain inf where
    loads: "run_ISR h ?xs t =
        Inr (t\<lparr>TWIInfo := inf, TXBuffIndex := int (i + length ?xs),
                bus := bus t @ concat (map (\<lambda>b. [LoadTWDR b, TWISendTransmit])
                                  (take (length ?xs) (drop i (TWITransmitBuffer t))))\<rparr>)"
    and inf: "repStart inf = repStart (TWIInfo t)"
    using mt_loads [OF ok ex idx len _ bounds(2)] bounds(1) lx by auto
  let ?t1 = "t\<lparr>TWIInfo := inf, TXBuffIndex := int n,
                bus := bus t @ concat (map (\<lambda>b. [LoadTWDR b, TWISendTransmit])
                                  (take (n - i) (drop i (TWITransmitBuffer t))))\<rparr>"
  have loads': "run_ISR h ?xs t = Inr ?t1"
    using loads lx bounds(1) by simp
  have ne: "?ys \<noteq> []" using ly count(2) by auto
  have stops: "run_ISR h ?ys ?t1 =
        Inr (?t1\<lparr>TWIInfo := \<lparr>mode = Ready, errorCode = 0xFF, repStart = 0\<rparr>,
                bus := bus ?t1 @ replicate (length ?ys) TWISendStop\<rparr>)"
    using mt_stops [OF ok ey, of ?t1] len inf rep ne by simp
  have "run_ISR h evs t = run_ISR h (?xs @ ?ys) t" by simp
  also have "\<dots> = run_ISR h ?ys ?t1"
    by (simp only: run_ISR_append loads' sum.case)
  finally show ?thesis
    using count by (simp add: stops)
qed

text \<open>
  Claim C2. A transmit request of \<open>n\<close> bytes, \<open>0 < n \<le> TXMAXBUFLEN\<close>, without
  repeated start is accepted when the driver is ready. Fed then with the statuses start
  sent, SLA+W acknowledged and \<open>n\<close> times data acknowledged, the routine ends in mode
  \<open>Ready\<close> with error code \<open>0xFF\<close>; the trace of the run is the start request,
  then for each of the \<open>n\<close> bytes in order its load into \<^verbatim>\<open>TWDR\<close> followed by a
  transmit request, then stop requests only. From mode \<open>Ready\<close> the routine performs
  all \<open>n\<close> loads, the stop is sent at the interrupt after the last load and once more
  at the last interrupt of the sequence. When the request continues a held repeated
  start, the request itself loads the first byte and no start is sent.
\<close>

theorem write_of_n_bytes_completes:
  assumes ok: "header_ok h" and sized: "buffers_sized h s" and ready: "isTWIReady s \<noteq> 0"
    and n: "0 < unat dataLen" "unat dataLen \<le> TXMAXBUFLEN h" "unat dataLen \<le> length TXdata"
    and ds: "length ds = unat dataLen"
  shows "\<exists>s0. TWITransmitData h TXdata dataLen 0 s = Inr (0, s0) \<and>
     run_ISR h ((TWI_START_SENT h, d0) # (TWI_MT_SLAW_ACK h, d1)
                  # map (Pair (TWI_MT_DATA_ACK h)) ds) s0 =
       Inr (s\<lparr>TWIInfo := \<lparr>mode = Ready, errorCode = 0xFF, repStart = 0\<rparr>,
               TWITransmitBuffer :=
                 take (unat dataLen) TXdata @ drop (unat dataLen) (TWITransmitBuffer s),
               TXBuffLen := int (unat dataLen), TXBuffIndex := int (unat dataLen),
               bus := bus s
                 @ (if mode (TWIInfo s) = RepeatedStartSent then [] else [TWISendStart])
                 @ concat (map (\<lambda>b. [LoadTWDR b, TWISendTransmit]) (take (unat dataLen) TXdata))
                 @ replicate (if mode (TWIInfo s) = RepeatedStartSent then 3 else 2)
                     TWISendStop\<rparr>)"
proof -
  let ?n = "unat dataLen"
  let ?evs = "(TWI_START_SENT h, d0) # (TWI_MT_SLAW_ACK h, d1) # map (Pair (TWI_MT_DATA_ACK h)) ds"
  define buf where "buf = take ?n TXdata @ drop ?n (TWITransmitBuffer s)"
  have tx: "length (TWITransmitBuffer s) = TXMAXBUFLEN h" "0 < TXMAXBUFLEN h"
    using sized ok by (simp_all add: buffers_sized_def header_ok_def)
  have evs: "\<forall>e\<in>set ?evs. mt_status h (fst e)"
    by (auto simp: mt_status_def)
  have lbuf: "?n \<le> length buf" using n tx by (simp add: buf_def)
  have tk: "take ?n buf = take ?n TXdata" using n by (simp add: buf_def)
  show ?thesis
  proof (cases "mode (TWIInfo s) = RepeatedStartSent")
    case False
    with ready have m: "mode (TWIInfo s) = Ready"
      by (simp add: isTWIReady_def split: if_splits)
    let ?s0 = "s\<lparr>TWIInfo := (TWIInfo s)\<lparr>mode := Initializing, repStart := 0\<rparr>,
                TWITransmitBuffer := buf, TXBuffLen := uint dataLen, TXBuffIndex := 0,
                bus := bus s @ [TWISendStart]\<rparr>"
    have call: "TWITransmitData h TXdata dataLen 0 s = Inr (0, ?s0)"
      unfolding buf_def by (rule TWITransmitData_from_Ready [OF m n(2,3) tx(1)])
    have "run_ISR h ?evs ?s0 =
        Inr (?s0\<lparr>TWIInfo := \<lparr>mode = Ready, errorCode = 0xFF, repStart = 0\<rparr>,
             TXBuffIndex := int ?n,
             bus := bus ?s0 @ concat (map (\<lambda>b. [LoadTWDR b, TWISendTransmit])
                               (take (?n - 0) (drop 0 (TWITransmitBuffer ?s0))))
                    @ replicate 2 TWISendStop\<rparr>)"
      using lbuf ds by (intro mt_run [OF ok evs]) simp_all
    then have "run_ISR h ?evs ?s0 =
        Inr (s\<lparr>TWIInfo := \<lparr>mode = Ready, errorCode = 0xFF, repStart = 0\<rparr>,
               TWITransmitBuffer := buf,
               TXBuffLen := int ?n, TXBuffIndex := int ?n,
               bus := bus s @ [TWISendStart]
                 @ concat (map (\<lambda>b. [LoadTWDR b, TWISendTransmit]) (take ?n TXdata))
                 @ replicate 2 TWISendStop\<rparr>)"
      using tk by simp
    with call False show ?thesis unfolding buf_def by simp
  next
    case True
    let ?s0 = "s\<lparr>TWIInfo := (TWIInfo s)\<lparr>mode := Initializing, repStart := 0\<rparr>,
                TWITransmitBuffer := buf, TXBuffLen := uint dataLen, TXBuffIndex := 1,
                bus := bus s @ [LoadTWDR (buf ! 0), TWISendTransmit]\<rparr>"
    have call: "TWITransmitData h TXdata dataLen 0 s = Inr (0, ?s0)"
      unfolding buf_def by (rule TWITransmitData_from_RepeatedStartSent [OF True n(2,3) tx])
    have hd: "take ?n TXdata = buf ! 0 # take (?n - 1) (drop 1 buf)"
      using take_first_rest [OF n(1) lbuf] by (simp only: tk)
    have "run_ISR h ?evs ?s0 =
        Inr (?s0\<lparr>TWIInfo := \<lparr>mode = Ready, errorCode = 0xFF, repStart = 0\<rparr>,
             TXBuffIndex := int ?n,
             bus := bus ?s0 @ concat (map (\<lambda>b. [LoadTWDR b, TWISendTransmit])
                               (take (?n - 1) (drop 1 (TWITransmitBuffer ?s0))))
                    @ replicate 3 TWISendStop\<rparr>)"
      using lbuf ds n(1) by (intro mt_run [OF ok evs]) simp_all
    then have "run_ISR h ?evs ?s0 =
        Inr (s\<lparr>TWIInfo := \<lparr>mode = Ready, errorCode = 0xFF, repStart = 0\<rparr>,
               TWITransmitBuffer := buf,
               TXBuffLen := int ?n, TXBuffIndex := int ?n,
               bus := bus s
                 @ concat (map (\<lambda>b. [LoadTWDR b, TWISendTransmit]) (take ?n TXdata))
                 @ replicate 3 TWISendStop\<rparr>)"
      by (simp add: hd)
    with call True show ?thesis unfolding buf_def by simp
  qed
qed

text \<open>Three bytes written after initialisation on the ATmega header.\<close>

theorem write_of_n_bytes_completes_witness:
  "header_ok avr_header \<and> buffers_sized avr_header (TWIInit (power_on avr_header)) \<and>
   isTWIReady (TWIInit (power_on avr_header)) \<noteq> 0 \<and> 0 < unat (3 :: u8) \<and>
   unat (3 :: u8) \<le> TXMAXBUFLEN avr_header \<and>
   unat (3 :: u8) \<le> length [0xA0, 0x10, 0x20 :: u8] \<and>
   length [0, 0, 0 :: u8] = unat (3 :: u8) \<and>
   (\<exists>s0. TWITransmitData avr_header [0xA0, 0x10, 0x20] 3 0 (TWIInit (power_on avr_header))
           = Inr (0, s0) \<and>
     run_ISR avr_header
        ((TWI_START_SENT avr_header, 0) # (TWI_MT_SLAW_ACK avr_header, 0)
           # map (Pair (TWI_MT_DATA_ACK avr_header)) [0, 0, 0]) s0 =
       Inr ((TWIInit (power_on avr_header))
              \<lparr>TWIInfo := \<lparr>mode = Ready, errorCode = 0xFF, repStart = 0\<rparr>,
               TWITransmitBuffer := [0xA0, 0x10, 0x20] @ replicate 17 0,
               TXBuffLen := 3, TXBuffIndex := 3,
               bus := [SetupRegisters, TWISendStart, LoadTWDR 0xA0, TWISendTransmit,
                       LoadTWDR 0x10, TWISendTransmit, LoadTWDR 0x20, TWISendTransmit,
                       TWISendStop, TWISendStop]\<rparr>))"
proof -
  have sized: "buffers_sized avr_header (TWIInit (power_on avr_header))"
    by (simp add: buffers_sized_def TWIInit_def update_defs power_on_def)
  have ready: "isTWIReady (TWIInit (power_on avr_header)) \<noteq> 0"
    by (simp add: isTWIReady_def TWIInit_def update_defs)
  have n: "0 < unat (3 :: u8)" "unat (3 :: u8) \<le> TXMAXBUFLEN avr_header"
    "unat (3 :: u8) \<le> length [0xA0, 0x10, 0x20 :: u8]" "length [0, 0, 0 :: u8] = unat (3 :: u8)"
    by (simp_all add: avr_header_def)
  have state: "mode (TWIInfo (TWIInit (power_on avr_header))) = Ready"
    "bus (TWIInit (power_on avr_header)) = [SetupRegisters]"
    "TWITransmitBuffer (TWIInit (power_on avr_header)) = replicate 20 0"
    by (simp_all add: TWIInit_def update_defs power_on_def avr_header_def)
  have tail: "drop 3 (replicate 20 (0 :: u8)) = replicate 17 0"
    by simp
  have two: "replicate 2 TWISendStop = [TWISendStop, TWISendStop]"
    by (simp add: numeral_2_eq_2)
  from write_of_n_bytes_completes [OF avr_header_ok sized ready n, of 0 0]
  have "\<exists>s0. TWITransmitData avr_header [0xA0, 0x10, 0x20] 3 0 (TWIInit (power_on avr_header))
           = Inr (0, s0) \<and>
     run_ISR avr_header
        ((TWI_START_SENT avr_header, 0) # (TWI_MT_SLAW_ACK avr_header, 0)
           # map (Pair (TWI_MT_DATA_ACK avr_header)) [0, 0, 0]) s0 =
       Inr ((TWIInit (power_on avr_header))
              \<lparr>TWIInfo := \<lparr>mode = Ready, errorCode = 0xFF, repStart = 0\<rparr>,
               TWITransmitBuffer := [0xA0, 0x10, 0x20] @ replicate 17 0,
               TXBuffLen := 3, TXBuffIndex := 3,
               bus := [SetupRegisters, TWISendStart, LoadTWDR 0xA0, TWISendTransmit,
                       LoadTWDR 0x10, TWISendTransmit, LoadTWDR 0x20, TWISendTransmit,
                       TWISendStop, TWISendStop]\<rparr>)"
    by (simp add: state tail two)
  with avr_header_ok sized ready n show ?thesis by blast
qed

section \<open>A read from request to stop\<close>

text \<open>
  Data-received interrupts with acknowledge store their bytes at consecutive positions;
  after the byte stored at position \<open>j - 1\<close> the reply is \<open>reply_for n j\<close>.
\<close>

lemma mr_acks:
  assumes ok: "header_ok h"
  shows "RXBuffIndex t = int i \<Longrightarrow> RXBuffLen t = int n \<Longrightarrow>
     i + length bs \<le> length (TWIReceiveBuffer t) \<Longrightarrow>
     \<exists>inf. run_ISR h (map (Pair (TWI_MR_DATA_ACK h)) bs) t =
        Inr (t\<lparr>TWIInfo := inf,
                TWIReceiveBuffer :=
                  take i (TWIReceiveBuffer t) @ bs @ drop (i + length bs) (TWIReceiveBuffer t),
                RXBuffIndex := int (i + length bs),
                bus := bus t @ map (reply_for n) [Suc i ..< Suc i + length bs]\<rparr>)
        \<and> mode inf = mode (TWIInfo t) \<and> repStart inf = repStart (TWIInfo t)"
proof (induction bs arbitrary: t i)
  case Nil
  have "t\<lparr>TWIInfo := TWIInfo t, TWIReceiveBuffer := TWIReceiveBuffer t,
          RXBuffIndex := int i, bus := bus t\<rparr> = t"
    using Nil.prems(1) by simp
  then show ?case by (intro exI [of _ "TWIInfo t"]) simp
next
  case (Cons b bs)
  let ?buf = "TWIReceiveBuffer t"
  have lt: "i < length ?buf" using Cons.prems by simp
  let ?t1 = "t\<lparr>TWIInfo := (TWIInfo t)\<lparr>errorCode := TWI_NO_RELEVANT_INFO h\<rparr>,
             TWIReceiveBuffer := ?buf[i := b],
             RXBuffIndex := int (Suc i),
             bus := bus t @ [reply_for n (Suc i)]\<rparr>"
  have step: "ISR h (TWI_MR_DATA_ACK h) b t = Inr ?t1"
    using mr_data_ack_step [OF Cons.prems(1,2) lt] by (simp add: ISR_MR_DATA_ACK [OF ok])
  have "\<exists>inf. run_ISR h (map (Pair (TWI_MR_DATA_ACK h)) bs) ?t1 =
        Inr (?t1\<lparr>TWIInfo := inf,
                TWIReceiveBuffer :=
                  take (Suc i) (TWIReceiveBuffer ?t1) @ bs
                    @ drop (Suc i + length bs) (TWIReceiveBuffer ?t1),
                RXBuffIndex := int (Suc i + length bs),
                bus := bus ?t1 @ map (reply_for n) [Suc (Suc i) ..< Suc (Suc i) + length bs]\<rparr>)
        \<and> mode inf = mode (TWIInfo ?t1) \<and> repStart inf = repStart (TWIInfo ?t1)"
    using Cons.prems by (intro Cons.IH) simp_all
  then obtain inf where run: "run_ISR h (map (Pair (TWI_MR_DATA_ACK h)) bs) ?t1 =
        Inr (?t1\<lparr>TWIInfo := inf,
                TWIReceiveBuffer :=
                  take (Suc i) (TWIReceiveBuffer ?t1) @ bs
                    @ drop (Suc i + length bs) (TWIReceiveBuffer ?t1),
                RXBuffIndex := int (Suc i + length bs),
                bus := bus ?t1 @ map (reply_for n) [Suc (Suc i) ..< Suc (Suc i) + length bs]\<rparr>)"
    and inf: "mode inf = mode (TWIInfo ?t1)" "repStart inf = repStart (TWIInfo ?t1)"
    by blast
  have bf: "take (Suc i) (?buf[i := b]) @ bs @ drop (Suc i + length bs) (?buf[i := b]) =
      take i ?buf @ (b # bs) @ drop (i + length (b # bs)) ?buf"
    using lt by (simp add: take_Suc_conv_app_nth)
  have tr: "(bus t @ [reply_for n (Suc i)])
        @ map (reply_for n) [Suc (Suc i) ..< Suc (Suc i) + length bs] =
      bus t @ map (reply_for n) [Suc i ..< Suc i + length (b # bs)]"
    by (simp add: upt_conv_Cons del: upt_Suc)
  have ix: "int (Suc i + length bs) = int (i + length (b # bs))"
    by simp
  have "run_ISR h (map (Pair (TWI_MR_DATA_ACK h)) (b # bs)) t =
      run_ISR h (map (Pair (TWI_MR_DATA_ACK h)) bs) ?t1"
    by (simp add: step)
  also have "\<dots> = Inr (t\<lparr>TWIInfo := inf,
                TWIReceiveBuffer :=
                  take (Suc i) (?buf[i := b]) @ bs @ drop (Suc i + length bs) (?buf[i := b]),
                RXBuffIndex := int (Suc i + length bs),
                bus := (bus t @ [reply_for n (Suc i)])
                   @ map (reply_for n) [Suc (Suc i) ..< Suc (Suc i) + length bs]\<rparr>)"
    unfolding run by simp
  finally have "run_ISR h (map (Pair (TWI_MR_DATA_ACK h)) (b # bs)) t =
      Inr (t\<lparr>TWIInfo := inf,
                TWIReceiveBuffer := take i ?buf @ (b # bs) @ drop (i + length (b # bs)) ?buf,
                RXBuffIndex := int (i + length (b # bs)),
                bus := bus t @ map (reply_for n) [Suc i ..< Suc i + length (b # bs)]\<rparr>)"
    unfolding bf tr ix .
  with inf show ?case
    by (intro exI [of _ inf]) simp
qed

lemma mr_run:
  assumes ok: "header_ok h"
    and idx: "RXBuffIndex t = 0" and len: "RXBuffLen t = int n"
    and n: "0 < n" "n \<le> length (TWIReceiveBuffer t)" and rx: "length rx = n"
  shows "run_ISR h ((TWI_MR_SLAR_ACK h, d) # map (Pair (TWI_MR_DATA_ACK h)) (butlast rx)
                      @ [(TWI_MR_DATA_NACK h, last rx)]) t =
     Inr (t\<lparr>TWIInfo :=
               \<lparr>mode = (if repStart (TWIInfo t) = 0 then Ready else MasterReceiver),
                errorCode = 0xFF, repStart = repStart (TWIInfo t)\<rparr>,
             TWIReceiveBuffer := rx @ drop n (TWIReceiveBuffer t),
             RXBuffIndex := int n,
             bus := bus t @ replicate (n - 1) TWISendACK
                    @ [TWISendNACK,
                       if repStart (TWIInfo t) = 0 then TWISendStop else TWISendStart]\<rparr>)"
proof -
  let ?buf = "TWIReceiveBuffer t"
  let ?r = "repStart (TWIInfo t)"
  obtain m where m: "n = Suc m" using n(1) by (cases n) auto
  define t1 where "t1 = t\<lparr>TWIInfo := (TWIInfo t)\<lparr>mode := MasterReceiver,
                                 errorCode := TWI_NO_RELEVANT_INFO h\<rparr>,
                          bus := bus t @ [reply_for n 0]\<rparr>"
  have first: "ISR h (TWI_MR_SLAR_ACK h) d t = Inr t1"
    using mr_reply_eq [of "set_mode MasterReceiver t" 0 n h] idx len
    by (simp add: ISR_MR_SLAR_ACK [OF ok] t1_def set_mode_def)
  have t1: "RXBuffIndex t1 = int 0" "RXBuffLen t1 = int n" "TWIReceiveBuffer t1 = ?buf"
    "bus t1 = bus t @ [reply_for n 0]" "repStart (TWIInfo t1) = ?r"
    "mode (TWIInfo t1) = MasterReceiver"
    using idx len by (simp_all add: t1_def)
  have lb: "length (butlast rx) = m" using rx m by simp
  have fits: "0 + length (butlast rx) \<le> length (TWIReceiveBuffer t1)"
    using n(2) m lb t1(3) by simp
  from mr_acks [OF ok t1(1,2) fits]
  obtain inf where acks: "run_ISR h (map (Pair (TWI_MR_DATA_ACK h)) (butlast rx)) t1 =
        Inr (t1\<lparr>TWIInfo := inf,
                TWIReceiveBuffer :=
                  take 0 (TWIReceiveBuffer t1) @ butlast rx
                    @ drop (0 + length (butlast rx)) (TWIReceiveBuffer t1),
                RXBuffIndex := int (0 + length (butlast rx)),
                bus := bus t1 @ map (reply_for n) [Suc 0 ..< Suc 0 + length (butlast rx)]\<rparr>)"
    and inf: "mode inf = mode (TWIInfo t1)" "repStart inf = repStart (TWIInfo t1)"
    by blast
  define t2 where "t2 = t\<lparr>TWIInfo := inf,
                TWIReceiveBuffer := butlast rx @ drop m ?buf,
                RXBuffIndex := int m,
                bus := bus t @ map (reply_for n) [0 ..< n]\<rparr>"
  have upt: "[0..<n] = 0 # [Suc 0 ..< Suc 0 + m]"
    by (simp add: m upt_conv_Cons del: upt_Suc)
  have acks': "run_ISR h (map (Pair (TWI_MR_DATA_ACK h)) (butlast rx)) t1 = Inr t2"
    unfolding acks t2_def upt lb t1(3,4) by (simp add: t1_def)
  have t2: "RXBuffIndex t2 = int m" "m < length (TWIReceiveBuffer t2)"
    using n(2) m lb by (simp_all add: t2_def)
  obtain e where info: "inf = \<lparr>mode = MasterReceiver, errorCode = e, repStart = ?r\<rparr>"
    using inf t1(5,6) by (cases inf) auto
  have last: "ISR h (TWI_MR_DATA_NACK h) (last rx) t2 =
      Inr (t2\<lparr>TWIInfo :=
               \<lparr>mode = (if ?r = 0 then Ready else MasterReceiver),
                errorCode = 0xFF, repStart = ?r\<rparr>,
             TWIReceiveBuffer := (TWIReceiveBuffer t2)[m := last rx],
             RXBuffIndex := int (Suc m),
             bus := bus t2 @ [if ?r = 0 then TWISendStop else TWISendStart]\<rparr>)"
  proof -
    have r2: "TWIInfo t2 = inf"
      by (simp add: t2_def)
    show ?thesis
      by (simp add: ISR_MR_DATA_NACK [OF ok] mr_data_nack_step [OF t2] r2 info)
  qed
  have buf: "(butlast rx @ drop m ?buf)[m := last rx] = rx @ drop n ?buf"
    using store_last [of rx m ?buf] rx n(2) m by simp
  have "run_ISR h ((TWI_MR_SLAR_ACK h, d) # map (Pair (TWI_MR_DATA_ACK h)) (butlast rx)
                      @ [(TWI_MR_DATA_NACK h, last rx)]) t =
      run_ISR h (map (Pair (TWI_MR_DATA_ACK h)) (butlast rx) @ [(TWI_MR_DATA_NACK h, last rx)]) t1"
    by (simp add: first)
  also have "\<dots> = run_ISR h [(TWI_MR_DATA_NACK h, last rx)] t2"
    by (simp only: run_ISR_append acks' sum.case)
  also have "\<dots> = Inr (t2\<lparr>TWIInfo :=
               \<lparr>mode = (if ?r = 0 then Ready else MasterReceiver),
                errorCode = 0xFF, repStart = ?r\<rparr>,
             TWIReceiveBuffer := (TWIReceiveBuffer t2)[m := last rx],
             RXBuffIndex := int (Suc m),
             bus := bus t2 @ [if ?r = 0 then TWISendStop else TWISendStart]\<rparr>)"
    by (simp add: last)
  also have "\<dots> = Inr (t\<lparr>TWIInfo :=
               \<lparr>mode = (if ?r = 0 then Ready else MasterReceiver),
                errorCode = 0xFF, repStart = ?r\<rparr>,
             TWIReceiveBuffer := rx @ drop n ?buf,
             RXBuffIndex := int n,
             bus := bus t @ replicate (n - 1) TWISendACK
                    @ [TWISendNACK, if ?r = 0 then TWISendStop else TWISendStart]\<rparr>)"
    unfolding t2_def replies_all [OF n(1)] by (simp add: buf m)
  finally show ?thesis .
qed

text \<open>
  A read from the request to the reply to its last byte, for every value of the
  repeated-start flag.
\<close>

lemma read_transaction:
  assumes ok: "header_ok h" and sized: "buffers_sized h s" and ready: "isTWIReady s \<noteq> 0"
    and n: "0 < unat bytesToRead" "unat bytesToRead \<le> RXMAXBUFLEN h"
    and rx: "length rx = unat bytesToRead"
  shows "\<exists>s0. TWIReadData h TWIaddr bytesToRead rs s = Inr (0, s0) \<and>
     run_ISR h ((if mode (TWIInfo s) = RepeatedStartSent then [] else [(TWI_START_SENT h, d0)])
                 @ (TWI_MR_SLAR_ACK h, d1) # map (Pair (TWI_MR_DATA_ACK h)) (butlast rx)
                 @ [(TWI_MR_DATA_NACK h, last rx)]) s0 =
       Inr (s\<lparr>TWIInfo := \<lparr>mode = (if rs = 0 then Ready else MasterReceiver),
                           errorCode = 0xFF, repStart = rs\<rparr>,
               TWITransmitBuffer := (TWITransmitBuffer s)[0 := push_bit 1 TWIaddr OR 1],
               TXBuffLen := 1, TXBuffIndex := 1,
               TWIReceiveBuffer := rx @ drop (unat bytesToRead) (TWIReceiveBuffer s),
               RXBuffLen := int (unat bytesToRead), RXBuffIndex := int (unat bytesToRead),
               bus := bus s
                 @ (if mode (TWIInfo s) = RepeatedStartSent then [] else [TWISendStart])
                 @ [LoadTWDR (push_bit 1 TWIaddr OR 1), TWISendTransmit]
                 @ replicate (unat bytesToRead - 1) TWISendACK
                 @ [TWISendNACK, if rs = 0 then TWISendStop else TWISendStart]\<rparr>)"
proof -
  let ?n = "unat bytesToRead"
  let ?a = "push_bit 1 TWIaddr OR 1 :: u8"
  let ?rxevs = "(TWI_MR_SLAR_ACK h, d1) # map (Pair (TWI_MR_DATA_ACK h)) (butlast rx)
                 @ [(TWI_MR_DATA_NACK h, last rx)]"
  have tx: "length (TWITransmitBuffer s) = TXMAXBUFLEN h" "0 < TXMAXBUFLEN h"
    and rxb: "length (TWIReceiveBuffer s) = RXMAXBUFLEN h"
    using sized ok by (simp_all add: buffers_sized_def header_ok_def)
  show ?thesis
  proof (cases "mode (TWIInfo s) = RepeatedStartSent")
    case True
    define s0 where "s0 = s\<lparr>TWIInfo := (TWIInfo s)\<lparr>mode := Initializing, repStart := rs\<rparr>,
                TWITransmitBuffer := (TWITransmitBuffer s)[0 := ?a],
                TXBuffLen := 1, TXBuffIndex := 1,
                RXBuffLen := uint bytesToRead, RXBuffIndex := 0,
                bus := bus s @ [LoadTWDR ?a, TWISendTransmit]\<rparr>"
    have call: "TWIReadData h TWIaddr bytesToRead rs s = Inr (0, s0)"
      unfolding s0_def by (rule TWIReadData_from_RepeatedStartSent [OF True n(2) tx])
    have "run_ISR h ([] @ ?rxevs) s0 = run_ISR h ?rxevs s0"
      by simp
    also have "\<dots> =
       Inr (s0\<lparr>TWIInfo :=
               \<lparr>mode = (if repStart (TWIInfo s0) = 0 then Ready else MasterReceiver),
                errorCode = 0xFF, repStart = repStart (TWIInfo s0)\<rparr>,
             TWIReceiveBuffer := rx @ drop ?n (TWIReceiveBuffer s0),
             RXBuffIndex := int ?n,
             bus := bus s0 @ replicate (?n - 1) TWISendACK
                    @ [TWISendNACK,
                       if repStart (TWIInfo s0) = 0 then TWISendStop else TWISendStart]\<rparr>)"
      using n rx rxb by (intro mr_run [OF ok]) (simp_all add: s0_def)
    also have "\<dots> =
       Inr (s\<lparr>TWIInfo := \<lparr>mode = (if rs = 0 then Ready else MasterReceiver),
                           errorCode = 0xFF, repStart = rs\<rparr>,
               TWITransmitBuffer := (TWITransmitBuffer s)[0 := ?a],
               TXBuffLen := 1, TXBuffIndex := 1,
               TWIReceiveBuffer := rx @ drop ?n (TWIReceiveBuffer s),
               RXBuffLen := int ?n, RXBuffIndex := int ?n,
               bus := bus s @ [] @ [LoadTWDR ?a, TWISendTransmit]
                 @ replicate (?n - 1) TWISendACK
                 @ [TWISendNACK, if rs = 0 then TWISendStop else TWISendStart]\<rparr>)"
      by (simp add: s0_def)
    finally have "run_ISR h ([] @ ?rxevs) s0 =
       Inr (s\<lparr>TWIInfo := \<lparr>mode = (if rs = 0 then Ready else MasterReceiver),
                           errorCode = 0xFF, repStart = rs\<rparr>,
               TWITransmitBuffer := (TWITransmitBuffer s)[0 := ?a],
               TXBuffLen := 1, TXBuffIndex := 1,
               TWIReceiveBuffer := rx @ drop ?n (TWIReceiveBuffer s),
               RXBuffLen := int ?n, RXBuffIndex := int ?n,
               bus := bus s @ [] @ [LoadTWDR ?a, TWISendTransmit]
                 @ replicate (?n - 1) TWISendACK
                 @ [TWISendNACK, if rs = 0 then TWISendStop else TWISendStart]\<rparr>)" .
    with call True show ?thesis by (intro exI [of _ s0]) (simp only: if_True simp_thms)
  next
    case False
    with ready have m: "mode (TWIInfo s) = Ready"
      by (simp add: isTWIReady_def split: if_splits)
    define s0 where "s0 = s\<lparr>TWIInfo := (TWIInfo s)\<lparr>mode := Initializing, repStart := rs\<rparr>,
                TWITransmitBuffer := (TWITransmitBuffer s)[0 := ?a],
                TXBuffLen := 1, TXBuffIndex := 0,
                RXBuffLen := uint bytesToRead, RXBuffIndex := 0,
                bus := bus s @ [TWISendStart]\<rparr>"
    define s1 where "s1 = s0\<lparr>TWIInfo := (TWIInfo s0)\<lparr>errorCode := TWI_NO_RELEVANT_INFO h\<rparr>,
                TXBuffIndex := 1,
                bus := bus s @ [TWISendStart, LoadTWDR ?a, TWISendTransmit]\<rparr>"
    have call: "TWIReadData h TWIaddr bytesToRead rs s = Inr (0, s0)"
      unfolding s0_def by (rule TWIReadData_from_Ready [OF m n(2) tx])
    have start: "ISR h (TWI_START_SENT h) d0 s0 = Inr s1"
      using mt_data_ack_load [of s0 h] tx
      by (simp add: ISR_START_SENT [OF ok] s0_def s1_def)
    have "run_ISR h ([(TWI_START_SENT h, d0)] @ ?rxevs) s0 = run_ISR h ?rxevs s1"
      by (simp add: start)
    also have "\<dots> =
       Inr (s1\<lparr>TWIInfo :=
               \<lparr>mode = (if repStart (TWIInfo s1) = 0 then Ready else MasterReceiver),
                errorCode = 0xFF, repStart = repStart (TWIInfo s1)\<rparr>,
             TWIReceiveBuffer := rx @ drop ?n (TWIReceiveBuffer s1),
             RXBuffIndex := int ?n,
             bus := bus s1 @ replicate (?n - 1) TWISendACK
                    @ [TWISendNACK,
                       if repStart (TWIInfo s1) = 0 then TWISendStop else TWISendStart]\<rparr>)"
      using n rx rxb by (intro mr_run [OF ok]) (simp_all add: s0_def s1_def)
    also have "\<dots> =
       Inr (s\<lparr>TWIInfo := \<lparr>mode = (if rs = 0 then Ready else MasterReceiver),
                           errorCode = 0xFF, repStart = rs\<rparr>,
               TWITransmitBuffer := (TWITransmitBuffer s)[0 := ?a],
               TXBuffLen := 1, TXBuffIndex := 1,
               TWIReceiveBuffer := rx @ drop ?n (TWIReceiveBuffer s),
               RXBuffLen := int ?n, RXBuffIndex := int ?n,
               bus := bus s @ [TWISendStart] @ [LoadTWDR ?a, TWISendTransmit]
                 @ replicate (?n - 1) TWISendACK
                 @ [TWISendNACK, if rs = 0 then TWISendStop else TWISendStart]\<rparr>)"
      by (simp add: s0_def s1_def)
    finally have "run_ISR h ([(TWI_START_SENT h, d0)] @ ?rxevs) s0 =
       Inr (s\<lparr>TWIInfo := \<lparr>mode = (if rs = 0 then Ready else MasterReceiver),
                           errorCode = 0xFF, repStart = rs\<rparr>,
               TWITransmitBuffer := (TWITransmitBuffer s)[0 := ?a],
               TXBuffLen := 1, TXBuffIndex := 1,
               TWIReceiveBuffer := rx @ drop ?n (TWIReceiveBuffer s),
               RXBuffLen := int ?n, RXBuffIndex := int ?n,
               bus := bus s @ [TWISendStart] @ [LoadTWDR ?a, TWISendTransmit]
                 @ replicate (?n - 1) TWISendACK
                 @ [TWISendNACK, if rs = 0 then TWISendStop else TWISendStart]\<rparr>)" .
    with call False show ?thesis by (intro exI [of _ s0]) (simp only: if_False simp_thms)
  qed
qed



text \<open>
  Claim C9. For every address, count within the receive capacity and repeated-start
  flag, the read request is the transmit request of the one byte
  \<open>(TWIaddr << 1) | 1\<close> with length 1 and the same flag, made after the receive
  cursor and length are set. As a number the byte is twice the address plus one, cut to
  eight bits. When the driver is ready, the byte is at position 0 of the transmit
  buffer afterwards, the transmit length is 1 and the flag is stored.
\<close>

theorem read_passes_address_byte:
  assumes "unat bytesToRead \<le> RXMAXBUFLEN h"
  shows "TWIReadData h TWIaddr bytesToRead rs s =
           (case TWITransmitData h [push_bit 1 TWIaddr OR 1] 1 rs
                   (s\<lparr>RXBuffIndex := 0, RXBuffLen := uint bytesToRead\<rparr>) of
              Inl f \<Rightarrow> Inl f
            | Inr (r, s') \<Rightarrow> Inr (if r = 2 then 2 else 0, s')) \<and>
         unat (push_bit 1 TWIaddr OR 1 :: u8) = (2 * unat TWIaddr + 1) mod 256 \<and>
         (header_ok h \<and> buffers_sized h s \<and> isTWIReady s \<noteq> 0 \<longrightarrow>
            (\<exists>s'. TWIReadData h TWIaddr bytesToRead rs s = Inr (0, s') \<and>
                  TWITransmitBuffer s' = (TWITransmitBuffer s)[0 := push_bit 1 TWIaddr OR 1] \<and>
                  TXBuffLen s' = 1 \<and> repStart (TWIInfo s') = rs))"
proof (intro conjI impI)
  show "TWIReadData h TWIaddr bytesToRead rs s =
           (case TWITransmitData h [push_bit 1 TWIaddr OR 1] 1 rs
                   (s\<lparr>RXBuffIndex := 0, RXBuffLen := uint bytesToRead\<rparr>) of
              Inl f \<Rightarrow> Inl f
            | Inr (r, s') \<Rightarrow> Inr (if r = 2 then 2 else 0, s'))"
    using assms by (simp add: TWIReadData_def split: sum.splits prod.splits)
  show "unat (push_bit 1 TWIaddr OR 1 :: u8) = (2 * unat TWIaddr + 1) mod 256"
    by (rule address_byte_value)
next
  assume a: "header_ok h \<and> buffers_sized h s \<and> isTWIReady s \<noteq> 0"
  then have tx: "length (TWITransmitBuffer s) = TXMAXBUFLEN h" "0 < TXMAXBUFLEN h"
    by (simp_all add: buffers_sized_def header_ok_def)
  from a consider "mode (TWIInfo s) = Ready" | "mode (TWIInfo s) = RepeatedStartSent"
    by (auto simp: isTWIReady_def split: if_splits)
  then show "\<exists>s'. TWIReadData h TWIaddr bytesToRead rs s = Inr (0, s') \<and>
                  TWITransmitBuffer s' = (TWITransmitBuffer s)[0 := push_bit 1 TWIaddr OR 1] \<and>
                  TXBuffLen s' = 1 \<and> repStart (TWIInfo s') = rs"
  proof cases
    case 1
    show ?thesis
      by (simp add: TWIReadData_from_Ready [OF 1 assms tx])
  next
    case 2
    show ?thesis
      by (simp add: TWIReadData_from_RepeatedStartSent [OF 2 assms tx])
  qed
qed

text \<open>Address \<open>0x50\<close> gives the byte \<open>0xA1\<close>.\<close>

theorem read_passes_address_byte_witness:
  "unat (2 :: u8) \<le> RXMAXBUFLEN avr_header \<and> header_ok avr_header \<and>
   buffers_sized avr_header (power_on avr_header) \<and> isTWIReady (power_on avr_header) \<noteq> 0 \<and>
   TWIReadData avr_header 0x50 2 0 (power_on avr_header) =
     (case TWITransmitData avr_header [0xA1] 1 0
             ((power_on avr_header)\<lparr>RXBuffIndex := 0, RXBuffLen := 2\<rparr>) of
        Inl f \<Rightarrow> Inl f
      | Inr (r, s') \<Rightarrow> Inr (if r = 2 then 2 else 0, s')) \<and>
   unat (push_bit 1 0x50 OR 1 :: u8) = 161 \<and>
   (\<exists>s'. TWIReadData avr_header 0x50 2 0 (power_on avr_header) = Inr (0, s') \<and>
         TWITransmitBuffer s' = (TWITransmitBuffer (power_on avr_header))[0 := 0xA1] \<and>
         TXBuffLen s' = 1 \<and> repStart (TWIInfo s') = 0)"
proof -
  have cap: "unat (2 :: u8) \<le> RXMAXBUFLEN avr_header"
    by (simp add: avr_header_def)
  have sized: "buffers_sized avr_header (power_on avr_header)"
    by (simp add: buffers_sized_def power_on_def)
  have ready: "isTWIReady (power_on avr_header) \<noteq> 0"
    by (simp add: isTWIReady_def power_on_def)
  have byte: "push_bit 1 0x50 OR 1 = (0xA1 :: u8)"
    by simp
  note inst = read_passes_address_byte [OF cap, of "0x50" 0 "power_on avr_header"]
  have call: "TWIReadData avr_header 0x50 2 0 (power_on avr_header) =
     (case TWITransmitData avr_header [0xA1] 1 0
             ((power_on avr_header)\<lparr>RXBuffIndex := 0, RXBuffLen := 2\<rparr>) of
        Inl f \<Rightarrow> Inl f
      | Inr (r, s') \<Rightarrow> Inr (if r = 2 then 2 else 0, s'))"
    using inst [THEN conjunct1] by (simp add: byte)
  have val: "unat (push_bit 1 0x50 OR 1 :: u8) = 161"
    using inst [THEN conjunct2, THEN conjunct1] by simp
  have post: "\<exists>s'. TWIReadData avr_header 0x50 2 0 (power_on avr_header) = Inr (0, s') \<and>
         TWITransmitBuffer s' = (TWITransmitBuffer (power_on avr_header))[0 := 0xA1] \<and>
         TXBuffLen s' = 1 \<and> repStart (TWIInfo s') = 0"
    using inst [THEN conjunct2, THEN conjunct2, rule_format,
        OF conjI [OF avr_header_ok conjI [OF sized ready]]]
    by (simp only: byte)
  from cap avr_header_ok sized ready call val post show ?thesis
    by (intro conjI)
qed

section \<open>The status of a transmitted start\<close>

text \<open>
  The mode after each of the bodies that may fault, and the one status that makes the
  mode \<open>MasterTransmitter\<close>.
\<close>

lemma mt_data_ack_mode:
  "mt_data_ack h s = Inr s' \<Longrightarrow>
   mode (TWIInfo s') =
     (if TXBuffIndex s < TXBuffLen s \<or> repStart (TWIInfo s) \<noteq> 0 then mode (TWIInfo s)
      else Ready)"
  by (auto simp: mt_data_ack_def update_defs split: if_splits sum.splits)

lemma mr_data_ack_mode:
  "mr_data_ack h twdr s = Inr s' \<Longrightarrow> mode (TWIInfo s') = mode (TWIInfo s)"
  by (auto simp: mr_data_ack_def mr_store_def mr_reply_def update_defs split: sum.splits)

lemma mr_data_nack_mode:
  "mr_data_nack twdr s = Inr s' \<Longrightarrow>
   mode (TWIInfo s') = mode (TWIInfo s) \<or> mode (TWIInfo s') = Ready"
  by (auto simp: mr_data_nack_def mr_store_def update_defs split: sum.splits if_splits)

lemma MasterTransmitter_only_by_SLAW_ACK:
  assumes "status \<noteq> TWI_MT_SLAW_ACK h" and "ISR h status twdr s = Inr s'"
    and "mode (TWIInfo s') = MasterTransmitter"
  shows "mode (TWIInfo s) = MasterTransmitter"
proof -
  have "\<forall>t. ISR h status twdr s = Inr t \<and> mode (TWIInfo t) = MasterTransmitter
          \<longrightarrow> mode (TWIInfo s) = MasterTransmitter"
  proof (rule ISR_branches_guarded)
    assume "status = TWI_MT_SLAW_ACK h"
    with assms(1) show "\<forall>t. mt_data_ack h (set_mode MasterTransmitter s) = Inr t
        \<and> mode (TWIInfo t) = MasterTransmitter \<longrightarrow> mode (TWIInfo s) = MasterTransmitter"
      by simp
  next
    show "\<forall>t. mt_data_ack h s = Inr t \<and> mode (TWIInfo t) = MasterTransmitter
        \<longrightarrow> mode (TWIInfo s) = MasterTransmitter"
      by (auto dest!: mt_data_ack_mode split: if_splits)
  next
    show "\<forall>t. Inr (mr_reply h (set_mode MasterReceiver s)) = Inr t
        \<and> mode (TWIInfo t) = MasterTransmitter \<longrightarrow> mode (TWIInfo s) = MasterTransmitter"
      by (auto simp: mr_reply_def update_defs)
  next
    show "\<forall>t. mr_data_ack h twdr s = Inr t \<and> mode (TWIInfo t) = MasterTransmitter
        \<longrightarrow> mode (TWIInfo s) = MasterTransmitter"
      by (auto dest!: mr_data_ack_mode)
  next
    show "\<forall>t. mr_data_nack twdr s = Inr t \<and> mode (TWIInfo t) = MasterTransmitter
        \<longrightarrow> mode (TWIInfo s) = MasterTransmitter"
      by (auto dest!: mr_data_nack_mode)
  next
    show "\<forall>t. Inr (bus_error status s) = Inr t \<and> mode (TWIInfo t) = MasterTransmitter
        \<longrightarrow> mode (TWIInfo s) = MasterTransmitter"
      by (auto simp: bus_error_def update_defs split: if_splits)
  next
    show "\<forall>t. Inr (set_mode RepeatedStartSent s) = Inr t \<and> mode (TWIInfo t) = MasterTransmitter
        \<longrightarrow> mode (TWIInfo s) = MasterTransmitter"
      by (auto simp: update_defs)
  next
    show "\<forall>t. Inr (emit TWISendStop (set_mode Ready (set_errorCode (TWI_ILLEGAL_START_STOP h) s)))
            = Inr t \<and> mode (TWIInfo t) = MasterTransmitter
        \<longrightarrow> mode (TWIInfo s) = MasterTransmitter"
      by (auto simp: update_defs)
  next
    show "\<forall>t. Inr s = Inr t \<and> mode (TWIInfo t) = MasterTransmitter
        \<longrightarrow> mode (TWIInfo s) = MasterTransmitter"
      by auto
  qed
  with assms(2,3) show ?thesis by blast
qed

text \<open>
  Claim C5, as the specification states it, fails: after a write request the interrupt
  for the transmitted start leaves the mode \<open>Initializing\<close>; it does not become
  \<open>MasterTransmitter\<close>.
\<close>

theorem start_sent_mode_counterexample:
  "map_sum id (mode \<circ> TWIInfo)
     (perform_all avr_header
        [CallInit, CallTransmit [0xA0, 0x07] 2 0, Interrupt (TWI_START_SENT avr_header) 0]
        (power_on avr_header)) = Inr Initializing"
  by (simp add: TWIInit_def TWITransmitData_def isTWIReady_def ISR_def mt_data_ack_def
      load_def update_defs copy_loop.simps avr_header_def power_on_def)

text \<open>
  Claim C5, amended. The case of a transmitted start is the case of an acknowledged data
  byte and assigns no \<open>MasterTransmitter\<close>. With a byte left (the cursor below the
  length and inside the transmit buffer) it loads that byte, advances the cursor, sets
  the error code to \<^verbatim>\<open>TWI_NO_RELEVANT_INFO\<close> and asks for transmission, with the
  mode as it was. With no byte left and the repeated-start flag set it sets the error
  code to \<open>0xFF\<close> and asks for a start, with the mode as it was. With no byte left
  and the flag clear (the start of a write of no bytes) it sets the mode to
  \<open>Ready\<close>, the error code to \<open>0xFF\<close> and asks for a stop. The status SLA+W
  acknowledged assigns the mode \<open>MasterTransmitter\<close> and then runs the same body, so
  that the mode afterwards is \<open>MasterTransmitter\<close>, or \<open>Ready\<close> when that body
  ends the transfer with a stop. No other status makes the mode
  \<open>MasterTransmitter\<close>: after an interrupt with any other status the mode is
  \<open>MasterTransmitter\<close> only if it was so before. The status of a transmitted
  repeated start sets the mode to \<open>RepeatedStartSent\<close> and does nothing else.
\<close>

theorem start_sent_is_data_ack:
  assumes ok: "header_ok h"
  shows "ISR h (TWI_START_SENT h) twdr s = ISR h (TWI_MT_DATA_ACK h) twdr s \<and>
         (0 \<le> TXBuffIndex s \<and> TXBuffIndex s < TXBuffLen s \<and>
          TXBuffIndex s < int (length (TWITransmitBuffer s)) \<longrightarrow>
          ISR h (TWI_START_SENT h) twdr s =
            Inr (s\<lparr>TWIInfo := (TWIInfo s)\<lparr>errorCode := TWI_NO_RELEVANT_INFO h\<rparr>,
                    TXBuffIndex := TXBuffIndex s + 1,
                    bus := bus s @ [LoadTWDR (TWITransmitBuffer s ! nat (TXBuffIndex s)),
                                    TWISendTransmit]\<rparr>)) \<and>
         (TXBuffLen s \<le> TXBuffIndex s \<and> repStart (TWIInfo s) \<noteq> 0 \<longrightarrow>
          ISR h (TWI_START_SENT h) twdr s =
            Inr (s\<lparr>TWIInfo := (TWIInfo s)\<lparr>errorCode := 0xFF\<rparr>,
                    bus := bus s @ [TWISendStart]\<rparr>)) \<and>
         (TXBuffLen s \<le> TXBuffIndex s \<and> repStart (TWIInfo s) = 0 \<longrightarrow>
          ISR h (TWI_START_SENT h) twdr s =
            Inr (s\<lparr>TWIInfo := (TWIInfo s)\<lparr>mode := Ready, errorCode := 0xFF\<rparr>,
                    bus := bus s @ [TWISendStop]\<rparr>)) \<and>
         ISR h (TWI_MT_SLAW_ACK h) twdr s =
           ISR h (TWI_MT_DATA_ACK h) twdr (set_mode MasterTransmitter s) \<and>
         (ISR h (TWI_MT_SLAW_ACK h) twdr s = Inr s' \<longrightarrow>
          mode (TWIInfo s') =
            (if TXBuffIndex s < TXBuffLen s \<or> repStart (TWIInfo s) \<noteq> 0
             then MasterTransmitter else Ready)) \<and>
         (status \<noteq> TWI_MT_SLAW_ACK h \<and> ISR h status twdr s = Inr s' \<and>
          mode (TWIInfo s') = MasterTransmitter \<longrightarrow>
          mode (TWIInfo s) = MasterTransmitter) \<and>
         ISR h (TWI_REP_START_SENT h) twdr s = Inr (set_mode RepeatedStartSent s)"
proof (intro conjI impI)
  show "ISR h (TWI_START_SENT h) twdr s = ISR h (TWI_MT_DATA_ACK h) twdr s"
    by (simp add: ISR_START_SENT [OF ok] ISR_MT_DATA_ACK [OF ok])
next
  assume "0 \<le> TXBuffIndex s \<and> TXBuffIndex s < TXBuffLen s \<and>
          TXBuffIndex s < int (length (TWITransmitBuffer s))"
  then show "ISR h (TWI_START_SENT h) twdr s =
            Inr (s\<lparr>TWIInfo := (TWIInfo s)\<lparr>errorCode := TWI_NO_RELEVANT_INFO h\<rparr>,
                    TXBuffIndex := TXBuffIndex s + 1,
                    bus := bus s @ [LoadTWDR (TWITransmitBuffer s ! nat (TXBuffIndex s)),
                                    TWISendTransmit]\<rparr>)"
    by (simp add: ISR_START_SENT [OF ok] mt_data_ack_load)
next
  assume "TXBuffLen s \<le> TXBuffIndex s \<and> repStart (TWIInfo s) \<noteq> 0"
  then show "ISR h (TWI_START_SENT h) twdr s =
            Inr (s\<lparr>TWIInfo := (TWIInfo s)\<lparr>errorCode := 0xFF\<rparr>,
                    bus := bus s @ [TWISendStart]\<rparr>)"
    by (simp add: ISR_START_SENT [OF ok] mt_data_ack_restart)
next
  assume "TXBuffLen s \<le> TXBuffIndex s \<and> repStart (TWIInfo s) = 0"
  then show "ISR h (TWI_START_SENT h) twdr s =
            Inr (s\<lparr>TWIInfo := (TWIInfo s)\<lparr>mode := Ready, errorCode := 0xFF\<rparr>,
                    bus := bus s @ [TWISendStop]\<rparr>)"
    by (simp add: ISR_START_SENT [OF ok] mt_data_ack_def update_defs)
next
  show "ISR h (TWI_MT_SLAW_ACK h) twdr s =
           ISR h (TWI_MT_DATA_ACK h) twdr (set_mode MasterTransmitter s)"
    by (simp add: ISR_MT_SLAW_ACK ISR_MT_DATA_ACK [OF ok])
next
  assume "ISR h (TWI_MT_SLAW_ACK h) twdr s = Inr s'"
  then have "mt_data_ack h (set_mode MasterTransmitter s) = Inr s'"
    by (simp add: ISR_MT_SLAW_ACK)
  from mt_data_ack_mode [OF this]
  show "mode (TWIInfo s') =
            (if TXBuffIndex s < TXBuffLen s \<or> repStart (TWIInfo s) \<noteq> 0
             then MasterTransmitter else Ready)"
    by (simp add: update_defs)
next
  assume "status \<noteq> TWI_MT_SLAW_ACK h \<and> ISR h status twdr s = Inr s' \<and>
          mode (TWIInfo s') = MasterTransmitter"
  then show "mode (TWIInfo s) = MasterTransmitter"
    by (blast intro: MasterTransmitter_only_by_SLAW_ACK)
next
  show "ISR h (TWI_REP_START_SENT h) twdr s = Inr (set_mode RepeatedStartSent s)"
    by (simp add: ISR_REP_START_SENT [OF ok])
qed

text \<open>
  The start of the requested write of two bytes, of the write with repeated start whose
  bytes have gone out, and of the write of no bytes.
\<close>

theorem start_sent_is_data_ack_witness:
  "header_ok avr_header \<and>
   ISR avr_header (TWI_START_SENT avr_header) 0 write_requested_example =
     ISR avr_header (TWI_MT_DATA_ACK avr_header) 0 write_requested_example \<and>
   (0 \<le> TXBuffIndex write_requested_example \<and>
    TXBuffIndex write_requested_example < TXBuffLen write_requested_example \<and>
    TXBuffIndex write_requested_example
      < int (length (TWITransmitBuffer write_requested_example))) \<and>
   ISR avr_header (TWI_START_SENT avr_header) 0 write_requested_example =
     Inr (write_requested_example
            \<lparr>TWIInfo := \<lparr>mode = Initializing, errorCode = 0xF8, repStart = 0\<rparr>,
             TXBuffIndex := 1,
             bus := bus write_requested_example @ [LoadTWDR 0xA0, TWISendTransmit]\<rparr>) \<and>
   (TXBuffLen repeated_start_example \<le> TXBuffIndex repeated_start_example \<and>
    repStart (TWIInfo repeated_start_example) \<noteq> 0) \<and>
   ISR avr_header (TWI_START_SENT avr_header) 0 repeated_start_example =
     Inr (repeated_start_example
            \<lparr>TWIInfo := \<lparr>mode = MasterTransmitter, errorCode = 0xFF, repStart = 1\<rparr>,
             bus := bus repeated_start_example @ [TWISendStart]\<rparr>) \<and>
   (TXBuffLen empty_write_example \<le> TXBuffIndex empty_write_example \<and>
    repStart (TWIInfo empty_write_example) = 0) \<and>
   ISR avr_header (TWI_START_SENT avr_header) 0 empty_write_example =
     Inr (empty_write_example
            \<lparr>TWIInfo := \<lparr>mode = Ready, errorCode = 0xFF, repStart = 0\<rparr>,
             bus := bus empty_write_example @ [TWISendStop]\<rparr>) \<and>
   ISR avr_header (TWI_MT_SLAW_ACK avr_header) 0 write_requested_example =
     ISR avr_header (TWI_MT_DATA_ACK avr_header) 0
       (set_mode MasterTransmitter write_requested_example) \<and>
   ISR avr_header (TWI_MT_SLAW_ACK avr_header) 0 write_requested_example =
     Inr (write_requested_example
            \<lparr>TWIInfo := \<lparr>mode = MasterTransmitter, errorCode = 0xF8, repStart = 0\<rparr>,
             TXBuffIndex := 1,
             bus := bus write_requested_example @ [LoadTWDR 0xA0, TWISendTransmit]\<rparr>) \<and>
   mode (TWIInfo (write_requested_example
            \<lparr>TWIInfo := \<lparr>mode = MasterTransmitter, errorCode = 0xF8, repStart = 0\<rparr>,
             TXBuffIndex := 1,
             bus := bus write_requested_example @ [LoadTWDR 0xA0, TWISendTransmit]\<rparr>))
     = MasterTransmitter \<and>
   (TWI_MT_DATA_ACK avr_header \<noteq> TWI_MT_SLAW_ACK avr_header \<and>
    ISR avr_header (TWI_MT_DATA_ACK avr_header) 0 repeated_start_example =
      Inr (repeated_start_example
            \<lparr>TWIInfo := \<lparr>mode = MasterTransmitter, errorCode = 0xFF, repStart = 1\<rparr>,
             bus := bus repeated_start_example @ [TWISendStart]\<rparr>) \<and>
    mode (TWIInfo (repeated_start_example
            \<lparr>TWIInfo := \<lparr>mode = MasterTransmitter, errorCode = 0xFF, repStart = 1\<rparr>,
             bus := bus repeated_start_example @ [TWISendStart]\<rparr>)) = MasterTransmitter) \<and>
   mode (TWIInfo repeated_start_example) = MasterTransmitter \<and>
   ISR avr_header (TWI_REP_START_SENT avr_header) 0 write_requested_example =
     Inr (set_mode RepeatedStartSent write_requested_example)"
proof -
  let ?w = write_requested_example and ?r = repeated_start_example
    and ?e = empty_write_example
  let ?w' = "?w\<lparr>TWIInfo := \<lparr>mode = MasterTransmitter, errorCode = 0xF8, repStart = 0\<rparr>,
                 TXBuffIndex := 1, bus := bus ?w @ [LoadTWDR 0xA0, TWISendTransmit]\<rparr>"
  let ?r' = "?r\<lparr>TWIInfo := \<lparr>mode = MasterTransmitter, errorCode = 0xFF, repStart = 1\<rparr>,
                 bus := bus ?r @ [TWISendStart]\<rparr>"
  note ok = avr_header_ok
  note w = start_sent_is_data_ack [OF ok, where twdr = 0 and s = ?w and s' = ?w']
  note r = start_sent_is_data_ack [OF ok, where twdr = 0 and s = ?r and s' = ?r'
      and status = "TWI_MT_DATA_ACK avr_header"]
  note e = start_sent_is_data_ack [OF ok, where twdr = 0 and s = ?e]
  have c1: "ISR avr_header (TWI_START_SENT avr_header) 0 ?w =
      ISR avr_header (TWI_MT_DATA_ACK avr_header) 0 ?w"
    using w by (rule conjunct1)
  have p2: "0 \<le> TXBuffIndex ?w \<and> TXBuffIndex ?w < TXBuffLen ?w \<and>
      TXBuffIndex ?w < int (length (TWITransmitBuffer ?w))"
    by (simp add: write_requested_example_def)
  have c2: "ISR avr_header (TWI_START_SENT avr_header) 0 ?w =
      Inr (?w\<lparr>TWIInfo := \<lparr>mode = Initializing, errorCode = 0xF8, repStart = 0\<rparr>,
              TXBuffIndex := 1, bus := bus ?w @ [LoadTWDR 0xA0, TWISendTransmit]\<rparr>)"
    using w [THEN conjunct2, THEN conjunct1, rule_format, OF p2]
    by (simp add: write_requested_example_def avr_header_def)
  have p3: "TXBuffLen ?r \<le> TXBuffIndex ?r \<and> repStart (TWIInfo ?r) \<noteq> 0"
    by (simp add: repeated_start_example_def)
  have c3: "ISR avr_header (TWI_START_SENT avr_header) 0 ?r = Inr ?r'"
    using r [THEN conjunct2, THEN conjunct2, THEN conjunct1, rule_format, OF p3]
    by (simp add: repeated_start_example_def)
  have p4: "TXBuffLen ?e \<le> TXBuffIndex ?e \<and> repStart (TWIInfo ?e) = 0"
    by (simp add: empty_write_example_def)
  have c4: "ISR avr_header (TWI_START_SENT avr_header) 0 ?e =
      Inr (?e\<lparr>TWIInfo := \<lparr>mode = Ready, errorCode = 0xFF, repStart = 0\<rparr>,
              bus := bus ?e @ [TWISendStop]\<rparr>)"
    using e [THEN conjunct2, THEN conjunct2, THEN conjunct2, THEN conjunct1, rule_format,
        OF p4]
    by (simp add: empty_write_example_def)
  have c5: "ISR avr_header (TWI_MT_SLAW_ACK avr_header) 0 ?w =
      ISR avr_header (TWI_MT_DATA_ACK avr_header) 0 (set_mode MasterTransmitter ?w)"
    using w [THEN conjunct2, THEN conjunct2, THEN conjunct2, THEN conjunct2]
    by (rule conjunct1)
  have p6: "ISR avr_header (TWI_MT_SLAW_ACK avr_header) 0 ?w = Inr ?w'"
    by (simp add: ISR_def mt_data_ack_def load_def update_defs
        write_requested_example_def avr_header_def)
  have c6: "mode (TWIInfo ?w') = MasterTransmitter"
    using w [THEN conjunct2, THEN conjunct2, THEN conjunct2, THEN conjunct2, THEN conjunct2,
        THEN conjunct1, rule_format, OF p6]
    by (simp add: write_requested_example_def)
  have p7: "TWI_MT_DATA_ACK avr_header \<noteq> TWI_MT_SLAW_ACK avr_header \<and>
      ISR avr_header (TWI_MT_DATA_ACK avr_header) 0 ?r = Inr ?r' \<and>
      mode (TWIInfo ?r') = MasterTransmitter"
    by (simp add: ISR_def mt_data_ack_def update_defs repeated_start_example_def
        avr_header_def)
  have c7: "mode (TWIInfo ?r) = MasterTransmitter"
    using r [THEN conjunct2, THEN conjunct2, THEN conjunct2, THEN conjunct2, THEN conjunct2,
        THEN conjunct2, THEN conjunct1, rule_format, OF p7] .
  have c8: "ISR avr_header (TWI_REP_START_SENT avr_header) 0 ?w =
      Inr (set_mode RepeatedStartSent ?w)"
    using w [THEN conjunct2, THEN conjunct2, THEN conjunct2, THEN conjunct2, THEN conjunct2,
        THEN conjunct2] by (rule conjunct2)
  from ok c1 p2 [THEN conjunct1] p2 [THEN conjunct2, THEN conjunct1]
    p2 [THEN conjunct2, THEN conjunct2] c2 p3 [THEN conjunct1] p3 [THEN conjunct2] c3
    p4 [THEN conjunct1] p4 [THEN conjunct2] c4 c5 p6 c6 p7 [THEN conjunct1]
    p7 [THEN conjunct2, THEN conjunct1] p7 [THEN conjunct2, THEN conjunct2] c7 c8
  show ?thesis by (intro conjI)
qed

section \<open>Requests while a transfer is under way\<close>

text \<open>A transmit request that fits the buffer and meets a busy driver changes nothing.\<close>

lemma TWITransmitData_busy:
  "isTWIReady s = 0 \<Longrightarrow> unat dataLen \<le> TXMAXBUFLEN h \<Longrightarrow>
   TWITransmitData h TXdata dataLen rs s = Inr (2, s)"
  by (simp add: TWITransmitData_def)

text \<open>
  Claim C1, as the specification states it, fails twice during the example read (three
  bytes expected, one received, the driver not ready). A transmit request of twenty-one
  bytes returns 1, not 2: the length is tested before readiness. A read request returns
  2 but has overwritten the receive cursor and length of the read under way, which were
  1 and 3: the read function assigns them before the transmit function tests readiness.
\<close>

theorem busy_request_counterexample:
  "isTWIReady receiving_example = 0 \<and>
   TWITransmitData avr_header (replicate 21 0x55) 21 0 receiving_example =
     Inr (1, receiving_example) \<and>
   TWIReadData avr_header 0x50 1 0 receiving_example =
     Inr (2, receiving_example\<lparr>RXBuffIndex := 0, RXBuffLen := 1\<rparr>) \<and>
   RXBuffIndex receiving_example = 1 \<and> RXBuffLen receiving_example = 3"
  by (simp add: TWIReadData_def TWITransmitData_def isTWIReady_def avr_header_def
      receiving_example_def power_on_def)

text \<open>
  Claim C1, amended. While the driver is not ready, a transmit request whose length
  fits the transmit buffer returns 2 and the state it was called in. A read request
  whose count fits the receive buffer returns 2, and the mode, error code and
  repeated-start flag, the transmit buffer with its length and cursor, the content of
  the receive buffer and the trace are as before the call. Nothing is stated about the
  receive cursor and length after a rejected read request.
\<close>

theorem busy_requests_rejected:
  assumes ok: "header_ok h" and busy: "isTWIReady s = 0"
  shows "(unat dataLen \<le> TXMAXBUFLEN h \<longrightarrow>
            TWITransmitData h TXdata dataLen rs s = Inr (2, s)) \<and>
         (unat bytesToRead \<le> RXMAXBUFLEN h \<longrightarrow>
            (\<exists>s'. TWIReadData h TWIaddr bytesToRead rs s = Inr (2, s') \<and>
                  TWIInfo s' = TWIInfo s \<and>
                  TWITransmitBuffer s' = TWITransmitBuffer s \<and>
                  TXBuffLen s' = TXBuffLen s \<and> TXBuffIndex s' = TXBuffIndex s \<and>
                  TWIReceiveBuffer s' = TWIReceiveBuffer s \<and> bus s' = bus s))"
proof (intro conjI impI)
  assume "unat dataLen \<le> TXMAXBUFLEN h"
  with busy show "TWITransmitData h TXdata dataLen rs s = Inr (2, s)"
    by (rule TWITransmitData_busy)
next
  assume n: "unat bytesToRead \<le> RXMAXBUFLEN h"
  let ?s1 = "s\<lparr>RXBuffIndex := 0, RXBuffLen := uint bytesToRead\<rparr>"
  have "isTWIReady ?s1 = 0" using busy by (simp add: isTWIReady_def)
  moreover have "unat (1 :: u8) \<le> TXMAXBUFLEN h" using ok by (simp add: header_ok_def)
  ultimately have "TWITransmitData h [push_bit 1 TWIaddr OR 1] 1 rs ?s1 = Inr (2, ?s1)"
    by (rule TWITransmitData_busy)
  with n have "TWIReadData h TWIaddr bytesToRead rs s = Inr (2, ?s1)"
    by (simp add: TWIReadData_def)
  then show "\<exists>s'. TWIReadData h TWIaddr bytesToRead rs s = Inr (2, s') \<and>
                  TWIInfo s' = TWIInfo s \<and>
                  TWITransmitBuffer s' = TWITransmitBuffer s \<and>
                  TXBuffLen s' = TXBuffLen s \<and> TXBuffIndex s' = TXBuffIndex s \<and>
                  TWIReceiveBuffer s' = TWIReceiveBuffer s \<and> bus s' = bus s"
    by simp
qed

text \<open>Both requests during the example read.\<close>

theorem busy_requests_rejected_witness:
  "header_ok avr_header \<and> isTWIReady receiving_example = 0 \<and>
   unat (2 :: u8) \<le> TXMAXBUFLEN avr_header \<and>
   TWITransmitData avr_header [0xA0, 0x07] 2 0 receiving_example = Inr (2, receiving_example) \<and>
   unat (1 :: u8) \<le> RXMAXBUFLEN avr_header \<and>
   (\<exists>s'. TWIReadData avr_header 0x50 1 0 receiving_example = Inr (2, s') \<and>
         TWIInfo s' = TWIInfo receiving_example \<and>
         TWITransmitBuffer s' = TWITransmitBuffer receiving_example \<and>
         TXBuffLen s' = TXBuffLen receiving_example \<and>
         TXBuffIndex s' = TXBuffIndex receiving_example \<and>
         TWIReceiveBuffer s' = TWIReceiveBuffer receiving_example \<and>
         bus s' = bus receiving_example)"
proof -
  have busy: "isTWIReady receiving_example = 0"
    by (simp add: isTWIReady_def receiving_example_def)
  have cap: "unat (2 :: u8) \<le> TXMAXBUFLEN avr_header" "unat (1 :: u8) \<le> RXMAXBUFLEN avr_header"
    by (simp_all add: avr_header_def)
  note inst = busy_requests_rejected [OF avr_header_ok busy,
      where dataLen = 2 and TXdata = "[0xA0, 0x07]" and rs = 0 and bytesToRead = 1
        and TWIaddr = "0x50"]
  from avr_header_ok busy cap(1) inst [THEN conjunct1, rule_format, OF cap(1)]
    cap(2) inst [THEN conjunct2, rule_format, OF cap(2)]
  show ?thesis by (intro conjI)
qed

section \<open>Repeated start\<close>

text \<open>
  An accepted request stores its repeated-start flag, and the interrupts keep it. With
  the flag set, an interrupt of the transmit group that finds no byte left, and an
  interrupt of the error group, ask for a start; the report of that start is the mode
  \<open>RepeatedStartSent\<close>.
\<close>

lemma TWITransmitData_accepted_repStart:
  "TWITransmitData h TXdata dataLen rs s = Inr (0, s0) \<Longrightarrow> repStart (TWIInfo s0) = rs"
  by (auto simp: TWITransmitData_def Let_def update_defs split: if_splits sum.splits)

lemma TWIReadData_accepted_repStart:
  assumes "0 < TXMAXBUFLEN h" and "TWIReadData h TWIaddr bytesToRead rs s = Inr (0, s0)"
  shows "repStart (TWIInfo s0) = rs"
proof -
  let ?s1 = "s\<lparr>RXBuffIndex := 0, RXBuffLen := uint bytesToRead\<rparr>"
  from assms(2) obtain r where call: "TWITransmitData h [push_bit 1 TWIaddr OR 1] 1 rs ?s1 = Inr (r, s0)"
    and r: "r \<noteq> 2"
    by (auto simp: TWIReadData_def Let_def split: sum.splits if_splits)
  from call r assms(1) have "r = 0"
    by (auto simp: TWITransmitData_def Let_def split: if_splits sum.splits)
  with call show ?thesis by (simp add: TWITransmitData_accepted_repStart)
qed

lemma started_repStart:
  assumes "header_ok h"
    and "TWITransmitData h TXdata dataLen rs s = Inr (0, s0) \<or>
         TWIReadData h TWIaddr bytesToRead rs s = Inr (0, s0)"
    and "run_ISR h evs s0 = Inr s1"
  shows "repStart (TWIInfo s1) = rs"
proof -
  have "0 < TXMAXBUFLEN h" using assms(1) by (simp add: header_ok_def)
  with assms(2) have "repStart (TWIInfo s0) = rs"
    by (auto simp: TWITransmitData_accepted_repStart TWIReadData_accepted_repStart)
  with run_ISR_repStart [OF assms(3)] show ?thesis by simp
qed

lemma mt_restart_held:
  assumes ok: "header_ok h" and st: "mt_status h status"
    and fin: "TXBuffLen t \<le> TXBuffIndex t" and rep: "repStart (TWIInfo t) \<noteq> 0"
  shows "run_ISR h [(status, d1), (TWI_REP_START_SENT h, d2)] t =
     Inr (t\<lparr>TWIInfo := \<lparr>mode = RepeatedStartSent, errorCode = 0xFF,
                         repStart = repStart (TWIInfo t)\<rparr>,
             bus := bus t @ [TWISendStart]\<rparr>)"
proof -
  obtain X where isr: "ISR h status d1 t = mt_data_ack h (t\<lparr>TWIInfo := X\<rparr>)"
    and X: "repStart X = repStart (TWIInfo t)"
  proof (cases "status = TWI_MT_SLAW_ACK h")
    case True
    show ?thesis
      by (rule that [of "(TWIInfo t)\<lparr>mode := MasterTransmitter\<rparr>"])
        (simp_all add: True ISR_MT_SLAW_ACK set_mode_def)
  next
    case False
    show ?thesis
      by (rule that [of "TWIInfo t"]) (simp_all add: ISR_mt_status [OF ok st] False)
  qed
  have step: "ISR h status d1 t =
      Inr (t\<lparr>TWIInfo := X\<lparr>errorCode := 0xFF\<rparr>, bus := bus t @ [TWISendStart]\<rparr>)"
    using mt_data_ack_restart [of "t\<lparr>TWIInfo := X\<rparr>" h] fin rep X by (simp add: isr)
  have info: "X\<lparr>errorCode := 0xFF, mode := RepeatedStartSent\<rparr> =
      \<lparr>mode = RepeatedStartSent, errorCode = 0xFF, repStart = repStart (TWIInfo t)\<rparr>"
    using X by (cases X) simp
  show ?thesis
    using info by (simp add: step ISR_REP_START_SENT [OF ok] set_mode_def)
qed

lemma error_restart_held:
  assumes ok: "header_ok h"
    and st: "status = TWI_MR_SLAR_NACK h \<or> status = TWI_MT_SLAW_NACK h \<or>
             status = TWI_MT_DATA_NACK h \<or> status = TWI_LOST_ARBIT h"
    and rep: "repStart (TWIInfo t) \<noteq> 0"
  shows "run_ISR h [(status, d1), (TWI_REP_START_SENT h, d2)] t =
     Inr (t\<lparr>TWIInfo := \<lparr>mode = RepeatedStartSent, errorCode = status,
                         repStart = repStart (TWIInfo t)\<rparr>,
             bus := bus t @ [TWISendStart]\<rparr>)"
proof -
  have "ISR h status d1 t = Inr (bus_error status t)"
    using st ISR_MR_SLAR_NACK [OF ok] ISR_MT_SLAW_NACK [OF ok] ISR_MT_DATA_NACK [OF ok]
      ISR_LOST_ARBIT [OF ok] by blast
  then have step: "ISR h status d1 t =
      Inr (t\<lparr>TWIInfo := (TWIInfo t)\<lparr>errorCode := status\<rparr>, bus := bus t @ [TWISendStart]\<rparr>)"
    using rep by (simp add: bus_error_def update_defs)
  have info: "(TWIInfo t)\<lparr>errorCode := status, mode := RepeatedStartSent\<rparr> =
      \<lparr>mode = RepeatedStartSent, errorCode = status, repStart = repStart (TWIInfo t)\<rparr>"
    by (cases "TWIInfo t") simp
  show ?thesis
    using info by (simp add: step ISR_REP_START_SENT [OF ok] set_mode_def)
qed

lemma mt_run_restart:
  assumes ok: "header_ok h"
    and evs: "\<forall>e\<in>set evs. mt_status h (fst e)"
    and idx: "TXBuffIndex t = int i" and len: "TXBuffLen t = int n"
    and bounds: "i \<le> n" "n \<le> length (TWITransmitBuffer t)"
    and rep: "repStart (TWIInfo t) \<noteq> 0"
    and count: "length evs = Suc (n - i)"
  shows "run_ISR h (evs @ [(TWI_REP_START_SENT h, d)]) t =
     Inr (t\<lparr>TWIInfo := \<lparr>mode = RepeatedStartSent, errorCode = 0xFF,
                         repStart = repStart (TWIInfo t)\<rparr>,
             TXBuffIndex := int n,
             bus := bus t @ concat (map (\<lambda>b. [LoadTWDR b, TWISendTransmit])
                               (take (n - i) (drop i (TWITransmitBuffer t))))
                    @ [TWISendStart]\<rparr>)"
proof -
  let ?xs = "take (n - i) evs" and ?ys = "drop (n - i) evs"
  have lx: "length ?xs = n - i" and ly: "length ?ys = 1" using count by simp_all
  have ex: "\<forall>e\<in>set ?xs. mt_status h (fst e)" using evs by (auto dest: in_set_takeD)
  from ly obtain e where ys: "?ys = [e]"
    by (cases ?ys) simp_all
  obtain status d1 where e: "e = (status, d1)" by (cases e)
  have "e \<in> set evs" using ys by (metis in_set_dropD list.set_intros(1))
  with evs e have st: "mt_status h status" by auto
  obtain inf where
    loads: "run_ISR h ?xs t =
        Inr (t\<lparr>TWIInfo := inf, TXBuffIndex := int (i + length ?xs),
                bus := bus t @ concat (map (\<lambda>b. [LoadTWDR b, TWISendTransmit])
                                  (take (length ?xs) (drop i (TWITransmitBuffer t))))\<rparr>)"
    and inf: "repStart inf = repStart (TWIInfo t)"
    using mt_loads [OF ok ex idx len _ bounds(2)] bounds(1) lx by auto
  define t1 where "t1 = t\<lparr>TWIInfo := inf, TXBuffIndex := int n,
                bus := bus t @ concat (map (\<lambda>b. [LoadTWDR b, TWISendTransmit])
                                  (take (n - i) (drop i (TWITransmitBuffer t))))\<rparr>"
  have loads': "run_ISR h ?xs t = Inr t1"
    using loads lx bounds(1) by (simp add: t1_def)
  have t1: "TXBuffLen t1 \<le> TXBuffIndex t1" "repStart (TWIInfo t1) \<noteq> 0"
    "repStart (TWIInfo t1) = repStart (TWIInfo t)"
    using len inf rep by (simp_all add: t1_def)
  have "evs @ [(TWI_REP_START_SENT h, d)] = ?xs @ [(status, d1), (TWI_REP_START_SENT h, d)]"
    using ys e by (metis append_take_drop_id append.assoc append_Cons append_Nil)
  then have "run_ISR h (evs @ [(TWI_REP_START_SENT h, d)]) t =
      run_ISR h [(status, d1), (TWI_REP_START_SENT h, d)] t1"
    by (simp only: run_ISR_append loads' sum.case)
  also have "\<dots> = Inr (t1\<lparr>TWIInfo := \<lparr>mode = RepeatedStartSent, errorCode = 0xFF,
                         repStart = repStart (TWIInfo t1)\<rparr>,
             bus := bus t1 @ [TWISendStart]\<rparr>)"
    by (rule mt_restart_held [OF ok st t1(1,2)])
  finally show ?thesis
    by (simp add: t1_def inf)
qed

lemma write_restart_transaction:
  assumes ok: "header_ok h" and sized: "buffers_sized h s" and ready: "isTWIReady s \<noteq> 0"
    and rs: "rs \<noteq> 0"
    and n: "0 < unat dataLen" "unat dataLen \<le> TXMAXBUFLEN h" "unat dataLen \<le> length TXdata"
    and ds: "length ds = unat dataLen - 1"
  shows "\<exists>s0. TWITransmitData h TXdata dataLen rs s = Inr (0, s0) \<and>
     run_ISR h ((if mode (TWIInfo s) = RepeatedStartSent then [] else [(TWI_START_SENT h, d0)])
                 @ (TWI_MT_SLAW_ACK h, d1) # map (Pair (TWI_MT_DATA_ACK h)) ds
                 @ [(TWI_REP_START_SENT h, d2)]) s0 =
       Inr (s\<lparr>TWIInfo := \<lparr>mode = RepeatedStartSent, errorCode = 0xFF, repStart = rs\<rparr>,
               TWITransmitBuffer :=
                 take (unat dataLen) TXdata @ drop (unat dataLen) (TWITransmitBuffer s),
               TXBuffLen := int (unat dataLen), TXBuffIndex := int (unat dataLen),
               bus := bus s
                 @ (if mode (TWIInfo s) = RepeatedStartSent then [] else [TWISendStart])
                 @ concat (map (\<lambda>b. [LoadTWDR b, TWISendTransmit]) (take (unat dataLen) TXdata))
                 @ [TWISendStart]\<rparr>)"
proof -
  let ?n = "unat dataLen"
  let ?mt = "(TWI_MT_SLAW_ACK h, d1) # map (Pair (TWI_MT_DATA_ACK h)) ds"
  define buf where "buf = take ?n TXdata @ drop ?n (TWITransmitBuffer s)"
  have tx: "length (TWITransmitBuffer s) = TXMAXBUFLEN h" "0 < TXMAXBUFLEN h"
    using sized ok by (simp_all add: buffers_sized_def header_ok_def)
  have lbuf: "?n \<le> length buf" using n tx by (simp add: buf_def)
  have tk: "take ?n buf = take ?n TXdata" using n by (simp add: buf_def)
  show ?thesis
  proof (cases "mode (TWIInfo s) = RepeatedStartSent")
    case False
    with ready have m: "mode (TWIInfo s) = Ready"
      by (simp add: isTWIReady_def split: if_splits)
    let ?evs = "(TWI_START_SENT h, d0) # ?mt"
    have evs: "\<forall>e\<in>set ?evs. mt_status h (fst e)"
      by (auto simp: mt_status_def)
    define s0 where "s0 = s\<lparr>TWIInfo := (TWIInfo s)\<lparr>mode := Initializing, repStart := rs\<rparr>,
                TWITransmitBuffer := buf, TXBuffLen := uint dataLen, TXBuffIndex := 0,
                bus := bus s @ [TWISendStart]\<rparr>"
    have call: "TWITransmitData h TXdata dataLen rs s = Inr (0, s0)"
      unfolding s0_def buf_def by (rule TWITransmitData_from_Ready [OF m n(2,3) tx(1)])
    have "run_ISR h (?evs @ [(TWI_REP_START_SENT h, d2)]) s0 =
        Inr (s0\<lparr>TWIInfo := \<lparr>mode = RepeatedStartSent, errorCode = 0xFF,
                         repStart = repStart (TWIInfo s0)\<rparr>,
             TXBuffIndex := int ?n,
             bus := bus s0 @ concat (map (\<lambda>b. [LoadTWDR b, TWISendTransmit])
                               (take (?n - 0) (drop 0 (TWITransmitBuffer s0))))
                    @ [TWISendStart]\<rparr>)"
      using lbuf ds n(1) rs by (intro mt_run_restart [OF ok evs]) (simp_all add: s0_def)
    then have "run_ISR h (?evs @ [(TWI_REP_START_SENT h, d2)]) s0 =
        Inr (s\<lparr>TWIInfo := \<lparr>mode = RepeatedStartSent, errorCode = 0xFF, repStart = rs\<rparr>,
               TWITransmitBuffer := buf,
               TXBuffLen := int ?n, TXBuffIndex := int ?n,
               bus := bus s @ [TWISendStart]
                 @ concat (map (\<lambda>b. [LoadTWDR b, TWISendTransmit]) (take ?n TXdata))
                 @ [TWISendStart]\<rparr>)"
      using tk by (simp add: s0_def)
    with call False show ?thesis unfolding buf_def by (intro exI [of _ s0]) simp
  next
    case True
    have evs: "\<forall>e\<in>set ?mt. mt_status h (fst e)"
      by (auto simp: mt_status_def)
    define s0 where "s0 = s\<lparr>TWIInfo := (TWIInfo s)\<lparr>mode := Initializing, repStart := rs\<rparr>,
                TWITransmitBuffer := buf, TXBuffLen := uint dataLen, TXBuffIndex := 1,
                bus := bus s @ [LoadTWDR (buf ! 0), TWISendTransmit]\<rparr>"
    have call: "TWITransmitData h TXdata dataLen rs s = Inr (0, s0)"
      unfolding s0_def buf_def
      by (rule TWITransmitData_from_RepeatedStartSent [OF True n(2,3) tx])
    have hd: "take ?n TXdata = buf ! 0 # take (?n - 1) (drop 1 buf)"
      using take_first_rest [OF n(1) lbuf] by (simp only: tk)
    have "run_ISR h (?mt @ [(TWI_REP_START_SENT h, d2)]) s0 =
        Inr (s0\<lparr>TWIInfo := \<lparr>mode = RepeatedStartSent, errorCode = 0xFF,
                         repStart = repStart (TWIInfo s0)\<rparr>,
             TXBuffIndex := int ?n,
             bus := bus s0 @ concat (map (\<lambda>b. [LoadTWDR b, TWISendTransmit])
                               (take (?n - 1) (drop 1 (TWITransmitBuffer s0))))
                    @ [TWISendStart]\<rparr>)"
      using lbuf ds n(1) rs by (intro mt_run_restart [OF ok evs]) (simp_all add: s0_def)
    then have "run_ISR h (?mt @ [(TWI_REP_START_SENT h, d2)]) s0 =
        Inr (s\<lparr>TWIInfo := \<lparr>mode = RepeatedStartSent, errorCode = 0xFF, repStart = rs\<rparr>,
               TWITransmitBuffer := buf,
               TXBuffLen := int ?n, TXBuffIndex := int ?n,
               bus := bus s
                 @ concat (map (\<lambda>b. [LoadTWDR b, TWISendTransmit]) (take ?n TXdata))
                 @ [TWISendStart]\<rparr>)"
      by (simp add: s0_def hd)
    with call True show ?thesis unfolding buf_def by (intro exI [of _ s0]) simp
  qed
qed

lemma read_restart_transaction:
  assumes ok: "header_ok h" and sized: "buffers_sized h s" and ready: "isTWIReady s \<noteq> 0"
    and rs: "rs \<noteq> 0"
    and n: "0 < unat bytesToRead" "unat bytesToRead \<le> RXMAXBUFLEN h"
    and rx: "length rx = unat bytesToRead"
  shows "\<exists>s0. TWIReadData h TWIaddr bytesToRead rs s = Inr (0, s0) \<and>
     run_ISR h ((if mode (TWIInfo s) = RepeatedStartSent then [] else [(TWI_START_SENT h, d0)])
                 @ (TWI_MR_SLAR_ACK h, d1) # map (Pair (TWI_MR_DATA_ACK h)) (butlast rx)
                 @ [(TWI_MR_DATA_NACK h, last rx), (TWI_REP_START_SENT h, d2)]) s0 =
       Inr (s\<lparr>TWIInfo := \<lparr>mode = RepeatedStartSent, errorCode = 0xFF, repStart = rs\<rparr>,
               TWITransmitBuffer := (TWITransmitBuffer s)[0 := push_bit 1 TWIaddr OR 1],
               TXBuffLen := 1, TXBuffIndex := 1,
               TWIReceiveBuffer := rx @ drop (unat bytesToRead) (TWIReceiveBuffer s),
               RXBuffLen := int (unat bytesToRead), RXBuffIndex := int (unat bytesToRead),
               bus := bus s
                 @ (if mode (TWIInfo s) = RepeatedStartSent then [] else [TWISendStart])
                 @ [LoadTWDR (push_bit 1 TWIaddr OR 1), TWISendTransmit]
                 @ replicate (unat bytesToRead - 1) TWISendACK
                 @ [TWISendNACK, TWISendStart]\<rparr>)"
proof -
  define evs where
    "evs = (if mode (TWIInfo s) = RepeatedStartSent then [] else [(TWI_START_SENT h, d0)])
                 @ (TWI_MR_SLAR_ACK h, d1) # map (Pair (TWI_MR_DATA_ACK h)) (butlast rx)
                 @ [(TWI_MR_DATA_NACK h, last rx)]"
  define t where "t = s\<lparr>TWIInfo := \<lparr>mode = (if rs = 0 then Ready else MasterReceiver),
                           errorCode = 0xFF, repStart = rs\<rparr>,
               TWITransmitBuffer := (TWITransmitBuffer s)[0 := push_bit 1 TWIaddr OR 1],
               TXBuffLen := 1, TXBuffIndex := 1,
               TWIReceiveBuffer := rx @ drop (unat bytesToRead) (TWIReceiveBuffer s),
               RXBuffLen := int (unat bytesToRead), RXBuffIndex := int (unat bytesToRead),
               bus := bus s
                 @ (if mode (TWIInfo s) = RepeatedStartSent then [] else [TWISendStart])
                 @ [LoadTWDR (push_bit 1 TWIaddr OR 1), TWISendTransmit]
                 @ replicate (unat bytesToRead - 1) TWISendACK
                 @ [TWISendNACK, if rs = 0 then TWISendStop else TWISendStart]\<rparr>"
  from read_transaction [OF ok sized ready n rx, of TWIaddr rs d0 d1]
  obtain s0 where call: "TWIReadData h TWIaddr bytesToRead rs s = Inr (0, s0)"
    and run: "run_ISR h evs s0 = Inr t"
    unfolding t_def evs_def by blast
  have "run_ISR h (evs @ [(TWI_REP_START_SENT h, d2)]) s0 =
      Inr (set_mode RepeatedStartSent t)"
    by (simp add: run_ISR_append run ISR_REP_START_SENT [OF ok])
  then have "run_ISR h ((if mode (TWIInfo s) = RepeatedStartSent then []
                         else [(TWI_START_SENT h, d0)])
                 @ (TWI_MR_SLAR_ACK h, d1) # map (Pair (TWI_MR_DATA_ACK h)) (butlast rx)
                 @ [(TWI_MR_DATA_NACK h, last rx), (TWI_REP_START_SENT h, d2)]) s0 =
      Inr (set_mode RepeatedStartSent t)"
    by (simp add: evs_def)
  with call rs show ?thesis
    by (intro exI [of _ s0]) (simp add: t_def set_mode_def)
qed

text \<open>
  Claim C4. Let a request be made with a repeated-start flag \<open>rs \<noteq> 0\<close>.

  A write of \<open>n \<ge> 1\<close> bytes accepted by a ready driver and fed with the statuses
  start sent (unless it continued a held repeated start), SLA+W acknowledged,
  \<open>n - 1\<close> times data acknowledged and repeated start sent sends its \<open>n\<close> bytes and
  then a start, no stop, and ends in mode \<open>RepeatedStartSent\<close> with the flag still
  \<open>rs\<close>. A read of \<open>n \<ge> 1\<close> bytes fed with its statuses up to the byte received
  with NACK and then repeated start sent stores its bytes, replies, sends a start and no
  stop after the last byte, and ends in mode \<open>RepeatedStartSent\<close>.

  After an accepted transmit or read request with flag \<open>rs\<close> and any sequence of
  interrupts that ends without fault: an interrupt of the transmit group that finds no
  byte left, and an interrupt with one of the three NACK statuses or lost arbitration,
  appends a start and nothing else to the trace, and the following report of the
  repeated start leaves the mode \<open>RepeatedStartSent\<close>; the error code is \<open>0xFF\<close>
  in the first case and the status in the second.

  A transmit or read request made in mode \<open>RepeatedStartSent\<close> is accepted, sets the
  mode to \<open>Initializing\<close>, stores its own flag, loads byte 0 of the transmit buffer
  (for a read the address byte) into \<^verbatim>\<open>TWDR\<close> and asks for transmission; these
  two operations are all it appends to the trace, so it sends no start.
\<close>

theorem repeated_start_chain:
  assumes ok: "header_ok h" and rs: "rs \<noteq> 0"
  shows
    "(buffers_sized h s \<and> isTWIReady s \<noteq> 0 \<and> 0 < unat dataLen \<and>
      unat dataLen \<le> TXMAXBUFLEN h \<and> unat dataLen \<le> length TXdata \<and>
      length ds = unat dataLen - 1 \<longrightarrow>
        (\<exists>s0. TWITransmitData h TXdata dataLen rs s = Inr (0, s0) \<and>
           run_ISR h ((if mode (TWIInfo s) = RepeatedStartSent then []
                       else [(TWI_START_SENT h, d0)])
                      @ (TWI_MT_SLAW_ACK h, d1) # map (Pair (TWI_MT_DATA_ACK h)) ds
                      @ [(TWI_REP_START_SENT h, d2)]) s0 =
             Inr (s\<lparr>TWIInfo := \<lparr>mode = RepeatedStartSent, errorCode = 0xFF, repStart = rs\<rparr>,
                     TWITransmitBuffer :=
                       take (unat dataLen) TXdata @ drop (unat dataLen) (TWITransmitBuffer s),
                     TXBuffLen := int (unat dataLen), TXBuffIndex := int (unat dataLen),
                     bus := bus s
                       @ (if mode (TWIInfo s) = RepeatedStartSent then [] else [TWISendStart])
                       @ concat (map (\<lambda>b. [LoadTWDR b, TWISendTransmit])
                                   (take (unat dataLen) TXdata))
                       @ [TWISendStart]\<rparr>))) \<and>
     (buffers_sized h s \<and> isTWIReady s \<noteq> 0 \<and> 0 < unat bytesToRead \<and>
      unat bytesToRead \<le> RXMAXBUFLEN h \<and> length rx = unat bytesToRead \<longrightarrow>
        (\<exists>s0. TWIReadData h TWIaddr bytesToRead rs s = Inr (0, s0) \<and>
           run_ISR h ((if mode (TWIInfo s) = RepeatedStartSent then []
                       else [(TWI_START_SENT h, d0)])
                      @ (TWI_MR_SLAR_ACK h, d1) # map (Pair (TWI_MR_DATA_ACK h)) (butlast rx)
                      @ [(TWI_MR_DATA_NACK h, last rx), (TWI_REP_START_SENT h, d2)]) s0 =
             Inr (s\<lparr>TWIInfo := \<lparr>mode = RepeatedStartSent, errorCode = 0xFF, repStart = rs\<rparr>,
                     TWITransmitBuffer := (TWITransmitBuffer s)[0 := push_bit 1 TWIaddr OR 1],
                     TXBuffLen := 1, TXBuffIndex := 1,
                     TWIReceiveBuffer := rx @ drop (unat bytesToRead) (TWIReceiveBuffer s),
                     RXBuffLen := int (unat bytesToRead),
                     RXBuffIndex := int (unat bytesToRead),
                     bus := bus s
                       @ (if mode (TWIInfo s) = RepeatedStartSent then [] else [TWISendStart])
                       @ [LoadTWDR (push_bit 1 TWIaddr OR 1), TWISendTransmit]
                       @ replicate (unat bytesToRead - 1) TWISendACK
                       @ [TWISendNACK, TWISendStart]\<rparr>))) \<and>
     ((TWITransmitData h TXdata dataLen rs s = Inr (0, s0) \<or>
       TWIReadData h TWIaddr bytesToRead rs s = Inr (0, s0)) \<and>
      run_ISR h evs s0 = Inr s1 \<and> mt_status h status \<and> TXBuffLen s1 \<le> TXBuffIndex s1 \<longrightarrow>
        run_ISR h [(status, d1), (TWI_REP_START_SENT h, d2)] s1 =
          Inr (s1\<lparr>TWIInfo := \<lparr>mode = RepeatedStartSent, errorCode = 0xFF, repStart = rs\<rparr>,
                   bus := bus s1 @ [TWISendStart]\<rparr>)) \<and>
     ((TWITransmitData h TXdata dataLen rs s = Inr (0, s0) \<or>
       TWIReadData h TWIaddr bytesToRead rs s = Inr (0, s0)) \<and>
      run_ISR h evs s0 = Inr s1 \<and>
      (status = TWI_MR_SLAR_NACK h \<or> status = TWI_MT_SLAW_NACK h \<or>
       status = TWI_MT_DATA_NACK h \<or> status = TWI_LOST_ARBIT h) \<longrightarrow>
        run_ISR h [(status, d1), (TWI_REP_START_SENT h, d2)] s1 =
          Inr (s1\<lparr>TWIInfo := \<lparr>mode = RepeatedStartSent, errorCode = status, repStart = rs\<rparr>,
                   bus := bus s1 @ [TWISendStart]\<rparr>)) \<and>
     (mode (TWIInfo t) = RepeatedStartSent \<and> buffers_sized h t \<and>
      unat dataLen \<le> TXMAXBUFLEN h \<and> unat dataLen \<le> length TXdata \<longrightarrow>
        (\<exists>t'. TWITransmitData h TXdata dataLen next_rs t = Inr (0, t') \<and>
              mode (TWIInfo t') = Initializing \<and> repStart (TWIInfo t') = next_rs \<and>
              TWITransmitBuffer t' =
                take (unat dataLen) TXdata @ drop (unat dataLen) (TWITransmitBuffer t) \<and>
              bus t' = bus t @ [LoadTWDR (TWITransmitBuffer t' ! 0), TWISendTransmit])) \<and>
     (mode (TWIInfo t) = RepeatedStartSent \<and> buffers_sized h t \<and>
      unat bytesToRead \<le> RXMAXBUFLEN h \<longrightarrow>
        (\<exists>t'. TWIReadData h TWIaddr bytesToRead next_rs t = Inr (0, t') \<and>
              mode (TWIInfo t') = Initializing \<and> repStart (TWIInfo t') = next_rs \<and>
              bus t' = bus t @ [LoadTWDR (push_bit 1 TWIaddr OR 1), TWISendTransmit]))"
proof (intro conjI impI)
  assume "buffers_sized h s \<and> isTWIReady s \<noteq> 0 \<and> 0 < unat dataLen \<and>
      unat dataLen \<le> TXMAXBUFLEN h \<and> unat dataLen \<le> length TXdata \<and>
      length ds = unat dataLen - 1"
  then have "buffers_sized h s" "isTWIReady s \<noteq> 0" "0 < unat dataLen"
    "unat dataLen \<le> TXMAXBUFLEN h" "unat dataLen \<le> length TXdata"
    "length ds = unat dataLen - 1" by simp_all
  then show "\<exists>s0. TWITransmitData h TXdata dataLen rs s = Inr (0, s0) \<and>
           run_ISR h ((if mode (TWIInfo s) = RepeatedStartSent then []
                       else [(TWI_START_SENT h, d0)])
                      @ (TWI_MT_SLAW_ACK h, d1) # map (Pair (TWI_MT_DATA_ACK h)) ds
                      @ [(TWI_REP_START_SENT h, d2)]) s0 =
             Inr (s\<lparr>TWIInfo := \<lparr>mode = RepeatedStartSent, errorCode = 0xFF, repStart = rs\<rparr>,
                     TWITransmitBuffer :=
                       take (unat dataLen) TXdata @ drop (unat dataLen) (TWITransmitBuffer s),
                     TXBuffLen := int (unat dataLen), TXBuffIndex := int (unat dataLen),
                     bus := bus s
                       @ (if mode (TWIInfo s) = RepeatedStartSent then [] else [TWISendStart])
                       @ concat (map (\<lambda>b. [LoadTWDR b, TWISendTransmit])
                                   (take (unat dataLen) TXdata))
                       @ [TWISendStart]\<rparr>)"
    by (intro write_restart_transaction [OF ok _ _ rs])
next
  assume "buffers_sized h s \<and> isTWIReady s \<noteq> 0 \<and> 0 < unat bytesToRead \<and>
      unat bytesToRead \<le> RXMAXBUFLEN h \<and> length rx = unat bytesToRead"
  then have "buffers_sized h s" "isTWIReady s \<noteq> 0" "0 < unat bytesToRead"
    "unat bytesToRead \<le> RXMAXBUFLEN h" "length rx = unat bytesToRead" by simp_all
  then show "\<exists>s0. TWIReadData h TWIaddr bytesToRead rs s = Inr (0, s0) \<and>
           run_ISR h ((if mode (TWIInfo s) = RepeatedStartSent then []
                       else [(TWI_START_SENT h, d0)])
                      @ (TWI_MR_SLAR_ACK h, d1) # map (Pair (TWI_MR_DATA_ACK h)) (butlast rx)
                      @ [(TWI_MR_DATA_NACK h, last rx), (TWI_REP_START_SENT h, d2)]) s0 =
             Inr (s\<lparr>TWIInfo := \<lparr>mode = RepeatedStartSent, errorCode = 0xFF, repStart = rs\<rparr>,
                     TWITransmitBuffer := (TWITransmitBuffer s)[0 := push_bit 1 TWIaddr OR 1],
                     TXBuffLen := 1, TXBuffIndex := 1,
                     TWIReceiveBuffer := rx @ drop (unat bytesToRead) (TWIReceiveBuffer s),
                     RXBuffLen := int (unat bytesToRead),
                     RXBuffIndex := int (unat bytesToRead),
                     bus := bus s
                       @ (if mode (TWIInfo s) = RepeatedStartSent then [] else [TWISendStart])
                       @ [LoadTWDR (push_bit 1 TWIaddr OR 1), TWISendTransmit]
                       @ replicate (unat bytesToRead - 1) TWISendACK
                       @ [TWISendNACK, TWISendStart]\<rparr>)"
    by (intro read_restart_transaction [OF ok _ _ rs])
next
  assume a: "(TWITransmitData h TXdata dataLen rs s = Inr (0, s0) \<or>
       TWIReadData h TWIaddr bytesToRead rs s = Inr (0, s0)) \<and>
      run_ISR h evs s0 = Inr s1 \<and> mt_status h status \<and> TXBuffLen s1 \<le> TXBuffIndex s1"
  then have rep: "repStart (TWIInfo s1) = rs"
    by (intro started_repStart [OF ok, of TXdata dataLen rs s s0 TWIaddr bytesToRead evs])
      simp_all
  from a have "mt_status h status" "TXBuffLen s1 \<le> TXBuffIndex s1" by simp_all
  from mt_restart_held [OF ok this, of d1 d2] rep rs
  show "run_ISR h [(status, d1), (TWI_REP_START_SENT h, d2)] s1 =
          Inr (s1\<lparr>TWIInfo := \<lparr>mode = RepeatedStartSent, errorCode = 0xFF, repStart = rs\<rparr>,
                   bus := bus s1 @ [TWISendStart]\<rparr>)"
    by simp
next
  assume a: "(TWITransmitData h TXdata dataLen rs s = Inr (0, s0) \<or>
       TWIReadData h TWIaddr bytesToRead rs s = Inr (0, s0)) \<and>
      run_ISR h evs s0 = Inr s1 \<and>
      (status = TWI_MR_SLAR_NACK h \<or> status = TWI_MT_SLAW_NACK h \<or>
       status = TWI_MT_DATA_NACK h \<or> status = TWI_LOST_ARBIT h)"
  then have rep: "repStart (TWIInfo s1) = rs"
    by (intro started_repStart [OF ok, of TXdata dataLen rs s s0 TWIaddr bytesToRead evs])
      simp_all
  from a have "status = TWI_MR_SLAR_NACK h \<or> status = TWI_MT_SLAW_NACK h \<or>
       status = TWI_MT_DATA_NACK h \<or> status = TWI_LOST_ARBIT h" by simp
  from error_restart_held [OF ok this, of s1 d1 d2] rep rs
  show "run_ISR h [(status, d1), (TWI_REP_START_SENT h, d2)] s1 =
          Inr (s1\<lparr>TWIInfo := \<lparr>mode = RepeatedStartSent, errorCode = status, repStart = rs\<rparr>,
                   bus := bus s1 @ [TWISendStart]\<rparr>)"
    by simp
next
  assume a: "mode (TWIInfo t) = RepeatedStartSent \<and> buffers_sized h t \<and>
      unat dataLen \<le> TXMAXBUFLEN h \<and> unat dataLen \<le> length TXdata"
  then have tx: "length (TWITransmitBuffer t) = TXMAXBUFLEN h" "0 < TXMAXBUFLEN h"
    using ok by (simp_all add: buffers_sized_def header_ok_def)
  from a have "mode (TWIInfo t) = RepeatedStartSent" "unat dataLen \<le> TXMAXBUFLEN h"
    "unat dataLen \<le> length TXdata" by simp_all
  from TWITransmitData_from_RepeatedStartSent [OF this tx, of next_rs]
  show "\<exists>t'. TWITransmitData h TXdata dataLen next_rs t = Inr (0, t') \<and>
              mode (TWIInfo t') = Initializing \<and> repStart (TWIInfo t') = next_rs \<and>
              TWITransmitBuffer t' =
                take (unat dataLen) TXdata @ drop (unat dataLen) (TWITransmitBuffer t) \<and>
              bus t' = bus t @ [LoadTWDR (TWITransmitBuffer t' ! 0), TWISendTransmit]"
    by simp
next
  assume a: "mode (TWIInfo t) = RepeatedStartSent \<and> buffers_sized h t \<and>
      unat bytesToRead \<le> RXMAXBUFLEN h"
  then have tx: "length (TWITransmitBuffer t) = TXMAXBUFLEN h" "0 < TXMAXBUFLEN h"
    using ok by (simp_all add: buffers_sized_def header_ok_def)
  from a have "mode (TWIInfo t) = RepeatedStartSent" "unat bytesToRead \<le> RXMAXBUFLEN h"
    by simp_all
  from TWIReadData_from_RepeatedStartSent [OF this tx, of TWIaddr next_rs]
  show "\<exists>t'. TWIReadData h TWIaddr bytesToRead next_rs t = Inr (0, t') \<and>
              mode (TWIInfo t') = Initializing \<and> repStart (TWIInfo t') = next_rs \<and>
              bus t' = bus t @ [LoadTWDR (push_bit 1 TWIaddr OR 1), TWISendTransmit]"
    by simp
qed

text \<open>
  On the ATmega header after initialisation: a write of two bytes and a read of three
  bytes with repeated start, from the request to the held start; the end of the example
  write with repeated start; an address not acknowledged after its start; and the two
  requests that may follow the held start.
\<close>

theorem repeated_start_chain_witness:
  "header_ok avr_header \<and> (1 :: u8) \<noteq> 0 \<and>
   (buffers_sized avr_header (TWIInit (power_on avr_header)) \<and>
    isTWIReady (TWIInit (power_on avr_header)) \<noteq> 0 \<and> 0 < unat (2 :: u8) \<and>
    unat (2 :: u8) \<le> TXMAXBUFLEN avr_header \<and> unat (2 :: u8) \<le> length [0xA0, 0x07 :: u8] \<and>
    length [0 :: u8] = unat (2 :: u8) - 1) \<and>
   (\<exists>s0. TWITransmitData avr_header [0xA0, 0x07] 2 1 (TWIInit (power_on avr_header))
           = Inr (0, s0) \<and>
     run_ISR avr_header
        [(TWI_START_SENT avr_header, 0), (TWI_MT_SLAW_ACK avr_header, 0),
         (TWI_MT_DATA_ACK avr_header, 0), (TWI_REP_START_SENT avr_header, 0)] s0 =
       Inr ((TWIInit (power_on avr_header))
              \<lparr>TWIInfo := \<lparr>mode = RepeatedStartSent, errorCode = 0xFF, repStart = 1\<rparr>,
               TWITransmitBuffer := [0xA0, 0x07] @ replicate 18 0,
               TXBuffLen := 2, TXBuffIndex := 2,
               bus := [SetupRegisters, TWISendStart, LoadTWDR 0xA0, TWISendTransmit,
                       LoadTWDR 0x07, TWISendTransmit, TWISendStart]\<rparr>)) \<and>
   (buffers_sized avr_header (TWIInit (power_on avr_header)) \<and>
    isTWIReady (TWIInit (power_on avr_header)) \<noteq> 0 \<and> 0 < unat (3 :: u8) \<and>
    unat (3 :: u8) \<le> RXMAXBUFLEN avr_header \<and>
    length [0x11, 0x22, 0x33 :: u8] = unat (3 :: u8)) \<and>
   (\<exists>s0. TWIReadData avr_header 0x50 3 1 (TWIInit (power_on avr_header)) = Inr (0, s0) \<and>
     run_ISR avr_header
        [(TWI_START_SENT avr_header, 0), (TWI_MR_SLAR_ACK avr_header, 0),
         (TWI_MR_DATA_ACK avr_header, 0x11), (TWI_MR_DATA_ACK avr_header, 0x22),
         (TWI_MR_DATA_NACK avr_header, 0x33), (TWI_REP_START_SENT avr_header, 0)] s0 =
       Inr ((TWIInit (power_on avr_header))
              \<lparr>TWIInfo := \<lparr>mode = RepeatedStartSent, errorCode = 0xFF, repStart = 1\<rparr>,
               TWITransmitBuffer := 0xA1 # replicate 19 0,
               TXBuffLen := 1, TXBuffIndex := 1,
               TWIReceiveBuffer := [0x11, 0x22, 0x33] @ replicate 17 0,
               RXBuffLen := 3, RXBuffIndex := 3,
               bus := [SetupRegisters, TWISendStart, LoadTWDR 0xA1, TWISendTransmit,
                       TWISendACK, TWISendACK, TWISendNACK, TWISendStart]\<rparr>)) \<and>
   (TWITransmitData avr_header [0xA0, 0x07] 2 1 (TWIInit (power_on avr_header)) =
      Inr (0, write_requested_example
                \<lparr>TWIInfo := \<lparr>mode = Initializing, errorCode = 0xFF, repStart = 1\<rparr>\<rparr>) \<and>
    run_ISR avr_header [(TWI_START_SENT avr_header, 0), (TWI_MT_SLAW_ACK avr_header, 0)]
      (write_requested_example
         \<lparr>TWIInfo := \<lparr>mode = Initializing, errorCode = 0xFF, repStart = 1\<rparr>\<rparr>) =
      Inr repeated_start_example \<and>
    mt_status avr_header (TWI_MT_DATA_ACK avr_header) \<and>
    TXBuffLen repeated_start_example \<le> TXBuffIndex repeated_start_example) \<and>
   run_ISR avr_header [(TWI_MT_DATA_ACK avr_header, 0), (TWI_REP_START_SENT avr_header, 0)]
     repeated_start_example = Inr start_held_example \<and>
   run_ISR avr_header [(TWI_START_SENT avr_header, 0)]
      (write_requested_example
         \<lparr>TWIInfo := \<lparr>mode = Initializing, errorCode = 0xFF, repStart = 1\<rparr>\<rparr>) =
      Inr (write_requested_example
             \<lparr>TWIInfo := \<lparr>mode = Initializing, errorCode = 0xF8, repStart = 1\<rparr>,
              TXBuffIndex := 1,
              bus := [SetupRegisters, TWISendStart, LoadTWDR 0xA0, TWISendTransmit]\<rparr>) \<and>
   run_ISR avr_header [(TWI_MT_SLAW_NACK avr_header, 0), (TWI_REP_START_SENT avr_header, 0)]
      (write_requested_example
             \<lparr>TWIInfo := \<lparr>mode = Initializing, errorCode = 0xF8, repStart = 1\<rparr>,
              TXBuffIndex := 1,
              bus := [SetupRegisters, TWISendStart, LoadTWDR 0xA0, TWISendTransmit]\<rparr>) =
      Inr (write_requested_example
             \<lparr>TWIInfo := \<lparr>mode = RepeatedStartSent, errorCode = 0x20, repStart = 1\<rparr>,
              TXBuffIndex := 1,
              bus := [SetupRegisters, TWISendStart, LoadTWDR 0xA0, TWISendTransmit,
                      TWISendStart]\<rparr>) \<and>
   (mode (TWIInfo start_held_example) = RepeatedStartSent \<and>
    buffers_sized avr_header start_held_example \<and>
    unat (2 :: u8) \<le> TXMAXBUFLEN avr_header \<and> unat (2 :: u8) \<le> length [0xA2, 0x09 :: u8]) \<and>
   (\<exists>t'. TWITransmitData avr_header [0xA2, 0x09] 2 0 start_held_example = Inr (0, t') \<and>
         mode (TWIInfo t') = Initializing \<and> repStart (TWIInfo t') = 0 \<and>
         TWITransmitBuffer t' = [0xA2, 0x09] @ drop 2 (TWITransmitBuffer start_held_example) \<and>
         bus t' = bus start_held_example @ [LoadTWDR 0xA2, TWISendTransmit]) \<and>
   (mode (TWIInfo start_held_example) = RepeatedStartSent \<and>
    buffers_sized avr_header start_held_example \<and>
    unat (1 :: u8) \<le> RXMAXBUFLEN avr_header) \<and>
   (\<exists>t'. TWIReadData avr_header 0x50 1 0 start_held_example = Inr (0, t') \<and>
         mode (TWIInfo t') = Initializing \<and> repStart (TWIInfo t') = 0 \<and>
         bus t' = bus start_held_example @ [LoadTWDR 0xA1, TWISendTransmit])"
proof -
  let ?init = "TWIInit (power_on avr_header)"
  let ?s0 = "write_requested_example
         \<lparr>TWIInfo := \<lparr>mode = Initializing, errorCode = 0xFF, repStart = 1\<rparr>\<rparr>"
  let ?s1 = "write_requested_example
             \<lparr>TWIInfo := \<lparr>mode = Initializing, errorCode = 0xF8, repStart = 1\<rparr>,
              TXBuffIndex := 1,
              bus := [SetupRegisters, TWISendStart, LoadTWDR 0xA0, TWISendTransmit]\<rparr>"
  note ok = avr_header_ok
  have rs: "(1 :: u8) \<noteq> 0" by simp
  note chain = repeated_start_chain [OF ok rs]
  have state: "mode (TWIInfo ?init) = Ready" "bus ?init = [SetupRegisters]"
    "TWITransmitBuffer ?init = replicate 20 0" "TWIReceiveBuffer ?init = replicate 20 0"
    by (simp_all add: TWIInit_def update_defs power_on_def avr_header_def)
  have lists: "drop 3 (replicate 20 (0 :: u8)) = replicate 17 0"
    "drop 2 (replicate 20 (0 :: u8)) = replicate 18 0"
    "(replicate 20 (0 :: u8))[0 := 0xA1] = 0xA1 # replicate 19 0"
    "replicate 2 TWISendACK = [TWISendACK, TWISendACK]"
    by (simp_all add: numeral_2_eq_2 eval_nat_numeral)
  have byte: "push_bit 1 0x50 OR 1 = (0xA1 :: u8)"
    by simp
  have pW: "buffers_sized avr_header ?init \<and> isTWIReady ?init \<noteq> 0 \<and> 0 < unat (2 :: u8) \<and>
    unat (2 :: u8) \<le> TXMAXBUFLEN avr_header \<and> unat (2 :: u8) \<le> length [0xA0, 0x07 :: u8] \<and>
    length [0 :: u8] = unat (2 :: u8) - 1"
    by (simp add: buffers_sized_def isTWIReady_def TWIInit_def update_defs power_on_def
        avr_header_def)
  have cW: "\<exists>s0. TWITransmitData avr_header [0xA0, 0x07] 2 1 ?init = Inr (0, s0) \<and>
     run_ISR avr_header
        [(TWI_START_SENT avr_header, 0), (TWI_MT_SLAW_ACK avr_header, 0),
         (TWI_MT_DATA_ACK avr_header, 0), (TWI_REP_START_SENT avr_header, 0)] s0 =
       Inr (?init
              \<lparr>TWIInfo := \<lparr>mode = RepeatedStartSent, errorCode = 0xFF, repStart = 1\<rparr>,
               TWITransmitBuffer := [0xA0, 0x07] @ replicate 18 0,
               TXBuffLen := 2, TXBuffIndex := 2,
               bus := [SetupRegisters, TWISendStart, LoadTWDR 0xA0, TWISendTransmit,
                       LoadTWDR 0x07, TWISendTransmit, TWISendStart]\<rparr>)"
    using chain [where s = ?init and dataLen = 2 and TXdata = "[0xA0, 0x07]" and ds = "[0]"
        and ?d0.0 = 0 and ?d1.0 = 0 and ?d2.0 = 0, THEN conjunct1, rule_format, OF pW]
    by (simp add: state lists)
  have pR: "buffers_sized avr_header ?init \<and> isTWIReady ?init \<noteq> 0 \<and> 0 < unat (3 :: u8) \<and>
    unat (3 :: u8) \<le> RXMAXBUFLEN avr_header \<and>
    length [0x11, 0x22, 0x33 :: u8] = unat (3 :: u8)"
    by (simp add: buffers_sized_def isTWIReady_def TWIInit_def update_defs power_on_def
        avr_header_def)
  have cR: "\<exists>s0. TWIReadData avr_header 0x50 3 1 ?init = Inr (0, s0) \<and>
     run_ISR avr_header
        [(TWI_START_SENT avr_header, 0), (TWI_MR_SLAR_ACK avr_header, 0),
         (TWI_MR_DATA_ACK avr_header, 0x11), (TWI_MR_DATA_ACK avr_header, 0x22),
         (TWI_MR_DATA_NACK avr_header, 0x33), (TWI_REP_START_SENT avr_header, 0)] s0 =
       Inr (?init
              \<lparr>TWIInfo := \<lparr>mode = RepeatedStartSent, errorCode = 0xFF, repStart = 1\<rparr>,
               TWITransmitBuffer := 0xA1 # replicate 19 0,
               TXBuffLen := 1, TXBuffIndex := 1,
               TWIReceiveBuffer := [0x11, 0x22, 0x33] @ replicate 17 0,
               RXBuffLen := 3, RXBuffIndex := 3,
               bus := [SetupRegisters, TWISendStart, LoadTWDR 0xA1, TWISendTransmit,
                       TWISendACK, TWISendACK, TWISendNACK, TWISendStart]\<rparr>)"
    using chain [where s = ?init and TWIaddr = "0x50" and bytesToRead = 3
        and rx = "[0x11, 0x22, 0x33]" and ?d0.0 = 0 and ?d1.0 = 0 and ?d2.0 = 0,
        THEN conjunct2, THEN conjunct1, rule_format, OF pR]
    by (simp add: state lists byte)
  have call: "TWITransmitData avr_header [0xA0, 0x07] 2 1 ?init = Inr (0, ?s0)"
    by (simp add: write_requested_example_def eval_defs)
  have run2: "run_ISR avr_header
      [(TWI_START_SENT avr_header, 0), (TWI_MT_SLAW_ACK avr_header, 0)] ?s0 =
      Inr repeated_start_example"
    by (simp add: write_requested_example_def repeated_start_example_def eval_defs)
  have run1: "run_ISR avr_header [(TWI_START_SENT avr_header, 0)] ?s0 = Inr ?s1"
    by (simp add: write_requested_example_def eval_defs)
  have mt: "mt_status avr_header (TWI_MT_DATA_ACK avr_header)"
    by (simp add: mt_status_def)
  have fin: "TXBuffLen repeated_start_example \<le> TXBuffIndex repeated_start_example"
    by (simp add: repeated_start_example_def)
  have pG: "(TWITransmitData avr_header [0xA0, 0x07] 2 1 ?init = Inr (0, ?s0) \<or>
       TWIReadData avr_header 0 0 1 ?init = Inr (0, ?s0)) \<and>
      run_ISR avr_header [(TWI_START_SENT avr_header, 0), (TWI_MT_SLAW_ACK avr_header, 0)] ?s0
        = Inr repeated_start_example \<and>
      mt_status avr_header (TWI_MT_DATA_ACK avr_header) \<and>
      TXBuffLen repeated_start_example \<le> TXBuffIndex repeated_start_example"
    using call run2 mt fin by (intro conjI disjI1)
  have cG: "run_ISR avr_header
      [(TWI_MT_DATA_ACK avr_header, 0), (TWI_REP_START_SENT avr_header, 0)]
      repeated_start_example = Inr start_held_example"
    using chain [where s = ?init and dataLen = 2 and TXdata = "[0xA0, 0x07]"
        and TWIaddr = 0 and bytesToRead = 0 and ?s0.0 = ?s0
        and evs = "[(TWI_START_SENT avr_header, 0), (TWI_MT_SLAW_ACK avr_header, 0)]"
        and ?s1.0 = repeated_start_example and status = "TWI_MT_DATA_ACK avr_header"
        and ?d1.0 = 0 and ?d2.0 = 0,
        THEN conjunct2, THEN conjunct2, THEN conjunct1, rule_format, OF pG]
    by (simp add: repeated_start_example_def start_held_example_def)
  have pE: "(TWITransmitData avr_header [0xA0, 0x07] 2 1 ?init = Inr (0, ?s0) \<or>
       TWIReadData avr_header 0 0 1 ?init = Inr (0, ?s0)) \<and>
      run_ISR avr_header [(TWI_START_SENT avr_header, 0)] ?s0 = Inr ?s1 \<and>
      (TWI_MT_SLAW_NACK avr_header = TWI_MR_SLAR_NACK avr_header \<or>
       TWI_MT_SLAW_NACK avr_header = TWI_MT_SLAW_NACK avr_header \<or>
       TWI_MT_SLAW_NACK avr_header = TWI_MT_DATA_NACK avr_header \<or>
       TWI_MT_SLAW_NACK avr_header = TWI_LOST_ARBIT avr_header)"
    using call run1 by (intro conjI disjI1 disjI2 [OF disjI1] refl)
  have cE: "run_ISR avr_header
      [(TWI_MT_SLAW_NACK avr_header, 0), (TWI_REP_START_SENT avr_header, 0)] ?s1 =
      Inr (write_requested_example
             \<lparr>TWIInfo := \<lparr>mode = RepeatedStartSent, errorCode = 0x20, repStart = 1\<rparr>,
              TXBuffIndex := 1,
              bus := [SetupRegisters, TWISendStart, LoadTWDR 0xA0, TWISendTransmit,
                      TWISendStart]\<rparr>)"
    using chain [where s = ?init and dataLen = 2 and TXdata = "[0xA0, 0x07]"
        and TWIaddr = 0 and bytesToRead = 0 and ?s0.0 = ?s0
        and evs = "[(TWI_START_SENT avr_header, 0)]"
        and ?s1.0 = ?s1 and status = "TWI_MT_SLAW_NACK avr_header"
        and ?d1.0 = 0 and ?d2.0 = 0,
        THEN conjunct2, THEN conjunct2, THEN conjunct2, THEN conjunct1, rule_format, OF pE]
    by (simp add: write_requested_example_def avr_header_def)
  have pN1: "mode (TWIInfo start_held_example) = RepeatedStartSent \<and>
    buffers_sized avr_header start_held_example \<and>
    unat (2 :: u8) \<le> TXMAXBUFLEN avr_header \<and> unat (2 :: u8) \<le> length [0xA2, 0x09 :: u8]"
    by (simp add: start_held_example_def buffers_sized_def avr_header_def)
  have cN1: "\<exists>t'. TWITransmitData avr_header [0xA2, 0x09] 2 0 start_held_example = Inr (0, t') \<and>
         mode (TWIInfo t') = Initializing \<and> repStart (TWIInfo t') = 0 \<and>
         TWITransmitBuffer t' = [0xA2, 0x09] @ drop 2 (TWITransmitBuffer start_held_example) \<and>
         bus t' = bus start_held_example @ [LoadTWDR 0xA2, TWISendTransmit]"
    using chain [where t = start_held_example and dataLen = 2 and TXdata = "[0xA2, 0x09]"
        and next_rs = 0,
        THEN conjunct2, THEN conjunct2, THEN conjunct2, THEN conjunct2, THEN conjunct1,
        rule_format, OF pN1]
    by auto
  have pN2: "mode (TWIInfo start_held_example) = RepeatedStartSent \<and>
    buffers_sized avr_header start_held_example \<and>
    unat (1 :: u8) \<le> RXMAXBUFLEN avr_header"
    by (simp add: start_held_example_def buffers_sized_def avr_header_def)
  have cN2: "\<exists>t'. TWIReadData avr_header 0x50 1 0 start_held_example = Inr (0, t') \<and>
         mode (TWIInfo t') = Initializing \<and> repStart (TWIInfo t') = 0 \<and>
         bus t' = bus start_held_example @ [LoadTWDR 0xA1, TWISendTransmit]"
    using chain [where t = start_held_example and TWIaddr = "0x50" and bytesToRead = 1
        and next_rs = 0,
        THEN conjunct2, THEN conjunct2, THEN conjunct2, THEN conjunct2, THEN conjunct2,
        rule_format, OF pN2]
    by (auto simp: byte)
  have pG': "TWITransmitData avr_header [0xA0, 0x07] 2 1 ?init = Inr (0, ?s0) \<and>
    run_ISR avr_header [(TWI_START_SENT avr_header, 0), (TWI_MT_SLAW_ACK avr_header, 0)] ?s0 =
      Inr repeated_start_example \<and>
    mt_status avr_header (TWI_MT_DATA_ACK avr_header) \<and>
    TXBuffLen repeated_start_example \<le> TXBuffIndex repeated_start_example"
    using call run2 mt fin by (intro conjI)
  note all = conjI [OF ok conjI [OF rs conjI [OF pW conjI [OF cW conjI [OF pR conjI [OF cR
      conjI [OF pG' conjI [OF cG conjI [OF run1 conjI [OF cE conjI [OF pN1 conjI [OF cN1
      conjI [OF pN2 cN2]]]]]]]]]]]]]
  show ?thesis by (rule all)
qed

section \<open>The cursors and the lengths\<close>

text \<open>The branches of the routine, with the status that leads to the two storing ones.\<close>

lemma ISR_branches_status:
  assumes "P (mt_data_ack h (set_mode MasterTransmitter s))"
    and "P (mt_data_ack h s)"
    and "P (Inr (mr_reply h (set_mode MasterReceiver s)))"
    and "status = TWI_MR_DATA_ACK h \<Longrightarrow> P (mr_data_ack h twdr s)"
    and "status = TWI_MR_DATA_NACK h \<Longrightarrow> P (mr_data_nack twdr s)"
    and "P (Inr (bus_error status s))"
    and "P (Inr (set_mode RepeatedStartSent s))"
    and "P (Inr (emit TWISendStop (set_mode Ready (set_errorCode (TWI_ILLEGAL_START_STOP h) s))))"
    and "P (Inr s)"
  shows "P (ISR h status twdr s)"
  unfolding ISR_def using assms by simp

lemma uint_pos_u8: "(w :: u8) \<noteq> 0 \<Longrightarrow> 1 \<le> uint w"
  by (metis uint_0_iff uint_ge_0 int_one_le_iff_zero_less order_less_le)

lemma TWITransmitData_cursors:
  assumes "TWITransmitData h TXdata dataLen rs s = Inr (r, s')"
    and "cursors_within s"
    and "\<not> (mode (TWIInfo s) = RepeatedStartSent \<and> dataLen = 0)"
  shows "cursors_within s'"
  using assms uint_pos_u8 [of dataLen]
  by (auto simp: TWITransmitData_def Let_def cursors_within_def update_defs
      split: if_splits sum.splits)

lemma TWIReadData_cursors:
  assumes "TWIReadData h TWIaddr bytesToRead rs s = Inr (r, s')"
    and "cursors_within s"
  shows "cursors_within s'"
proof (cases "unat bytesToRead \<le> RXMAXBUFLEN h")
  case False
  with assms show ?thesis by (simp add: TWIReadData_def)
next
  case True
  let ?s1 = "s\<lparr>RXBuffIndex := 0, RXBuffLen := uint bytesToRead\<rparr>"
  have s1: "cursors_within ?s1"
    using assms(2) by (simp add: cursors_within_def)
  from assms(1) True obtain r1 where "TWITransmitData h [push_bit 1 TWIaddr OR 1] 1 rs ?s1 = Inr (r1, s')"
    by (auto simp: TWIReadData_def Let_def split: sum.splits if_splits)
  from TWITransmitData_cursors [OF this s1] show ?thesis by simp
qed

lemma ISR_cursors:
  assumes "ISR h status twdr s = Inr s'" and "cursors_within s"
    and "in_transfer h (Interrupt status twdr) s"
  shows "cursors_within s'"
proof -
  have "\<forall>t. ISR h status twdr s = Inr t \<longrightarrow> cursors_within t"
  proof (rule ISR_branches_status)
    show "\<forall>t. mt_data_ack h (set_mode MasterTransmitter s) = Inr t \<longrightarrow> cursors_within t"
      using assms(2)
      by (auto simp: mt_data_ack_def cursors_within_def update_defs split: if_splits sum.splits)
    show "\<forall>t. mt_data_ack h s = Inr t \<longrightarrow> cursors_within t"
      using assms(2)
      by (auto simp: mt_data_ack_def cursors_within_def update_defs split: if_splits sum.splits)
    show "\<forall>t. Inr (mr_reply h (set_mode MasterReceiver s)) = Inr t \<longrightarrow> cursors_within t"
      using assms(2) by (simp add: cursors_within_def mr_reply_frame set_mode_frame)
    show "\<forall>t. mr_data_ack h twdr s = Inr t \<longrightarrow> cursors_within t"
      if "status = TWI_MR_DATA_ACK h"
      using that assms(2,3) mr_data_ack_frame [of h twdr s]
      by (auto simp: cursors_within_def)
    show "\<forall>t. mr_data_nack twdr s = Inr t \<longrightarrow> cursors_within t"
      if "status = TWI_MR_DATA_NACK h"
      using that assms(2,3) mr_data_nack_frame [of twdr s]
      by (auto simp: cursors_within_def)
    show "\<forall>t. Inr (bus_error status s) = Inr t \<longrightarrow> cursors_within t"
      using assms(2) by (simp add: cursors_within_def bus_error_frame)
    show "\<forall>t. Inr (set_mode RepeatedStartSent s) = Inr t \<longrightarrow> cursors_within t"
      using assms(2) by (simp add: cursors_within_def set_mode_frame)
    show "\<forall>t. Inr (emit TWISendStop (set_mode Ready (set_errorCode (TWI_ILLEGAL_START_STOP h) s)))
             = Inr t \<longrightarrow> cursors_within t"
      using assms(2) by (simp add: cursors_within_def update_defs)
    show "\<forall>t. Inr s = Inr t \<longrightarrow> cursors_within t"
      using assms(2) by simp
  qed
  with assms(1) show ?thesis by simp
qed

lemma perform_cursors:
  assumes "perform h r s = Inr s'" and "cursors_within s" and "in_transfer h r s"
  shows "cursors_within s'"
proof (cases r)
  case CallInit
  with assms show ?thesis
    by (auto simp: TWIInit_def update_defs cursors_within_def)
next
  case (CallTransmit TXdata dataLen rs)
  with assms(1) obtain c where "TWITransmitData h TXdata dataLen rs s = Inr (c, s')"
    by (cases "TWITransmitData h TXdata dataLen rs s") auto
  from TWITransmitData_cursors [OF this assms(2)] assms(3) CallTransmit show ?thesis by simp
next
  case (CallRead TWIaddr bytesToRead rs)
  with assms(1) obtain c where "TWIReadData h TWIaddr bytesToRead rs s = Inr (c, s')"
    by (cases "TWIReadData h TWIaddr bytesToRead rs s") auto
  from TWIReadData_cursors [OF this assms(2)] show ?thesis .
next
  case (Interrupt status twdr)
  with assms show ?thesis by (auto intro: ISR_cursors)
qed

text \<open>
  Claim C6, as the specification states it, fails: after initialisation a read request
  for no bytes is accepted, and the byte that arrives after the address is stored at
  position 0, which moves the receive cursor to 1 while the length is 0.
\<close>

theorem zero_byte_read_counterexample:
  "map_sum id cursors_within
     (perform_all avr_header
        [CallInit, CallRead 0x50 0 0, Interrupt (TWI_START_SENT avr_header) 0,
         Interrupt (TWI_MR_SLAR_ACK avr_header) 0, Interrupt (TWI_MR_DATA_NACK avr_header) 0x42]
        (power_on avr_header)) = Inr False"
  by (simp add: TWIInit_def TWIReadData_def TWITransmitData_def isTWIReady_def ISR_def
      mt_data_ack_def mr_reply_def mr_store_def mr_data_nack_def load_def store_def
      update_defs copy_loop.simps avr_header_def power_on_def cursors_within_def)

text \<open>
  Claim C6, amended. Both cursors are within their lengths when the program starts, and
  this is preserved along every run of requests and interrupts that ends without a fault
  and in which no transmit request of no bytes continues a held repeated start and no
  data-received interrupt arrives while the receive cursor is at the receive length.
\<close>

theorem cursors_within_preserved:
  "cursors_within (power_on h) \<and>
   (cursors_within s \<and> all_in_transfer h rs s \<and> perform_all h rs s = Inr s' \<longrightarrow>
    cursors_within s')"
proof (intro conjI impI)
  show "cursors_within (power_on h)"
    by (simp add: cursors_within_def power_on_def)
next
  assume "cursors_within s \<and> all_in_transfer h rs s \<and> perform_all h rs s = Inr s'"
  then show "cursors_within s'"
  proof (induction rs arbitrary: s)
    case Nil
    then show ?case by auto
  next
    case (Cons r rs)
    then obtain s1 where step: "perform h r s = Inr s1"
      and rest: "all_in_transfer h rs s1" "perform_all h rs s1 = Inr s'"
      by (cases "perform h r s") auto
    from Cons.prems have "in_transfer h r s" "cursors_within s" by simp_all
    with step have "cursors_within s1" by (auto intro: perform_cursors)
    with rest show ?case by (intro Cons.IH) simp
  qed
qed

text \<open>Initialisation and a complete read of two bytes.\<close>

theorem cursors_within_preserved_witness:
  "cursors_within (power_on avr_header) \<and>
   all_in_transfer avr_header
     [CallInit, CallRead 0x50 2 0, Interrupt 0x08 0, Interrupt 0x40 0, Interrupt 0x50 0x11,
      Interrupt 0x58 0x22] (power_on avr_header) \<and>
   perform_all avr_header
     [CallInit, CallRead 0x50 2 0, Interrupt 0x08 0, Interrupt 0x40 0, Interrupt 0x50 0x11,
      Interrupt 0x58 0x22] (power_on avr_header) =
     Inr ((power_on avr_header)
            \<lparr>TWIInfo := \<lparr>mode = Ready, errorCode = 0xFF, repStart = 0\<rparr>,
             TWITransmitBuffer := (replicate 20 0)[0 := 0xA1], TXBuffLen := 1, TXBuffIndex := 1,
             TWIReceiveBuffer := (replicate 20 0)[0 := 0x11, 1 := 0x22],
             RXBuffLen := 2, RXBuffIndex := 2,
             bus := [SetupRegisters, TWISendStart, LoadTWDR 0xA1, TWISendTransmit,
                     TWISendACK, TWISendNACK, TWISendStop]\<rparr>) \<and>
   cursors_within ((power_on avr_header)
            \<lparr>TWIInfo := \<lparr>mode = Ready, errorCode = 0xFF, repStart = 0\<rparr>,
             TWITransmitBuffer := (replicate 20 0)[0 := 0xA1], TXBuffLen := 1, TXBuffIndex := 1,
             TWIReceiveBuffer := (replicate 20 0)[0 := 0x11, 1 := 0x22],
             RXBuffLen := 2, RXBuffIndex := 2,
             bus := [SetupRegisters, TWISendStart, LoadTWDR 0xA1, TWISendTransmit,
                     TWISendACK, TWISendNACK, TWISendStop]\<rparr>)"
proof -
  let ?rs = "[CallInit, CallRead 0x50 2 0, Interrupt 0x08 0, Interrupt 0x40 0,
      Interrupt 0x50 0x11, Interrupt 0x58 0x22]"
  let ?s' = "(power_on avr_header)
            \<lparr>TWIInfo := \<lparr>mode = Ready, errorCode = 0xFF, repStart = 0\<rparr>,
             TWITransmitBuffer := (replicate 20 0)[0 := 0xA1], TXBuffLen := 1, TXBuffIndex := 1,
             TWIReceiveBuffer := (replicate 20 0)[0 := 0x11, 1 := 0x22],
             RXBuffLen := 2, RXBuffIndex := 2,
             bus := [SetupRegisters, TWISendStart, LoadTWDR 0xA1, TWISendTransmit,
                     TWISendACK, TWISendNACK, TWISendStop]\<rparr>"
  have start: "cursors_within (power_on avr_header)"
    by (simp add: cursors_within_def power_on_def)
  have run: "perform_all avr_header ?rs (power_on avr_header) = Inr ?s'"
    by (simp add: eval_defs)
  have adm: "all_in_transfer avr_header ?rs (power_on avr_header)"
    by (simp add: eval_defs)
  from cursors_within_preserved [of avr_header "power_on avr_header" ?rs ?s', THEN conjunct2,
      rule_format, OF conjI [OF start conjI [OF adm run]]]
  have "cursors_within ?s'" .
  with start adm run show ?thesis by (intro conjI)
qed

end
